theory Spec2Isabelle
  imports Main
begin

section \<open>Values shared by the payments service and the webhook controller\<close>

text \<open>
  Errors thrown by the JavaScript code. \<open>BadRequestError\<close> carries its message and its
  \<open>statusCode\<close> (400 unless the thrower sets one); \<open>TypeError\<close> and \<open>RangeError\<close> are
  the runtime's own; \<open>FetchError\<close> is a transport failure of \<open>fetch\<close>; \<open>StoreError\<close> is
  an error raised by a collaborator (query builder, member repository).
\<close>

datatype error =
    BadRequestError string nat
  | TypeError string
  | RangeError string
  | FetchError string
  | StoreError string

fun err_message :: "error \<Rightarrow> string" where
  "err_message (BadRequestError m s) = m"
| "err_message (TypeError m) = m"
| "err_message (RangeError m) = m"
| "err_message (FetchError m) = m"
| "err_message (StoreError m) = m"

fun err_statusCode :: "error \<Rightarrow> nat option" where
  "err_statusCode (BadRequestError m s) = Some s"
| "err_statusCode e = None"

datatype log_entry = Info string | Warn string | Error string

text \<open>JavaScript truthiness of a possibly missing string, and its rendering in a template literal.\<close>

fun truthy :: "string option \<Rightarrow> bool" where
  "truthy None = False"
| "truthy (Some s) = (s \<noteq> [])"

fun js_string :: "string option \<Rightarrow> string" where
  "js_string None = ''undefined''"
| "js_string (Some s) = s"

subsection \<open>Local rows, members and tiers\<close>

record customer_row =
  cr_member_id :: string
  cr_customer_id :: string
  cr_email :: "string option"
  cr_name :: "string option"

record product_row =
  pr_product_id :: "string option"
  pr_dodo_product_id :: string

record price_row =
  row_id :: nat
  dodo_price_id :: string
  dodo_product_id :: string
  row_active :: bool
  row_nickname :: "string option"
  row_currency :: string
  row_amount :: int
  row_type :: string
  row_interval :: "string option"

record offer_row =
  or_id :: string
  or_dodo_coupon_id :: "string option"
  or_discount_type :: string

record offer_dto =
  od_id :: string
  od_name :: string
  od_duration :: string
  od_duration_in_months :: "int option"
  od_type :: string
  od_amount :: int
  od_currency :: "string option"

record member =
  m_id :: string
  m_email :: string
  m_name :: "string option"
  m_status :: string
  m_subscribed :: bool
  m_tier_id :: "string option"

text \<open>
  The fields object handed to \<open>memberRepository.update\<close>: a field that is \<open>None\<close> is
  absent from the object and is left as it is; \<open>tier_id: null\<close> is \<open>Some None\<close>.
\<close>

record member_update =
  u_status :: "string option"
  u_subscribed :: "bool option"
  u_tier_id :: "string option option"
  u_email :: "string option"
  u_name :: "string option option"

definition no_update :: member_update where
  "no_update = \<lparr>u_status = None, u_subscribed = None, u_tier_id = None, u_email = None, u_name = None\<rparr>"

record tier =
  t_id :: string
  t_name :: string
  t_currency :: string
  t_monthlyPrice :: int
  t_yearlyPrice :: int
  t_trialDays :: "int option"
  t_type :: string

subsection \<open>The provider\<close>

text \<open>
  What the provider answers to one HTTP request: a 2xx response with its data, a response
  that is not ok with its status and message, or no response at all.
\<close>

datatype 'a reply = Ok 'a | HttpError nat string | NetworkError string

record pcustomer =
  pc_email :: "string option"
  pc_name :: "string option"
  pc_deleted :: bool

record pproduct =
  pp_name :: string
  pp_active :: bool

record pprice =
  px_product_id :: string
  px_currency :: string
  px_unit_amount :: int
  px_active :: bool
  px_nickname :: "string option"
  px_recurring :: "string option"

record coupon_request =
  cq_name :: string
  cq_discount_type :: string
  cq_discount_value :: "int option"
  cq_currency :: "string option"
  cq_duration :: string
  cq_duration_in_months :: "int option"

record session_request =
  sq_price_id :: string
  sq_success_url :: string
  sq_cancel_url :: string
  sq_metadata :: "(string \<times> string) list"
  sq_mode :: string
  sq_customer_id :: "string option"
  sq_customer_email :: "string option"
  sq_trial_period_days :: "int option"
  sq_coupon_id :: "string option"

text \<open>
  The provider's state: what it answers for each id of each kind (an id it does not know
  is answered 404), the coupons and sessions it holds, and \<open>replies\<close>, the answers it
  will give to the next creation requests, in order (the id it assigns, or a failure).
  A created artifact is put in front of its table, so a lookup of its id finds it.
\<close>

record provider =
  customers :: "(string \<times> pcustomer reply) list"
  products :: "(string \<times> pproduct reply) list"
  prices :: "(string \<times> pprice reply) list"
  coupons :: "(string \<times> coupon_request) list"
  sessions :: "(string \<times> session_request) list"
  replies :: "string reply list"

subsection \<open>The world the code runs in\<close>

record world =
  DodoCustomerModel :: "customer_row list"
  DodoProductModel :: "product_row list"
  DodoPriceModel :: "price_row list"
  OfferModel :: "offer_row list"
  offersAPI :: "offer_dto list"
  members :: "member list"
  repo_unavailable :: bool
  tiers :: "tier list"
  dodo :: provider
  logging :: "log_entry list"

definition logging_info :: "string \<Rightarrow> world \<Rightarrow> world" where
  "logging_info msg w = w\<lparr>logging := logging w @ [Info msg]\<rparr>"

definition logging_warn :: "string \<Rightarrow> world \<Rightarrow> world" where
  "logging_warn msg w = w\<lparr>logging := logging w @ [Warn msg]\<rparr>"

definition logging_error :: "string \<Rightarrow> world \<Rightarrow> world" where
  "logging_error msg w = w\<lparr>logging := logging w @ [Error msg]\<rparr>"

section \<open>The member repository and the tiers service\<close>

text \<open>
  The repository is a collaborator: \<open>get\<close> returns the first member with the id (or the
  email) or null, \<open>update\<close> assigns the fields present in the object to the member with
  the id. Both throw while the repository is unavailable, and \<open>update\<close> throws for an
  id it does not hold.
\<close>

definition memberRepository_get_id :: "string \<Rightarrow> world \<Rightarrow> error + member option" where
  "memberRepository_get_id mid w =
     (if repo_unavailable w then Inl (StoreError ''member repository unavailable'')
      else Inr (find (\<lambda>m. m_id m = mid) (members w)))"

definition memberRepository_get_email :: "string \<Rightarrow> world \<Rightarrow> error + member option" where
  "memberRepository_get_email email w =
     (if repo_unavailable w then Inl (StoreError ''member repository unavailable'')
      else Inr (find (\<lambda>m. m_email m = email) (members w)))"

definition apply_update :: "member_update \<Rightarrow> member \<Rightarrow> member" where
  "apply_update u m =
     m\<lparr>m_status := (case u_status u of None \<Rightarrow> m_status m | Some s \<Rightarrow> s),
       m_subscribed := (case u_subscribed u of None \<Rightarrow> m_subscribed m | Some b \<Rightarrow> b),
       m_tier_id := (case u_tier_id u of None \<Rightarrow> m_tier_id m | Some t \<Rightarrow> t),
       m_email := (case u_email u of None \<Rightarrow> m_email m | Some e \<Rightarrow> e),
       m_name := (case u_name u of None \<Rightarrow> m_name m | Some n \<Rightarrow> n)\<rparr>"

definition memberRepository_update :: "string \<Rightarrow> member_update \<Rightarrow> world \<Rightarrow> error + world" where
  "memberRepository_update mid u w =
     (if repo_unavailable w then Inl (StoreError ''member repository unavailable'')
      else if find (\<lambda>m. m_id m = mid) (members w) = None then Inl (StoreError ''Member not found'')
      else Inr (w\<lparr>members := map (\<lambda>m. if m_id m = mid then apply_update u m else m) (members w)\<rparr>))"

definition tiersService_get :: "string option \<Rightarrow> world \<Rightarrow> tier option" where
  "tiersService_get tid w =
     (case tid of None \<Rightarrow> None | Some i \<Rightarrow> find (\<lambda>t. t_id t = i) (tiers w))"

section \<open>DodoWebhookController\<close>

text \<open>
  The object under \<open>event.data.object\<close>, with the fields the handlers read; a field that
  is \<open>None\<close> is undefined in the payload.
\<close>

record webhook_object =
  wo_id :: "string option"
  wo_customer :: "string option"
  wo_customer_email :: "string option"
  wo_status :: "string option"
  wo_price_id :: "string option"
  wo_email :: "string option"
  wo_name :: "string option"
  wo_payment_intent :: "string option"
  wo_amount :: "int option"
  wo_amount_paid :: "int option"
  wo_amount_due :: "int option"

text \<open>
  A parsed event. \<open>ev_object = None\<close> is an event without \<open>data\<close>, or whose
  \<open>data.object\<close> is missing: reading \<open>event.data.object.id\<close> throws a TypeError there.
\<close>

record event =
  ev_type :: "string option"
  ev_object :: "webhook_object option"

record request =
  x_dodo_signature :: "string option"
  body :: "event option"

datatype response_body = Received | ErrorBody string

record response =
  res_status :: nat
  res_json :: response_body

text \<open>
  The HMAC-SHA256 hex digest (secret, then payload) and \<open>JSON.stringify\<close> on events are
  taken as parameters.
\<close>

record node =
  hmac_sha256_hex :: "string \<Rightarrow> string \<Rightarrow> string"
  JSON_stringify :: "event \<Rightarrow> string"

definition findMemberFromCustomerId :: "string option \<Rightarrow> world \<Rightarrow> error + member option" where
  "findMemberFromCustomerId customerId w =
     (case customerId of
        None \<Rightarrow> Inl (StoreError ''Undefined binding(s) detected when compiling FIRST query'')
      | Some cid \<Rightarrow>
         (case find (\<lambda>r. cr_customer_id r = cid) (DodoCustomerModel w) of
            Some customerRecord \<Rightarrow> memberRepository_get_id (cr_member_id customerRecord) w
          | None \<Rightarrow> Inr None))"

definition findMemberFromPayment :: "webhook_object \<Rightarrow> world \<Rightarrow> error + member option" where
  "findMemberFromPayment payment w =
     (if truthy (wo_customer payment) then findMemberFromCustomerId (wo_customer payment) w
      else if truthy (wo_customer_email payment)
        then memberRepository_get_email (the (wo_customer_email payment)) w
      else Inr None)"

definition findMemberFromSubscription :: "webhook_object \<Rightarrow> world \<Rightarrow> error + member option" where
  "findMemberFromSubscription subscription w = findMemberFromCustomerId (wo_customer subscription) w"

definition findMemberFromCustomer :: "webhook_object \<Rightarrow> world \<Rightarrow> error + member option" where
  "findMemberFromCustomer customer w = findMemberFromCustomerId (wo_id customer) w"

definition findTierFromSubscription :: "webhook_object \<Rightarrow> world \<Rightarrow> tier option \<times> world" where
  "findTierFromSubscription subscription w =
     (case wo_price_id subscription of
        None \<Rightarrow> (None, logging_error
            (''Error finding tier from subscription: '' @ ''Undefined binding(s) detected when compiling FIRST query'') w)
      | Some pid \<Rightarrow>
         (case find (\<lambda>r. dodo_price_id r = pid) (DodoPriceModel w) of
            None \<Rightarrow> (None, w)
          | Some priceRecord \<Rightarrow>
             (case find (\<lambda>r. pr_dodo_product_id r = dodo_product_id priceRecord) (DodoProductModel w) of
                None \<Rightarrow> (None, w)
              | Some productRecord \<Rightarrow> (tiersService_get (pr_product_id productRecord) w, w))))"

definition grantTierAccess :: "member \<Rightarrow> webhook_object \<Rightarrow> world \<Rightarrow> world" where
  "grantTierAccess mem subscription w =
     (case findTierFromSubscription subscription w of
        (None, w1) \<Rightarrow> w1
      | (Some tr, w1) \<Rightarrow>
         (case memberRepository_update (m_id mem) (no_update\<lparr>u_tier_id := Some (Some (t_id tr))\<rparr>) w1 of
            Inl e \<Rightarrow> logging_error (''Error granting tier access: '' @ err_message e) w1
          | Inr w2 \<Rightarrow> w2))"

definition revokeTierAccess :: "member \<Rightarrow> world \<Rightarrow> world" where
  "revokeTierAccess mem w =
     (case memberRepository_update (m_id mem) (no_update\<lparr>u_tier_id := Some None\<rparr>) w of
        Inl e \<Rightarrow> logging_error (''Error revoking tier access: '' @ err_message e) w
      | Inr w1 \<Rightarrow> w1)"

definition updateMemberSubscription :: "member \<Rightarrow> webhook_object \<Rightarrow> world \<Rightarrow> world" where
  "updateMemberSubscription mem subscription w =
     (let updates = no_update\<lparr>u_status :=
            Some (if wo_status subscription = Some ''active'' then ''paid'' else ''free'')\<rparr>;
          (updates1, w1) =
            (if wo_status subscription = Some ''active''
             then (case findTierFromSubscription subscription w of
                     (Some tr, w') \<Rightarrow> (updates\<lparr>u_tier_id := Some (Some (t_id tr))\<rparr>, w')
                   | (None, w') \<Rightarrow> (updates, w'))
             else (updates\<lparr>u_tier_id := Some None\<rparr>, w))
      in case memberRepository_update (m_id mem) updates1 w1 of
           Inl e \<Rightarrow> logging_error (''Error updating member subscription: '' @ err_message e) w1
         | Inr w2 \<Rightarrow> w2)"

text \<open>
  Every handler reads \<open>event.data.object\<close> and logs its id before its own
  \<open>try\<close>: without the object that throws to the caller. Inside the \<open>try\<close> every
  error is logged and swallowed.
\<close>

definition no_object :: error where
  "no_object = TypeError ''Cannot read properties of undefined''"

definition handlePaymentSucceeded :: "event \<Rightarrow> world \<Rightarrow> (error + unit) \<times> world" where
  "handlePaymentSucceeded ev w =
     (case ev_object ev of
        None \<Rightarrow> (Inl no_object, w)
      | Some payment \<Rightarrow>
         (let w1 = logging_info (''Payment succeeded: '' @ js_string (wo_id payment)) w in
          case findMemberFromPayment payment w1 of
            Inl e \<Rightarrow> (Inr (), logging_error (''Error processing payment success: '' @ err_message e) w1)
          | Inr None \<Rightarrow> (Inr (), w1)
          | Inr (Some mem) \<Rightarrow>
             (case memberRepository_update (m_id mem) (no_update\<lparr>u_status := Some ''paid''\<rparr>) w1 of
                Inl e \<Rightarrow> (Inr (), logging_error (''Error processing payment success: '' @ err_message e) w1)
              | Inr w2 \<Rightarrow> (Inr (), logging_info (''Updated member '' @ m_id mem @ '' status to paid'') w2))))"

definition handlePaymentFailed :: "event \<Rightarrow> world \<Rightarrow> (error + unit) \<times> world" where
  "handlePaymentFailed ev w =
     (case ev_object ev of
        None \<Rightarrow> (Inl no_object, w)
      | Some payment \<Rightarrow>
         (let w1 = logging_info (''Payment failed: '' @ js_string (wo_id payment)) w in
          case findMemberFromPayment payment w1 of
            Inl e \<Rightarrow> (Inr (), logging_error (''Error processing payment failure: '' @ err_message e) w1)
          | Inr None \<Rightarrow> (Inr (), w1)
          | Inr (Some mem) \<Rightarrow> (Inr (), logging_info (''Payment failed for member '' @ m_id mem) w1)))"

definition handleSubscriptionCreated :: "event \<Rightarrow> world \<Rightarrow> (error + unit) \<times> world" where
  "handleSubscriptionCreated ev w =
     (case ev_object ev of
        None \<Rightarrow> (Inl no_object, w)
      | Some subscription \<Rightarrow>
         (let w1 = logging_info (''Subscription created: '' @ js_string (wo_id subscription)) w in
          case findMemberFromSubscription subscription w1 of
            Inl e \<Rightarrow> (Inr (), logging_error (''Error processing subscription creation: '' @ err_message e) w1)
          | Inr None \<Rightarrow> (Inr (), w1)
          | Inr (Some mem) \<Rightarrow>
             (case memberRepository_update (m_id mem)
                     (no_update\<lparr>u_status := Some ''paid'', u_subscribed := Some True\<rparr>) w1 of
                Inl e \<Rightarrow> (Inr (), logging_error (''Error processing subscription creation: '' @ err_message e) w1)
              | Inr w2 \<Rightarrow>
                 (Inr (), logging_info (''Granted subscription access to member '' @ m_id mem)
                            (grantTierAccess mem subscription w2)))))"

definition handleSubscriptionUpdated :: "event \<Rightarrow> world \<Rightarrow> (error + unit) \<times> world" where
  "handleSubscriptionUpdated ev w =
     (case ev_object ev of
        None \<Rightarrow> (Inl no_object, w)
      | Some subscription \<Rightarrow>
         (let w1 = logging_info (''Subscription updated: '' @ js_string (wo_id subscription)) w in
          case findMemberFromSubscription subscription w1 of
            Inl e \<Rightarrow> (Inr (), logging_error (''Error processing subscription update: '' @ err_message e) w1)
          | Inr None \<Rightarrow> (Inr (), w1)
          | Inr (Some mem) \<Rightarrow>
             (Inr (), logging_info (''Updated subscription for member '' @ m_id mem)
                        (updateMemberSubscription mem subscription w1))))"

definition handleSubscriptionCancelled :: "event \<Rightarrow> world \<Rightarrow> (error + unit) \<times> world" where
  "handleSubscriptionCancelled ev w =
     (case ev_object ev of
        None \<Rightarrow> (Inl no_object, w)
      | Some subscription \<Rightarrow>
         (let w1 = logging_info (''Subscription cancelled: '' @ js_string (wo_id subscription)) w in
          case findMemberFromSubscription subscription w1 of
            Inl e \<Rightarrow> (Inr (), logging_error (''Error processing subscription cancellation: '' @ err_message e) w1)
          | Inr None \<Rightarrow> (Inr (), w1)
          | Inr (Some mem) \<Rightarrow>
             (case memberRepository_update (m_id mem)
                     (no_update\<lparr>u_status := Some ''free'', u_subscribed := Some False\<rparr>) w1 of
                Inl e \<Rightarrow> (Inr (), logging_error (''Error processing subscription cancellation: '' @ err_message e) w1)
              | Inr w2 \<Rightarrow>
                 (Inr (), logging_info (''Revoked subscription access for member '' @ m_id mem)
                            (revokeTierAccess mem w2)))))"

definition handleCustomerCreated :: "event \<Rightarrow> world \<Rightarrow> (error + unit) \<times> world" where
  "handleCustomerCreated ev w =
     (case ev_object ev of
        None \<Rightarrow> (Inl no_object, w)
      | Some customer \<Rightarrow> (Inr (), logging_info (''Customer created: '' @ js_string (wo_id customer)) w))"

definition handleCustomerUpdated :: "event \<Rightarrow> world \<Rightarrow> (error + unit) \<times> world" where
  "handleCustomerUpdated ev w =
     (case ev_object ev of
        None \<Rightarrow> (Inl no_object, w)
      | Some customer \<Rightarrow>
         (let w1 = logging_info (''Customer updated: '' @ js_string (wo_id customer)) w in
          case findMemberFromCustomer customer w1 of
            Inl e \<Rightarrow> (Inr (), logging_error (''Error processing customer update: '' @ err_message e) w1)
          | Inr None \<Rightarrow> (Inr (), w1)
          | Inr (Some mem) \<Rightarrow>
             (if Some (m_email mem) \<noteq> wo_email customer \<or> m_name mem \<noteq> wo_name customer
              then (case memberRepository_update (m_id mem)
                            (no_update\<lparr>u_email := wo_email customer, u_name := Some (wo_name customer)\<rparr>) w1 of
                      Inl e \<Rightarrow> (Inr (), logging_error (''Error processing customer update: '' @ err_message e) w1)
                    | Inr w2 \<Rightarrow> (Inr (), logging_info (''Updated member '' @ m_id mem @ '' from customer update'') w2))
              else (Inr (), w1))))"

definition empty_object :: webhook_object where
  "empty_object = \<lparr>wo_id = None, wo_customer = None, wo_customer_email = None, wo_status = None,
     wo_price_id = None, wo_email = None, wo_name = None, wo_payment_intent = None,
     wo_amount = None, wo_amount_paid = None, wo_amount_due = None\<rparr>"

definition handleInvoicePaymentSucceeded :: "event \<Rightarrow> world \<Rightarrow> (error + unit) \<times> world" where
  "handleInvoicePaymentSucceeded ev w =
     (case ev_object ev of
        None \<Rightarrow> (Inl no_object, w)
      | Some invoice \<Rightarrow>
         handlePaymentSucceeded
           \<lparr>ev_type = None,
            ev_object = Some (empty_object\<lparr>wo_id := wo_payment_intent invoice,
                                wo_customer := wo_customer invoice, wo_amount := wo_amount_paid invoice\<rparr>)\<rparr>
           (logging_info (''Invoice payment succeeded: '' @ js_string (wo_id invoice)) w))"

definition handleInvoicePaymentFailed :: "event \<Rightarrow> world \<Rightarrow> (error + unit) \<times> world" where
  "handleInvoicePaymentFailed ev w =
     (case ev_object ev of
        None \<Rightarrow> (Inl no_object, w)
      | Some invoice \<Rightarrow>
         handlePaymentFailed
           \<lparr>ev_type = None,
            ev_object = Some (empty_object\<lparr>wo_id := wo_payment_intent invoice,
                                wo_customer := wo_customer invoice, wo_amount := wo_amount_due invoice\<rparr>)\<rparr>
           (logging_info (''Invoice payment failed: '' @ js_string (wo_id invoice)) w))"

definition routeWebhookEvent :: "event \<Rightarrow> world \<Rightarrow> (error + unit) \<times> world" where
  "routeWebhookEvent ev w =
     (if ev_type ev = Some ''payment.succeeded'' then handlePaymentSucceeded ev w
      else if ev_type ev = Some ''payment.failed'' then handlePaymentFailed ev w
      else if ev_type ev = Some ''subscription.created'' then handleSubscriptionCreated ev w
      else if ev_type ev = Some ''subscription.updated'' then handleSubscriptionUpdated ev w
      else if ev_type ev = Some ''subscription.cancelled'' then handleSubscriptionCancelled ev w
      else if ev_type ev = Some ''customer.created'' then handleCustomerCreated ev w
      else if ev_type ev = Some ''customer.updated'' then handleCustomerUpdated ev w
      else if ev_type ev = Some ''invoice.payment_succeeded'' then handleInvoicePaymentSucceeded ev w
      else if ev_type ev = Some ''invoice.payment_failed'' then handleInvoicePaymentFailed ev w
      else (Inr (), logging_info (''Unhandled Dodo webhook event: '' @ js_string (ev_type ev)) w))"

text \<open>
  \<open>DodoAPI.verifyWebhookSignature\<close>: the digest of an undefined payload and the buffer
  of an undefined signature throw a TypeError, \<open>timingSafeEqual\<close> throws a RangeError on
  buffers of different length, and compares them otherwise.
\<close>

definition verifyWebhookSignature :: "node \<Rightarrow> string option \<Rightarrow> string option \<Rightarrow> string \<Rightarrow> error + bool" where
  "verifyWebhookSignature nd payload signature secret =
     (case payload of
        None \<Rightarrow> Inl (TypeError ''The data argument must be of type string'')
      | Some p \<Rightarrow>
         (let expectedSignature = hmac_sha256_hex nd secret p in
          case signature of
            None \<Rightarrow> Inl (TypeError ''The first argument must be of type string'')
          | Some s \<Rightarrow>
             (if length s \<noteq> length expectedSignature
              then Inl (RangeError ''Input buffers must have the same byte length'')
              else Inr (s = expectedSignature))))"

text \<open>
  \<open>DodoAPI.parseWebhook\<close> parses the string that \<open>handleWebhook\<close> has just made of
  the request body, which gives the body back; an undefined body does not parse.
\<close>

definition parseWebhook :: "event option \<Rightarrow> error + event" where
  "parseWebhook payload =
     (case payload of
        None \<Rightarrow> Inl (BadRequestError ''Invalid webhook payload'' 400)
      | Some ev \<Rightarrow> Inr ev)"

definition respond_error :: "error \<Rightarrow> world \<Rightarrow> response \<times> world" where
  "respond_error e w =
     (\<lparr>res_status = 400, res_json = ErrorBody (err_message e)\<rparr>,
      logging_error (''Dodo webhook error: '' @ err_message e) w)"

definition handleWebhook :: "node \<Rightarrow> string \<Rightarrow> request \<Rightarrow> world \<Rightarrow> response \<times> world" where
  "handleWebhook nd webhookSecret req w =
     (case verifyWebhookSignature nd (map_option (JSON_stringify nd) (body req))
             (x_dodo_signature req) webhookSecret of
        Inl e \<Rightarrow> respond_error e w
      | Inr isValid \<Rightarrow>
         (if \<not> isValid then respond_error (BadRequestError ''Invalid webhook signature'' 400) w
          else case parseWebhook (body req) of
                 Inl e \<Rightarrow> respond_error e w
               | Inr ev \<Rightarrow>
                  (case routeWebhookEvent ev
                          (logging_info (''Processing Dodo webhook: '' @ js_string (ev_type ev)) w) of
                     (Inl e, w1) \<Rightarrow> respond_error e w1
                   | (Inr u, w1) \<Rightarrow> (\<lparr>res_status = 200, res_json = Received\<rparr>, w1))))"

section \<open>DodoAPI\<close>

text \<open>Objects returned by the API service.\<close>

record dodo_customer =
  dc_id :: "string option"
  dc_email :: "string option"
  dc_name :: "string option"
  dc_deleted :: bool

record dodo_product =
  dp_id :: string
  dp_name :: string
  dp_active :: bool

record dodo_price =
  dx_id :: string
  dx_currency :: string
  dx_unit_amount :: int
  dx_active :: bool
  dx_nickname :: "string option"
  dx_recurring :: "string option"

record dodo_session =
  ds_id :: string
  ds_url :: string

text \<open>\<open>String.prototype.toLowerCase\<close> on ASCII text (currency codes).\<close>

definition lower_char :: "char \<Rightarrow> char" where
  "lower_char c =
     (if (65::nat) \<le> of_char c \<and> of_char c \<le> (90::nat) then char_of (of_char c + (32::nat)) else c)"

definition toLowerCase :: "string \<Rightarrow> string" where
  "toLowerCase s = map lower_char s"

text \<open>
  \<open>makeRequest\<close>, given the provider's answer: a response that is not ok is thrown as a
  BadRequestError with the response's status, and every failure is logged before it is
  thrown again.
\<close>

definition makeRequest :: "'a reply \<Rightarrow> world \<Rightarrow> (error + 'a) \<times> world" where
  "makeRequest r w =
     (case r of
        Ok x \<Rightarrow> (Inr x, w)
      | HttpError st msg \<Rightarrow>
         (let e = BadRequestError (''Dodo API Error: '' @ (if msg = [] then ''Unknown error'' else msg)) st
          in (Inl e, logging_error (''Dodo API request failed: '' @ err_message e) w))
      | NetworkError msg \<Rightarrow>
         (Inl (FetchError msg), logging_error (''Dodo API request failed: '' @ msg) w))"

text \<open>A GET of one id: the provider's answer for it, 404 for an id it does not know.\<close>

definition provider_get :: "(string \<times> 'a reply) list \<Rightarrow> string \<Rightarrow> 'a reply" where
  "provider_get tbl i = (case map_of tbl i of None \<Rightarrow> HttpError 404 ''Not found'' | Some r \<Rightarrow> r)"

text \<open>
  A creation request: the provider gives its next scripted answer; when that is an id, the
  artifact is stored under it by \<open>store\<close>. Without a scripted answer the request fails.
\<close>

definition dodo_post :: "(string \<Rightarrow> provider \<Rightarrow> provider) \<Rightarrow> world \<Rightarrow> (error + string) \<times> world" where
  "dodo_post store w =
     (case replies (dodo w) of
        [] \<Rightarrow> makeRequest (NetworkError ''no response'') w
      | r # rs \<Rightarrow>
         (let p = (dodo w)\<lparr>replies := rs\<rparr>;
              p' = (case r of Ok i \<Rightarrow> store i p | HttpError st msg \<Rightarrow> p | NetworkError msg \<Rightarrow> p)
          in makeRequest r (w\<lparr>dodo := p'\<rparr>)))"

record checkout_data =
  ck_metadata :: "(string \<times> string) list option"
  ck_successUrl :: string
  ck_cancelUrl :: string
  ck_trialDays :: "int option"
  ck_coupon :: "string option"
  ck_customerEmail :: "string option"

definition truthy_num :: "int option \<Rightarrow> bool" where
  "truthy_num n = (case n of None \<Rightarrow> False | Some k \<Rightarrow> k \<noteq> 0)"

definition sessionData :: "string \<Rightarrow> dodo_customer option \<Rightarrow> checkout_data \<Rightarrow> session_request" where
  "sessionData priceId customer data =
     \<lparr>sq_price_id = priceId,
      sq_success_url = ck_successUrl data,
      sq_cancel_url = ck_cancelUrl data,
      sq_metadata = (case ck_metadata data of None \<Rightarrow> [] | Some md \<Rightarrow> md),
      sq_mode = ''subscription'',
      sq_customer_id = (case customer of Some c \<Rightarrow> dc_id c | None \<Rightarrow> None),
      sq_customer_email =
        (case customer of Some c \<Rightarrow> None
         | None \<Rightarrow> if truthy (ck_customerEmail data) then ck_customerEmail data else None),
      sq_trial_period_days = (if truthy_num (ck_trialDays data) then ck_trialDays data else None),
      sq_coupon_id = (if truthy (ck_coupon data) then ck_coupon data else None)\<rparr>"

text \<open>The hosted URL the provider returns for a session is taken to be made of its id.\<close>

definition checkout_url :: "string \<Rightarrow> string" where
  "checkout_url sid = ''https://checkout.dodopayments.com/'' @ sid"

definition createCheckoutSession ::
  "string \<Rightarrow> dodo_customer option \<Rightarrow> checkout_data \<Rightarrow> world \<Rightarrow> (error + dodo_session) \<times> world" where
  "createCheckoutSession priceId customer data w =
     (case dodo_post (\<lambda>i p. p\<lparr>sessions := (i, sessionData priceId customer data) # sessions p\<rparr>) w of
        (Inl e, w1) \<Rightarrow> (Inl e, w1)
      | (Inr i, w1) \<Rightarrow> (Inr \<lparr>ds_id = i, ds_url = checkout_url i\<rparr>, w1))"

definition createCustomer ::
  "string option \<Rightarrow> string option \<Rightarrow> world \<Rightarrow> (error + dodo_customer) \<times> world" where
  "createCustomer email name w =
     (case dodo_post (\<lambda>i p. p\<lparr>customers :=
               (i, Ok \<lparr>pc_email = email, pc_name = name, pc_deleted = False\<rparr>) # customers p\<rparr>) w of
        (Inl e, w1) \<Rightarrow> (Inl e, w1)
      | (Inr i, w1) \<Rightarrow>
         (Inr \<lparr>dc_id = Some i, dc_email = email, dc_name = name, dc_deleted = False\<rparr>, w1))"

definition deleted_customer :: dodo_customer where
  "deleted_customer = \<lparr>dc_id = None, dc_email = None, dc_name = None, dc_deleted = True\<rparr>"

definition getCustomer :: "string \<Rightarrow> world \<Rightarrow> (error + dodo_customer) \<times> world" where
  "getCustomer customerId w =
     (case makeRequest (provider_get (customers (dodo w)) customerId) w of
        (Inr c, w1) \<Rightarrow>
          (Inr \<lparr>dc_id = Some customerId, dc_email = pc_email c, dc_name = pc_name c,
                dc_deleted = pc_deleted c\<rparr>, w1)
      | (Inl e, w1) \<Rightarrow>
          (if err_statusCode e = Some 404 then (Inr deleted_customer, w1) else (Inl e, w1)))"

definition createProduct :: "string \<Rightarrow> world \<Rightarrow> (error + dodo_product) \<times> world" where
  "createProduct name w =
     (case dodo_post (\<lambda>i p. p\<lparr>products := (i, Ok \<lparr>pp_name = name, pp_active = True\<rparr>) # products p\<rparr>) w of
        (Inl e, w1) \<Rightarrow> (Inl e, w1)
      | (Inr i, w1) \<Rightarrow> (Inr \<lparr>dp_id = i, dp_name = name, dp_active = True\<rparr>, w1))"

definition getProduct :: "string \<Rightarrow> world \<Rightarrow> (error + dodo_product) \<times> world" where
  "getProduct productId w =
     (case makeRequest (provider_get (products (dodo w)) productId) w of
        (Inr p, w1) \<Rightarrow> (Inr \<lparr>dp_id = productId, dp_name = pp_name p, dp_active = pp_active p\<rparr>, w1)
      | (Inl e, w1) \<Rightarrow> (Inl e, w1))"

record price_data =
  pd_product :: string
  pd_interval :: "string option"
  pd_currency :: string
  pd_amount :: int
  pd_nickname :: "string option"
  pd_type :: string
  pd_active :: bool

definition price_request :: "price_data \<Rightarrow> pprice" where
  "price_request priceData =
     \<lparr>px_product_id = pd_product priceData,
      px_currency = toLowerCase (pd_currency priceData),
      px_unit_amount = pd_amount priceData,
      px_active = pd_active priceData,
      px_nickname = pd_nickname priceData,
      px_recurring = (if pd_type priceData = ''recurring'' then pd_interval priceData else None)\<rparr>"

definition price_object :: "string \<Rightarrow> pprice \<Rightarrow> dodo_price" where
  "price_object i p =
     \<lparr>dx_id = i, dx_currency = px_currency p, dx_unit_amount = px_unit_amount p,
      dx_active = px_active p, dx_nickname = px_nickname p, dx_recurring = px_recurring p\<rparr>"

definition createPrice :: "price_data \<Rightarrow> world \<Rightarrow> (error + dodo_price) \<times> world" where
  "createPrice priceData w =
     (case dodo_post (\<lambda>i p. p\<lparr>prices := (i, Ok (price_request priceData)) # prices p\<rparr>) w of
        (Inl e, w1) \<Rightarrow> (Inl e, w1)
      | (Inr i, w1) \<Rightarrow> (Inr (price_object i (price_request priceData)), w1))"

text \<open>\<open>getPrice\<close> returns the price without its nickname.\<close>

definition getPrice :: "string \<Rightarrow> world \<Rightarrow> (error + dodo_price) \<times> world" where
  "getPrice priceId w =
     (case makeRequest (provider_get (prices (dodo w)) priceId) w of
        (Inr p, w1) \<Rightarrow> (Inr ((price_object priceId p)\<lparr>dx_nickname := None\<rparr>), w1)
      | (Inl e, w1) \<Rightarrow> (Inl e, w1))"

record coupon_data =
  cd_name :: string
  cd_duration :: string
  cd_duration_in_months :: "int option"
  cd_percent_off :: "int option"
  cd_amount_off :: "int option"
  cd_currency :: "string option"

definition coupon_request_of :: "coupon_data \<Rightarrow> coupon_request" where
  "coupon_request_of couponData =
     \<lparr>cq_name = cd_name couponData,
      cq_discount_type = (if truthy_num (cd_percent_off couponData) then ''percentage'' else ''fixed_amount''),
      cq_discount_value =
        (if truthy_num (cd_percent_off couponData) then cd_percent_off couponData
         else cd_amount_off couponData),
      cq_currency = cd_currency couponData,
      cq_duration = cd_duration couponData,
      cq_duration_in_months = cd_duration_in_months couponData\<rparr>"

definition createCoupon :: "coupon_data \<Rightarrow> world \<Rightarrow> (error + string) \<times> world" where
  "createCoupon couponData w =
     dodo_post (\<lambda>i p. p\<lparr>coupons := (i, coupon_request_of couponData) # coupons p\<rparr>) w"

section \<open>PaymentsService\<close>

datatype cadence = month | year

fun cadence_str :: "cadence \<Rightarrow> string" where
  "cadence_str month = ''month''"
| "cadence_str year = ''year''"

text \<open>
  Modelled from the spec: \<open>Tier.getPrice\<close> is not among the sources; the spec's
  \<open>tier.priceFor(cadence)\<close> is the tier's price for the cadence.
\<close>

fun tier_getPrice :: "tier \<Rightarrow> cadence \<Rightarrow> int" where
  "tier_getPrice tr month = t_monthlyPrice tr"
| "tier_getPrice tr year = t_yearlyPrice tr"

record offer =
  of_id :: string
  of_tier_id :: string
  of_type :: string
  of_amount :: int

subsection \<open>Customers\<close>

definition createCustomerForMember :: "member \<Rightarrow> world \<Rightarrow> (error + dodo_customer) \<times> world" where
  "createCustomerForMember mem w =
     (case createCustomer (Some (m_email mem)) (m_name mem) w of
        (Inl e, w1) \<Rightarrow> (Inl e, w1)
      | (Inr customer, w1) \<Rightarrow>
         (case dc_id customer of
            None \<Rightarrow> (Inl (StoreError ''customer_id must not be null''), w1)
          | Some i \<Rightarrow>
             (Inr customer,
              w1\<lparr>DodoCustomerModel := DodoCustomerModel w1 @
                    [\<lparr>cr_member_id = m_id mem, cr_customer_id = i,
                      cr_email = dc_email customer, cr_name = dc_name customer\<rparr>]\<rparr>)))"

fun scanCustomers :: "string list \<Rightarrow> world \<Rightarrow> dodo_customer option \<times> world" where
  "scanCustomers [] w = (None, w)"
| "scanCustomers (customer_id # rows) w =
     (case getCustomer customer_id w of
        (Inr customer, w1) \<Rightarrow>
          (if \<not> dc_deleted customer then (Some customer, w1) else scanCustomers rows w1)
      | (Inl err, w1) \<Rightarrow> scanCustomers rows (logging_warn (err_message err) w1))"

definition getCustomerForMember :: "member \<Rightarrow> world \<Rightarrow> (error + dodo_customer) \<times> world" where
  "getCustomerForMember mem w =
     (let rows = map cr_customer_id (filter (\<lambda>r. cr_member_id r = m_id mem) (DodoCustomerModel w))
      in case scanCustomers rows w of
           (Some customer, w1) \<Rightarrow> (Inr customer, w1)
         | (None, w1) \<Rightarrow> createCustomerForMember mem w1)"

subsection \<open>Products\<close>

definition createProductForTier :: "tier \<Rightarrow> world \<Rightarrow> (error + dodo_product) \<times> world" where
  "createProductForTier tr w =
     (case createProduct (t_name tr) w of
        (Inl e, w1) \<Rightarrow> (Inl e, w1)
      | (Inr product, w1) \<Rightarrow>
         (Inr product,
          w1\<lparr>DodoProductModel := DodoProductModel w1 @
                [\<lparr>pr_product_id = Some (t_id tr), pr_dodo_product_id = dp_id product\<rparr>]\<rparr>))"

fun scanProducts :: "string list \<Rightarrow> world \<Rightarrow> string option \<times> world" where
  "scanProducts [] w = (None, w)"
| "scanProducts (product_id # rows) w =
     (case getProduct product_id w of
        (Inr product, w1) \<Rightarrow>
          (if dp_active product then (Some (dp_id product), w1) else scanProducts rows w1)
      | (Inl err, w1) \<Rightarrow> scanProducts rows (logging_warn (err_message err) w1))"

definition getProductForTier :: "tier \<Rightarrow> world \<Rightarrow> (error + string) \<times> world" where
  "getProductForTier tr w =
     (let rows = map pr_dodo_product_id
                   (filter (\<lambda>r. pr_product_id r = Some (t_id tr)) (DodoProductModel w))
      in case scanProducts rows w of
           (Some i, w1) \<Rightarrow> (Inr i, w1)
         | (None, w1) \<Rightarrow>
            (case createProductForTier tr w1 of
               (Inl e, w2) \<Rightarrow> (Inl e, w2)
             | (Inr product, w2) \<Rightarrow> (Inr (dp_id product), w2)))"

subsection \<open>Prices\<close>

text \<open>A new row gets an id that no row of the table has.\<close>

definition new_row_id :: "price_row list \<Rightarrow> nat" where
  "new_row_id rows = Suc (fold max (map row_id rows) 0)"

definition DodoPriceModel_edit_active :: "bool \<Rightarrow> nat \<Rightarrow> world \<Rightarrow> world" where
  "DodoPriceModel_edit_active a i w =
     w\<lparr>DodoPriceModel := map (\<lambda>r. if row_id r = i then r\<lparr>row_active := a\<rparr> else r) (DodoPriceModel w)\<rparr>"

definition createPriceForTierCadence :: "tier \<Rightarrow> cadence \<Rightarrow> world \<Rightarrow> (error + dodo_price) \<times> world" where
  "createPriceForTierCadence tr cad w =
     (case getProductForTier tr w of
        (Inl e, w1) \<Rightarrow> (Inl e, w1)
      | (Inr product, w1) \<Rightarrow>
         (case createPrice
                 \<lparr>pd_product = product, pd_interval = Some (cadence_str cad),
                  pd_currency = t_currency tr, pd_amount = tier_getPrice tr cad,
                  pd_nickname = Some (if cad = month then ''Monthly'' else ''Yearly''),
                  pd_type = ''recurring'', pd_active = True\<rparr> w1 of
            (Inl e, w2) \<Rightarrow> (Inl e, w2)
          | (Inr price, w2) \<Rightarrow>
             (Inr price,
              w2\<lparr>DodoPriceModel := DodoPriceModel w2 @
                    [\<lparr>row_id = new_row_id (DodoPriceModel w2), dodo_price_id = dx_id price,
                      dodo_product_id = product, row_active = dx_active price,
                      row_nickname = dx_nickname price, row_currency = dx_currency price,
                      row_amount = dx_unit_amount price, row_type = ''recurring'',
                      row_interval = Some (cadence_str cad)\<rparr>]\<rparr>)))"

definition price_verified :: "string \<Rightarrow> int \<Rightarrow> cadence \<Rightarrow> dodo_price \<Rightarrow> bool" where
  "price_verified currency amount cad price =
     (dx_active price \<and> toLowerCase (dx_currency price) = currency
      \<and> dx_unit_amount price = amount \<and> dx_recurring price = Some (cadence_str cad))"

fun scanPrices :: "string \<Rightarrow> int \<Rightarrow> cadence \<Rightarrow> price_row list \<Rightarrow> world \<Rightarrow> string option \<times> world" where
  "scanPrices currency amount cad [] w = (None, w)"
| "scanPrices currency amount cad (row # rows) w =
     (case getPrice (dodo_price_id row) w of
        (Inr price, w1) \<Rightarrow>
          (if price_verified currency amount cad price then (Some (dx_id price), w1)
           else scanPrices currency amount cad rows
                  (DodoPriceModel_edit_active (dx_active price) (row_id row) w1))
      | (Inl err, w1) \<Rightarrow>
          scanPrices currency amount cad rows
            (logging_error (err_message err)
               (logging_error (''Failed to lookup Dodo Price '' @ dodo_price_id row) w1)))"

definition price_candidate :: "string \<Rightarrow> string \<Rightarrow> int \<Rightarrow> cadence \<Rightarrow> price_row \<Rightarrow> bool" where
  "price_candidate product currency amount cad r =
     (dodo_product_id r = product \<and> row_currency r = currency
      \<and> row_interval r = Some (cadence_str cad) \<and> row_amount r = amount
      \<and> row_active r \<and> row_type r = ''recurring'')"

definition getPriceForTierCadence :: "tier \<Rightarrow> cadence \<Rightarrow> world \<Rightarrow> (error + string) \<times> world" where
  "getPriceForTierCadence tr cad w =
     (case getProductForTier tr w of
        (Inl e, w1) \<Rightarrow> (Inl e, w1)
      | (Inr product, w1) \<Rightarrow>
         (let currency = toLowerCase (t_currency tr);
              amount = tier_getPrice tr cad;
              rows = filter (price_candidate product currency amount cad) (DodoPriceModel w1)
          in case scanPrices currency amount cad rows w1 of
               (Some i, w2) \<Rightarrow> (Inr i, w2)
             | (None, w2) \<Rightarrow>
                (case createPriceForTierCadence tr cad w2 of
                   (Inl e, w3) \<Rightarrow> (Inl e, w3)
                 | (Inr price, w3) \<Rightarrow> (Inr (dx_id price), w3))))"

subsection \<open>Coupons\<close>

definition couponData_of :: "offer_dto \<Rightarrow> coupon_data" where
  "couponData_of ofr =
     \<lparr>cd_name = od_name ofr,
      cd_duration = od_duration ofr,
      cd_duration_in_months =
        (if od_duration ofr = ''repeating'' then od_duration_in_months ofr else None),
      cd_percent_off = (if od_type ofr = ''percent'' then Some (od_amount ofr) else None),
      cd_amount_off = (if od_type ofr = ''percent'' then None else Some (od_amount ofr)),
      cd_currency = (if od_type ofr = ''percent'' then None else od_currency ofr)\<rparr>"

text \<open>\<open>createCouponForOffer\<close> on what \<open>offersAPI.getOffer\<close> returned, which is null for an unknown id.\<close>

definition createCouponForOffer :: "offer_dto option \<Rightarrow> world \<Rightarrow> (error + unit) \<times> world" where
  "createCouponForOffer offer_opt w =
     (case offer_opt of
        None \<Rightarrow> (Inl (TypeError ''Cannot read properties of null''), w)
      | Some ofr \<Rightarrow>
         (case createCoupon (couponData_of ofr) w of
            (Inl e, w1) \<Rightarrow> (Inl e, w1)
          | (Inr coupon_id, w1) \<Rightarrow>
             (Inr (),
              w1\<lparr>OfferModel := map (\<lambda>r. if or_id r = od_id ofr
                                         then r\<lparr>or_dodo_coupon_id := Some coupon_id\<rparr> else r)
                                   (OfferModel w1)\<rparr>)))"

definition offersAPI_getOffer :: "string \<Rightarrow> world \<Rightarrow> offer_dto option" where
  "offersAPI_getOffer offerId w = find (\<lambda>d. od_id d = offerId) (offersAPI w)"

lemma createCouponForOffer_replies:
  "createCouponForOffer o_opt w = (Inr u, w1) \<Longrightarrow> length (replies (dodo w1)) < length (replies (dodo w))"
  by (auto simp: createCouponForOffer_def createCoupon_def dodo_post_def makeRequest_def Let_def
           split: option.splits prod.splits sum.splits list.splits reply.splits)

text \<open>
  The coupon of an offer, created when the offer has none. The function calls itself after
  a creation; each creation uses up one of the provider's answers.
\<close>

function getCouponForOffer :: "string \<Rightarrow> world \<Rightarrow> (error + string option) \<times> world" where
  "getCouponForOffer offerId w =
     (case find (\<lambda>r. or_id r = offerId) (OfferModel w) of
        None \<Rightarrow> (Inr None, w)
      | Some row \<Rightarrow>
         (if or_discount_type row = ''trial'' then (Inr None, w)
          else if \<not> truthy (or_dodo_coupon_id row) then
            (case createCouponForOffer (offersAPI_getOffer offerId w) w of
               (Inl e, w1) \<Rightarrow> (Inl e, w1)
             | (Inr u, w1) \<Rightarrow> getCouponForOffer offerId w1)
          else (Inr (or_dodo_coupon_id row), w)))"
  by pat_completeness auto
termination
  by (relation "measure (\<lambda>(offerId, w). length (replies (dodo w)))")
     (auto dest: createCouponForOffer_replies [OF sym])

subsection \<open>Checkout\<close>

text \<open>
  \<open>getPaymentLink\<close>. The value of \<open>coupon\<close> is the coupon's id, null when there is
  none; \<open>trialDays ?? tier.trialDays\<close> takes the tier's days when the offer gave none.
\<close>

definition checkoutData ::
  "tier \<Rightarrow> string option \<Rightarrow> int option \<Rightarrow> dodo_customer option \<Rightarrow> (string \<times> string) list option \<Rightarrow>
   string \<Rightarrow> string \<Rightarrow> string option \<Rightarrow> checkout_data" where
  "checkoutData tr coupon trialDays customer metadata successUrl cancelUrl email =
     (let data = \<lparr>ck_metadata = metadata, ck_successUrl = successUrl, ck_cancelUrl = cancelUrl,
                  ck_trialDays = (case trialDays of Some d \<Rightarrow> Some d | None \<Rightarrow> t_trialDays tr),
                  ck_coupon = coupon, ck_customerEmail = None\<rparr>;
          data1 = (if truthy (ck_coupon data) then data\<lparr>ck_trialDays := None\<rparr> else data)
      in if customer = None \<and> truthy email then data1\<lparr>ck_customerEmail := email\<rparr> else data1)"

definition getPaymentLink ::
  "tier \<Rightarrow> cadence \<Rightarrow> offer option \<Rightarrow> member option \<Rightarrow> (string \<times> string) list option \<Rightarrow>
   string \<Rightarrow> string \<Rightarrow> string option \<Rightarrow> world \<Rightarrow> (error + string) \<times> world" where
  "getPaymentLink tr cad offer_opt member_opt metadata successUrl cancelUrl email w =
     (case (case offer_opt of
              None \<Rightarrow> (Inr (None, None), w)
            | Some ofr \<Rightarrow>
               (if t_id tr \<noteq> of_tier_id ofr
                then (Inl (BadRequestError ''This Offer is not valid for the Tier'' 400), w)
                else if of_type ofr = ''trial'' then (Inr (None, Some (of_amount ofr)), w)
                else (case getCouponForOffer (of_id ofr) w of
                        (Inl e, w1) \<Rightarrow> (Inl e, w1)
                      | (Inr coupon, w1) \<Rightarrow> (Inr (coupon, None), w1)))) of
        (Inl e, w1) \<Rightarrow> (Inl e, w1)
      | (Inr (coupon, trialDays), w1) \<Rightarrow>
         (case (case member_opt of
                  None \<Rightarrow> (Inr None, w1)
                | Some mem \<Rightarrow>
                   (case getCustomerForMember mem w1 of
                      (Inl e, w2) \<Rightarrow> (Inl e, w2)
                    | (Inr c, w2) \<Rightarrow> (Inr (Some c), w2))) of
            (Inl e, w2) \<Rightarrow> (Inl e, w2)
          | (Inr customer, w2) \<Rightarrow>
             (case getPriceForTierCadence tr cad w2 of
                (Inl e, w3) \<Rightarrow> (Inl e, w3)
              | (Inr price, w3) \<Rightarrow>
                 (case createCheckoutSession price customer
                         (checkoutData tr coupon trialDays customer metadata successUrl cancelUrl email) w3 of
                    (Inl e, w4) \<Rightarrow> (Inl e, w4)
                  | (Inr session, w4) \<Rightarrow> (Inr (ds_url session), w4)))))"


section \<open>Notions used in the statements and proofs\<close>

text \<open>Two worlds with the same tables, repository availability, tiers and provider.\<close>

definition same_tables :: "world \<Rightarrow> world \<Rightarrow> bool" where
  "same_tables w w' \<longleftrightarrow>
     DodoCustomerModel w' = DodoCustomerModel w \<and> DodoProductModel w' = DodoProductModel w
   \<and> DodoPriceModel w' = DodoPriceModel w \<and> OfferModel w' = OfferModel w
   \<and> offersAPI w' = offersAPI w \<and> repo_unavailable w' = repo_unavailable w
   \<and> tiers w' = tiers w \<and> dodo w' = dodo w"


text \<open>A change of the members with one id, and the tier reference a resolved tier gives.\<close>

definition on_member :: "string \<Rightarrow> (member \<Rightarrow> member) \<Rightarrow> member \<Rightarrow> member" where
  "on_member i f m = (if m_id m = i then f m else m)"

definition granted :: "tier option \<Rightarrow> member \<Rightarrow> member" where
  "granted t m = m\<lparr>m_tier_id := (case t of None \<Rightarrow> m_tier_id m | Some tr \<Rightarrow> Some (t_id tr))\<rparr>"


text \<open>The event types \<open>routeWebhookEvent\<close> has a handler for.\<close>

definition handled_types :: "string list" where
  "handled_types = [''payment.succeeded'', ''payment.failed'', ''subscription.created'',
     ''subscription.updated'', ''subscription.cancelled'', ''customer.created'',
     ''customer.updated'', ''invoice.payment_succeeded'', ''invoice.payment_failed'']"


subsection \<open>A small publication\<close>

text \<open>
  One paying member with a cached customer id, one tier with a cached product and a
  cached monthly price, a provider that holds none of them (and will assign the ids
  \<open>id_1\<close> to \<open>id_4\<close>), and a digest function under which \<open>5d41\<close> signs
  every payload.
\<close>

definition demo_member :: member where
  "demo_member = \<lparr>m_id = ''m1'', m_email = ''ann@example.com'', m_name = Some ''Ann'',
     m_status = ''paid'', m_subscribed = True, m_tier_id = Some ''gold''\<rparr>"

definition demo_tier :: tier where
  "demo_tier = \<lparr>t_id = ''gold'', t_name = ''Gold'', t_currency = ''USD'', t_monthlyPrice = 500,
     t_yearlyPrice = 5000, t_trialDays = Some 7, t_type = ''paid''\<rparr>"

definition demo_provider :: provider where
  "demo_provider = \<lparr>customers = [], products = [], prices = [], coupons = [], sessions = [],
     replies = [Ok ''id_1'', Ok ''id_2'', Ok ''id_3'', Ok ''id_4'']\<rparr>"

definition demo_world :: world where
  "demo_world = \<lparr>DodoCustomerModel =
       [\<lparr>cr_member_id = ''m1'', cr_customer_id = ''cus_1'', cr_email = None, cr_name = None\<rparr>],
     DodoProductModel = [\<lparr>pr_product_id = Some ''gold'', pr_dodo_product_id = ''prod_1''\<rparr>],
     DodoPriceModel =
       [\<lparr>row_id = 1, dodo_price_id = ''price_1'', dodo_product_id = ''prod_1'', row_active = True,
         row_nickname = Some ''Monthly'', row_currency = ''usd'', row_amount = 500,
         row_type = ''recurring'', row_interval = Some ''month''\<rparr>],
     OfferModel = [], offersAPI = [], members = [demo_member], repo_unavailable = False,
     tiers = [demo_tier], dodo = demo_provider, logging = []\<rparr>"

definition demo_subscription :: webhook_object where
  "demo_subscription = empty_object\<lparr>wo_id := Some ''sub_1'', wo_customer := Some ''cus_1'',
     wo_status := Some ''active'', wo_price_id := Some ''price_1''\<rparr>"

definition demo_node :: node where
  "demo_node = \<lparr>hmac_sha256_hex = (\<lambda>secret payload. ''5d41''), JSON_stringify = (\<lambda>ev. ''{}'')\<rparr>"

subsection \<open>Notions for the payments service\<close>

text \<open>A world without its log, and without its log and price rows.\<close>

definition unlogged :: "world \<Rightarrow> world" where
  "unlogged w = w\<lparr>logging := []\<rparr>"

definition unpriced :: "world \<Rightarrow> world" where
  "unpriced w = w\<lparr>logging := [], DodoPriceModel := []\<rparr>"


text \<open>The warnings logged so far.\<close>

fun is_warn :: "log_entry \<Rightarrow> bool" where
  "is_warn (Warn s) = True"
| "is_warn (Info s) = False"
| "is_warn (Error s) = False"

definition warnings :: "world \<Rightarrow> log_entry list" where
  "warnings w = filter is_warn (logging w)"

text \<open>The provider customer ids cached for a member, and the provider product ids cached for a tier.\<close>

definition customer_rows :: "member \<Rightarrow> world \<Rightarrow> string list" where
  "customer_rows mem w =
     map cr_customer_id (filter (\<lambda>r. cr_member_id r = m_id mem) (DodoCustomerModel w))"

definition product_rows :: "tier \<Rightarrow> world \<Rightarrow> string list" where
  "product_rows tr w =
     map pr_dodo_product_id (filter (\<lambda>r. pr_product_id r = Some (t_id tr)) (DodoProductModel w))"


text \<open>
  What the scans return, as functions of the provider's tables: the first cached customer
  the provider does not report deleted, the first cached product it reports active, and
  whether it confirms a price row.
\<close>

fun first_live :: "(string \<times> pcustomer reply) list \<Rightarrow> string list \<Rightarrow> dodo_customer option" where
  "first_live tbl [] = None"
| "first_live tbl (i # rows) =
     (case provider_get tbl i of
        Ok c \<Rightarrow> if pc_deleted c then first_live tbl rows
                else Some \<lparr>dc_id = Some i, dc_email = pc_email c, dc_name = pc_name c, dc_deleted = False\<rparr>
      | HttpError st msg \<Rightarrow> first_live tbl rows
      | NetworkError msg \<Rightarrow> first_live tbl rows)"

fun first_active :: "(string \<times> pproduct reply) list \<Rightarrow> string list \<Rightarrow> string option" where
  "first_active tbl [] = None"
| "first_active tbl (i # rows) =
     (case provider_get tbl i of
        Ok p \<Rightarrow> if pp_active p then Some i else first_active tbl rows
      | HttpError st msg \<Rightarrow> first_active tbl rows
      | NetworkError msg \<Rightarrow> first_active tbl rows)"

definition row_verified ::
  "(string \<times> pprice reply) list \<Rightarrow> string \<Rightarrow> int \<Rightarrow> cadence \<Rightarrow> price_row \<Rightarrow> bool" where
  "row_verified tbl currency amount cad r =
     (case provider_get tbl (dodo_price_id r) of
        Ok p \<Rightarrow> price_verified currency amount cad (price_object (dodo_price_id r) p)
      | HttpError st msg \<Rightarrow> False
      | NetworkError msg \<Rightarrow> False)"


text \<open>
  A price row after healing: only its active flag may differ, and a row the provider
  confirms is untouched.
\<close>

definition healed :: "(price_row \<Rightarrow> bool) \<Rightarrow> price_row \<Rightarrow> price_row \<Rightarrow> bool" where
  "healed V r r' \<longleftrightarrow> r' = r\<lparr>row_active := row_active r'\<rparr> \<and> (V r \<longrightarrow> r' = r)"


text \<open>The number of artifacts the provider holds.\<close>

definition artifacts :: "provider \<Rightarrow> nat" where
  "artifacts p = length (customers p) + length (products p) + length (prices p)
               + length (coupons p) + length (sessions p)"


subsection \<open>More of the small publication\<close>

text \<open>
  A provider that knows the cached customer, product and price, the price with an amount
  that has moved to 700; a percent offer on the tier; and the publication with nothing
  cached yet.
\<close>

definition live_provider :: provider where
  "live_provider = \<lparr>customers =
       [(''cus_1'', Ok \<lparr>pc_email = Some ''ann@example.com'', pc_name = Some ''Ann'', pc_deleted = False\<rparr>)],
     products = [(''prod_1'', Ok \<lparr>pp_name = ''Gold'', pp_active = True\<rparr>)],
     prices = [(''price_1'', Ok \<lparr>px_product_id = ''prod_1'', px_currency = ''usd'', px_unit_amount = 700,
                  px_active = True, px_nickname = Some ''Monthly'', px_recurring = Some ''month''\<rparr>)],
     coupons = [], sessions = [], replies = [Ok ''id_1'', Ok ''id_2'']\<rparr>"

definition demo_offer :: offer where
  "demo_offer = \<lparr>of_id = ''off_1'', of_tier_id = ''gold'', of_type = ''percent'', of_amount = 20\<rparr>"

definition demo_offer_dto :: offer_dto where
  "demo_offer_dto = \<lparr>od_id = ''off_1'', od_name = ''Spring'', od_duration = ''forever'',
     od_duration_in_months = None, od_type = ''percent'', od_amount = 20, od_currency = None\<rparr>"

definition offer_world :: "string option \<Rightarrow> world" where
  "offer_world coupon = demo_world\<lparr>OfferModel :=
       [\<lparr>or_id = ''off_1'', or_dodo_coupon_id = coupon, or_discount_type = ''percent''\<rparr>],
     offersAPI := [demo_offer_dto]\<rparr>"

definition fresh_world :: world where
  "fresh_world = demo_world\<lparr>DodoCustomerModel := [], DodoProductModel := [], DodoPriceModel := []\<rparr>"

definition drifted_world :: world where
  "drifted_world = demo_world\<lparr>dodo := live_provider\<rparr>"

text \<open>
  The member with three cached customers: one the provider does not know, one it reports
  deleted, and one for which it answers 500.
\<close>

definition mixed_world :: world where
  "mixed_world = demo_world\<lparr>DodoCustomerModel :=
       [\<lparr>cr_member_id = ''m1'', cr_customer_id = ''cus_1'', cr_email = None, cr_name = None\<rparr>,
        \<lparr>cr_member_id = ''m1'', cr_customer_id = ''cus_2'', cr_email = None, cr_name = None\<rparr>,
        \<lparr>cr_member_id = ''m1'', cr_customer_id = ''cus_3'', cr_email = None, cr_name = None\<rparr>],
     dodo := demo_provider\<lparr>customers :=
       [(''cus_2'', Ok \<lparr>pc_email = Some ''ann@example.com'', pc_name = Some ''Ann'', pc_deleted = True\<rparr>),
        (''cus_3'', HttpError 500 ''down'')]\<rparr>\<rparr>"


section \<open>The webhook controller: how the handlers change the members\<close>

lemmas log_defs = logging_info_def logging_warn_def logging_error_def

lemma same_tables_refl [simp]: "same_tables w w"
  by (simp add: same_tables_def)

lemma same_tables_log [simp]:
  "same_tables w (logging_info s w')  = same_tables w w'"
  "same_tables w (logging_error s w') = same_tables w w'"
  "same_tables w (logging_warn s w') = same_tables w w'"
  "same_tables (logging_info s w) w'  = same_tables w w'"
  "same_tables (logging_error s w) w' = same_tables w w'"
  "same_tables (logging_warn s w) w' = same_tables w w'"
  by (auto simp: same_tables_def log_defs)

lemma members_log [simp]:
  "members (logging_info s w) = members w"
  "members (logging_error s w) = members w"
  "members (logging_warn s w) = members w"
  by (simp_all add: log_defs)

lemma same_tables_trans: "same_tables a b \<Longrightarrow> same_tables b c \<Longrightarrow> same_tables a c"
  by (simp add: same_tables_def)

lemma find_map_id:
  assumes "\<And>m. m_id (f m) = m_id m"
  shows "find (\<lambda>m. m_id m = i) (map f ms) = map_option f (find (\<lambda>m. m_id m = i) ms)"
  using assms by (induction ms) auto

lemma m_id_apply_update [simp]: "m_id (apply_update u m) = m_id m"
  by (simp add: apply_update_def)

lemma find_Some_id: "find (\<lambda>m. m_id m = i) ms = Some m \<Longrightarrow> m_id m = i"
  by (induction ms) (auto split: if_splits)

lemma findMember_id:
  assumes "findMemberFromCustomerId c w = Inr (Some mem)"
  shows "\<not> repo_unavailable w" and "find (\<lambda>m. m_id m = m_id mem) (members w) = Some mem"
proof -
  from assms obtain cid r where c: "c = Some cid"
    and r: "find (\<lambda>r. cr_customer_id r = cid) (DodoCustomerModel w) = Some r"
    and g: "memberRepository_get_id (cr_member_id r) w = Inr (Some mem)"
    by (auto simp: findMemberFromCustomerId_def split: option.splits)
  from g show "\<not> repo_unavailable w"
    by (auto simp: memberRepository_get_id_def split: if_splits)
  from g have f: "find (\<lambda>m. m_id m = cr_member_id r) (members w) = Some mem"
    by (auto simp: memberRepository_get_id_def split: if_splits)
  from find_Some_id [OF f] f show "find (\<lambda>m. m_id m = m_id mem) (members w) = Some mem"
    by simp
qed

text \<open>What a lookup by customer id returns depends on the tables and the members only.\<close>

lemma findMember_cong:
  assumes "same_tables w w'" and "members w' = map f (members w)" and "\<And>m. m_id (f m) = m_id m"
  shows "findMemberFromCustomerId c w' = map_sum id (map_option f) (findMemberFromCustomerId c w)"
  using assms(1,2) find_map_id [of f, OF assms(3)]
  by (auto simp: findMemberFromCustomerId_def memberRepository_get_id_def same_tables_def
           split: option.splits)

lemma findTier_cong:
  assumes "same_tables w w'"
  shows "fst (findTierFromSubscription sub w') = fst (findTierFromSubscription sub w)"
  using assms
  by (auto simp: findTierFromSubscription_def tiersService_get_def same_tables_def
           split: option.splits)

lemma findTier_log [simp]:
  "fst (findTierFromSubscription sub (logging_info s w)) = fst (findTierFromSubscription sub w)"
  by (rule findTier_cong) simp

lemma findTier_frame:
  "same_tables w (snd (findTierFromSubscription sub w))"
  "members (snd (findTierFromSubscription sub w)) = members w"
  by (auto simp: findTierFromSubscription_def split: option.splits)

lemma update_ok:
  "\<not> repo_unavailable w \<Longrightarrow> find (\<lambda>m. m_id m = i) (members w) = Some mem \<Longrightarrow>
   memberRepository_update i u w =
     Inr (w\<lparr>members := map (\<lambda>m. if m_id m = i then apply_update u m else m) (members w)\<rparr>)"
  by (simp add: memberRepository_update_def)

lemma on_member_granted_None [simp]: "map (on_member i (granted None)) ms = ms"
  by (induction ms) (auto simp: on_member_def granted_def)

lemma grantTierAccess_effect:
  assumes "\<not> repo_unavailable w" and "find (\<lambda>m. m_id m = m_id mem) (members w) = Some mm"
  shows "members (grantTierAccess mem sub w) =
           map (on_member (m_id mem) (granted (fst (findTierFromSubscription sub w)))) (members w)"
    and "same_tables w (grantTierAccess mem sub w)"
proof -
  obtain t w1 where t: "findTierFromSubscription sub w = (t, w1)" by (cases "findTierFromSubscription sub w")
  have st: "same_tables w w1" and mm: "members w1 = members w"
    using findTier_frame [where sub=sub and w=w] t by simp_all
  have av: "\<not> repo_unavailable w1" using st assms(1) by (simp add: same_tables_def)
  have fm: "find (\<lambda>m. m_id m = m_id mem) (members w1) = Some mm" using assms(2) mm by simp
  show "members (grantTierAccess mem sub w) =
           map (on_member (m_id mem) (granted (fst (findTierFromSubscription sub w)))) (members w)"
    using t mm update_ok [OF av fm]
    by (cases t) (auto simp: grantTierAccess_def on_member_def granted_def apply_update_def no_update_def)
  show "same_tables w (grantTierAccess mem sub w)"
    using t st update_ok [OF av fm]
    by (cases t) (auto simp: grantTierAccess_def same_tables_def)
qed


lemma created_effect:
  assumes ev: "ev_object ev = Some sub"
    and mem: "findMemberFromCustomerId (wo_customer sub) w = Inr (Some mem)"
  shows "members (snd (handleSubscriptionCreated ev w)) =
           map (on_member (m_id mem)
                  (\<lambda>m. granted (fst (findTierFromSubscription sub w))
                         (m\<lparr>m_status := ''paid'', m_subscribed := True\<rparr>))) (members w)"
    and "same_tables w (snd (handleSubscriptionCreated ev w))"
    and "fst (handleSubscriptionCreated ev w) = Inr ()"
proof -
  let ?w1 = "logging_info (''Subscription created: '' @ js_string (wo_id sub)) w"
  let ?u = "no_update\<lparr>u_status := Some ''paid'', u_subscribed := Some True\<rparr>"
  let ?w2 = "?w1\<lparr>members := map (\<lambda>m. if m_id m = m_id mem then apply_update ?u m else m) (members ?w1)\<rparr>"
  have st1: "same_tables w ?w1" by simp
  have mem1: "findMemberFromCustomerId (wo_customer sub) ?w1 = Inr (Some mem)"
    using findMember_cong [OF st1, of id "wo_customer sub"] mem by simp
  note f1 = findMember_id [OF mem1]
  have up: "memberRepository_update (m_id mem) ?u ?w1 = Inr ?w2"
    by (rule update_ok [OF f1])
  have st2: "same_tables w ?w2" by (simp add: same_tables_def log_defs)
  have av2: "\<not> repo_unavailable ?w2" using f1(1) by (simp add: log_defs)
  have f2: "find (\<lambda>m. m_id m = m_id mem) (members ?w2) = Some (apply_update ?u mem)"
    using f1(2) by (simp add: find_map_id [of "\<lambda>m. if m_id m = m_id mem then apply_update ?u m else m"])
  note g = grantTierAccess_effect [OF av2 f2, of sub]
  have res: "handleSubscriptionCreated ev w =
      (Inr (), logging_info (''Granted subscription access to member '' @ m_id mem)
                 (grantTierAccess mem sub ?w2))"
    using ev mem1 up by (simp add: handleSubscriptionCreated_def findMemberFromSubscription_def Let_def)
  have tier2: "fst (findTierFromSubscription sub ?w2) = fst (findTierFromSubscription sub w)"
    by (rule findTier_cong [OF st2])
  show "fst (handleSubscriptionCreated ev w) = Inr ()" by (simp add: res)
  show "same_tables w (snd (handleSubscriptionCreated ev w))"
    using same_tables_trans [OF st2 g(2)] by (simp add: res)
  show "members (snd (handleSubscriptionCreated ev w)) =
           map (on_member (m_id mem)
                  (\<lambda>m. granted (fst (findTierFromSubscription sub w))
                         (m\<lparr>m_status := ''paid'', m_subscribed := True\<rparr>))) (members w)"
  proof -
    have "members (snd (handleSubscriptionCreated ev w)) = members (grantTierAccess mem sub ?w2)"
      by (simp add: res)
    also have "\<dots> = map (on_member (m_id mem) (granted (fst (findTierFromSubscription sub w)))) (members ?w2)"
      by (simp only: g(1) tier2)
    also have "members ?w2 = map (\<lambda>m. if m_id m = m_id mem then apply_update ?u m else m) (members w)"
      by (simp add: log_defs)
    finally show ?thesis
      by (auto simp: on_member_def granted_def apply_update_def no_update_def split: option.splits)
  qed
qed


lemma updateMemberSubscription_effect:
  assumes "\<not> repo_unavailable w" and "find (\<lambda>m. m_id m = m_id mem) (members w) = Some mm"
  shows "members (updateMemberSubscription mem sub w) =
           map (on_member (m_id mem)
                  (\<lambda>m. if wo_status sub = Some ''active''
                        then granted (fst (findTierFromSubscription sub w)) (m\<lparr>m_status := ''paid''\<rparr>)
                        else m\<lparr>m_status := ''free'', m_tier_id := None\<rparr>)) (members w)"
    and "same_tables w (updateMemberSubscription mem sub w)"
proof -
  obtain t w1 where t: "findTierFromSubscription sub w = (t, w1)" by (cases "findTierFromSubscription sub w")
  have st: "same_tables w w1" and mm: "members w1 = members w"
    using findTier_frame [where sub=sub and w=w] t by simp_all
  have av: "\<not> repo_unavailable w1" using st assms(1) by (simp add: same_tables_def)
  have fm: "find (\<lambda>m. m_id m = m_id mem) (members w1) = Some mm" using assms(2) mm by simp
  show "members (updateMemberSubscription mem sub w) =
           map (on_member (m_id mem)
                  (\<lambda>m. if wo_status sub = Some ''active''
                        then granted (fst (findTierFromSubscription sub w)) (m\<lparr>m_status := ''paid''\<rparr>)
                        else m\<lparr>m_status := ''free'', m_tier_id := None\<rparr>)) (members w)"
    using t mm update_ok [OF av fm] update_ok [OF assms]
    by (cases t)
       (auto simp: updateMemberSubscription_def on_member_def granted_def apply_update_def
                   no_update_def Let_def)
  show "same_tables w (updateMemberSubscription mem sub w)"
    using t st update_ok [OF av fm] update_ok [OF assms]
    by (cases t) (auto simp: updateMemberSubscription_def same_tables_def Let_def)
qed

lemma updated_effect:
  assumes ev: "ev_object ev = Some sub"
    and mem: "findMemberFromCustomerId (wo_customer sub) w = Inr (Some mem)"
  shows "members (snd (handleSubscriptionUpdated ev w)) =
           map (on_member (m_id mem)
                  (\<lambda>m. if wo_status sub = Some ''active''
                        then granted (fst (findTierFromSubscription sub w)) (m\<lparr>m_status := ''paid''\<rparr>)
                        else m\<lparr>m_status := ''free'', m_tier_id := None\<rparr>)) (members w)"
    and "same_tables w (snd (handleSubscriptionUpdated ev w))"
    and "fst (handleSubscriptionUpdated ev w) = Inr ()"
proof -
  let ?w1 = "logging_info (''Subscription updated: '' @ js_string (wo_id sub)) w"
  have st1: "same_tables w ?w1" by simp
  have mem1: "findMemberFromCustomerId (wo_customer sub) ?w1 = Inr (Some mem)"
    using findMember_cong [OF st1, of id "wo_customer sub"] mem by simp
  note f1 = findMember_id [OF mem1]
  note u = updateMemberSubscription_effect [OF f1, of sub]
  have res: "handleSubscriptionUpdated ev w =
      (Inr (), logging_info (''Updated subscription for member '' @ m_id mem)
                 (updateMemberSubscription mem sub ?w1))"
    using ev mem1 by (simp add: handleSubscriptionUpdated_def findMemberFromSubscription_def Let_def)
  have tier1: "fst (findTierFromSubscription sub ?w1) = fst (findTierFromSubscription sub w)"
    by (rule findTier_cong [OF st1])
  show "fst (handleSubscriptionUpdated ev w) = Inr ()" by (simp add: res)
  show "same_tables w (snd (handleSubscriptionUpdated ev w))"
    using same_tables_trans [OF st1 u(2)] by (simp add: res)
  show "members (snd (handleSubscriptionUpdated ev w)) =
           map (on_member (m_id mem)
                  (\<lambda>m. if wo_status sub = Some ''active''
                        then granted (fst (findTierFromSubscription sub w)) (m\<lparr>m_status := ''paid''\<rparr>)
                        else m\<lparr>m_status := ''free'', m_tier_id := None\<rparr>)) (members w)"
    using u(1) [unfolded tier1] by (simp add: res)
qed

lemma cancelled_effect:
  assumes ev: "ev_object ev = Some sub"
    and mem: "findMemberFromCustomerId (wo_customer sub) w = Inr (Some mem)"
  shows "members (snd (handleSubscriptionCancelled ev w)) =
           map (on_member (m_id mem)
                  (\<lambda>m. m\<lparr>m_status := ''free'', m_subscribed := False, m_tier_id := None\<rparr>)) (members w)"
    and "same_tables w (snd (handleSubscriptionCancelled ev w))"
    and "fst (handleSubscriptionCancelled ev w) = Inr ()"
proof -
  let ?w1 = "logging_info (''Subscription cancelled: '' @ js_string (wo_id sub)) w"
  let ?u = "no_update\<lparr>u_status := Some ''free'', u_subscribed := Some False\<rparr>"
  let ?f = "\<lambda>m. if m_id m = m_id mem then apply_update ?u m else m"
  let ?w2 = "?w1\<lparr>members := map ?f (members ?w1)\<rparr>"
  let ?v = "no_update\<lparr>u_tier_id := Some None\<rparr>"
  let ?g = "\<lambda>m. if m_id m = m_id mem then apply_update ?v m else m"
  let ?w3 = "?w2\<lparr>members := map ?g (members ?w2)\<rparr>"
  have st1: "same_tables w ?w1" by simp
  have mem1: "findMemberFromCustomerId (wo_customer sub) ?w1 = Inr (Some mem)"
    using findMember_cong [OF st1, of id "wo_customer sub"] mem by simp
  note f1 = findMember_id [OF mem1]
  have up: "memberRepository_update (m_id mem) ?u ?w1 = Inr ?w2"
    by (rule update_ok [OF f1])
  have av2: "\<not> repo_unavailable ?w2" using f1(1) by (simp add: log_defs)
  have f2: "find (\<lambda>m. m_id m = m_id mem) (members ?w2) = Some (apply_update ?u mem)"
    using f1(2) by (simp add: find_map_id [of ?f])
  have up2: "memberRepository_update (m_id mem) ?v ?w2 = Inr ?w3"
    by (rule update_ok [OF av2 f2])
  have res: "handleSubscriptionCancelled ev w =
      (Inr (), logging_info (''Revoked subscription access for member '' @ m_id mem) ?w3)"
    using ev mem1 up up2
    by (simp add: handleSubscriptionCancelled_def findMemberFromSubscription_def Let_def
                  revokeTierAccess_def)
  show "fst (handleSubscriptionCancelled ev w) = Inr ()" by (simp add: res)
  show "same_tables w (snd (handleSubscriptionCancelled ev w))"
    by (simp add: res same_tables_def log_defs)
  have "members (snd (handleSubscriptionCancelled ev w)) = map ?g (map ?f (members w))"
    by (simp add: res log_defs)
  then show "members (snd (handleSubscriptionCancelled ev w)) =
           map (on_member (m_id mem)
                  (\<lambda>m. m\<lparr>m_status := ''free'', m_subscribed := False, m_tier_id := None\<rparr>)) (members w)"
    by (auto simp: on_member_def apply_update_def no_update_def)
qed

lemma find_on_member:
  "find (\<lambda>m. m_id m = i) ms = Some mem \<Longrightarrow> (\<And>m. m_id (f m) = m_id m) \<Longrightarrow>
   find (\<lambda>m. m_id m = i) (map (on_member i f) ms) = Some (f mem)"
  by (induction ms) (auto simp: on_member_def split: if_splits)

lemma m_id_granted [simp]: "m_id (granted t m) = m_id m"
  by (simp add: granted_def)

lemma m_id_on_member [simp]: "(\<And>m. m_id (f m) = m_id m) \<Longrightarrow> m_id (on_member i f m) = m_id m"
  by (simp add: on_member_def)

lemma route_created: "ev_type ev = Some ''subscription.created'' \<Longrightarrow>
   routeWebhookEvent ev w = handleSubscriptionCreated ev w"
  by (simp add: routeWebhookEvent_def)

lemma route_updated: "ev_type ev = Some ''subscription.updated'' \<Longrightarrow>
   routeWebhookEvent ev w = handleSubscriptionUpdated ev w"
  by (simp add: routeWebhookEvent_def)

lemma route_cancelled: "ev_type ev = Some ''subscription.cancelled'' \<Longrightarrow>
   routeWebhookEvent ev w = handleSubscriptionCancelled ev w"
  by (simp add: routeWebhookEvent_def)

text \<open>
  C2. A \<open>subscription.created\<close> and a \<open>subscription.updated\<close> event, both active, for
  the same customer and resolving to the same tier \<open>t\<close> (\<open>None\<close> when the chain from the
  price to the tier breaks): whichever is delivered first, the members end up the same,
  and the member the customer id resolves to is paid, subscribed and on the tier.
\<close>

theorem created_updated_converge:
  assumes c: "ev_type created = Some ''subscription.created''" "ev_object created = Some s1"
    and u: "ev_type updated = Some ''subscription.updated''" "ev_object updated = Some s2"
    and active: "wo_status s1 = Some ''active''" "wo_status s2 = Some ''active''"
    and cust: "wo_customer s2 = wo_customer s1"
    and mem: "findMemberFromSubscription s1 w = Inr (Some mem)"
    and tier: "fst (findTierFromSubscription s1 w) = t" "fst (findTierFromSubscription s2 w) = t"
  shows "members (snd (routeWebhookEvent updated (snd (routeWebhookEvent created w)))) =
         members (snd (routeWebhookEvent created (snd (routeWebhookEvent updated w))))
       \<and> memberRepository_get_id (m_id mem) (snd (routeWebhookEvent updated (snd (routeWebhookEvent created w)))) =
           Inr (Some (mem\<lparr>m_status := ''paid'', m_subscribed := True,
                          m_tier_id := (case t of None \<Rightarrow> m_tier_id mem | Some tr \<Rightarrow> Some (t_id tr))\<rparr>))"
proof -
  let ?i = "m_id mem"
  let ?C = "\<lambda>m. granted t (m\<lparr>m_status := ''paid'', m_subscribed := True\<rparr>)"
  let ?U = "\<lambda>m. granted t (m\<lparr>m_status := ''paid''\<rparr>)"
  have m1: "findMemberFromCustomerId (wo_customer s1) w = Inr (Some mem)"
    using mem by (simp add: findMemberFromSubscription_def)
  have m2: "findMemberFromCustomerId (wo_customer s2) w = Inr (Some mem)"
    using m1 cust by simp
  note fm = findMember_id [OF m1]
  let ?wc = "snd (handleSubscriptionCreated created w)"
  note ce = created_effect [OF c(2) m1]
  have mc: "members ?wc = map (on_member ?i ?C) (members w)" using ce(1) tier by simp
  have m2c: "findMemberFromCustomerId (wo_customer s2) ?wc = Inr (Some (on_member ?i ?C mem))"
    using findMember_cong [OF ce(2) mc, of "wo_customer s2"] m2 by simp
  note ue = updated_effect [OF u(2) m2c]
  have tc: "fst (findTierFromSubscription s2 ?wc) = t"
    using findTier_cong [OF ce(2), of s2] tier by simp
  have cu: "members (snd (handleSubscriptionUpdated updated ?wc)) =
              map (on_member ?i ?U) (map (on_member ?i ?C) (members w))"
    using ue(1) active tc mc by simp
  let ?wu = "snd (handleSubscriptionUpdated updated w)"
  note ue' = updated_effect [OF u(2) m2]
  have mu: "members ?wu = map (on_member ?i ?U) (members w)" using ue'(1) active tier by simp
  have m1u: "findMemberFromCustomerId (wo_customer s1) ?wu = Inr (Some (on_member ?i ?U mem))"
    using findMember_cong [OF ue'(2) mu, of "wo_customer s1"] m1 by simp
  note ce' = created_effect [OF c(2) m1u]
  have tu: "fst (findTierFromSubscription s1 ?wu) = t"
    using findTier_cong [OF ue'(2), of s1] tier by simp
  have uc: "members (snd (handleSubscriptionCreated created ?wu)) =
              map (on_member ?i ?C) (map (on_member ?i ?U) (members w))"
    using ce'(1) tu mu by simp
  have both: "map (on_member ?i ?U) (map (on_member ?i ?C) (members w)) =
              map (on_member ?i ?C) (members w)"
             "map (on_member ?i ?C) (map (on_member ?i ?U) (members w)) =
              map (on_member ?i ?C) (members w)"
    by (auto simp: on_member_def granted_def split: option.splits)
  have fin1: "members (snd (handleSubscriptionUpdated updated ?wc)) = map (on_member ?i ?C) (members w)"
    by (simp only: cu both)
  have fin2: "members (snd (handleSubscriptionCreated created ?wu)) = map (on_member ?i ?C) (members w)"
    by (simp only: uc both)
  have avail: "\<not> repo_unavailable (snd (handleSubscriptionUpdated updated ?wc))"
    using ue(2) ce(2) fm(1) by (simp add: same_tables_def)
  have "find (\<lambda>m. m_id m = ?i) (map (on_member ?i ?C) (members w)) = Some (?C mem)"
    by (rule find_on_member [OF fm(2)]) simp
  then have get: "memberRepository_get_id ?i (snd (handleSubscriptionUpdated updated ?wc)) =
      Inr (Some (?C mem))"
    using avail by (simp add: memberRepository_get_id_def fin1)
  show ?thesis
    using get
    by (cases t) (simp_all add: route_created [OF c(1)] route_updated [OF u(1)] fin1 fin2 granted_def)
qed


text \<open>
  C3, as the code has it. For a member resolved from the event's customer id, a
  \<open>subscription.cancelled\<close> event sets status free, subscribed false and no tier; a
  \<open>subscription.updated\<close> event whose status is not active sets status free and no tier,
  and leaves the subscribed flag as it was.
\<close>

theorem cancelled_or_inactive_update:
  assumes ev: "ev_object ev = Some sub"
    and mem: "findMemberFromSubscription sub w = Inr (Some mem)"
  shows "(ev_type ev = Some ''subscription.cancelled'' \<longrightarrow>
            memberRepository_get_id (m_id mem) (snd (routeWebhookEvent ev w)) =
              Inr (Some (mem\<lparr>m_status := ''free'', m_subscribed := False, m_tier_id := None\<rparr>)))
       \<and> (ev_type ev = Some ''subscription.updated'' \<and> wo_status sub \<noteq> Some ''active'' \<longrightarrow>
            memberRepository_get_id (m_id mem) (snd (routeWebhookEvent ev w)) =
              Inr (Some (mem\<lparr>m_status := ''free'', m_tier_id := None\<rparr>)))"
proof -
  have m1: "findMemberFromCustomerId (wo_customer sub) w = Inr (Some mem)"
    using mem by (simp add: findMemberFromSubscription_def)
  note fm = findMember_id [OF m1]
  note ce = cancelled_effect [OF ev m1]
  note ue = updated_effect [OF ev m1]
  have c: "memberRepository_get_id (m_id mem) (snd (handleSubscriptionCancelled ev w)) =
              Inr (Some (mem\<lparr>m_status := ''free'', m_subscribed := False, m_tier_id := None\<rparr>))"
    using ce(2) fm(1) find_on_member [OF fm(2), of "\<lambda>m. m\<lparr>m_status := ''free'', m_subscribed := False, m_tier_id := None\<rparr>"]
    by (simp add: memberRepository_get_id_def ce(1) same_tables_def)
  have u: "memberRepository_get_id (m_id mem) (snd (handleSubscriptionUpdated ev w)) =
              Inr (Some (mem\<lparr>m_status := ''free'', m_tier_id := None\<rparr>))"
    if "wo_status sub \<noteq> Some ''active''"
  proof -
    have "members (snd (handleSubscriptionUpdated ev w)) =
            map (on_member (m_id mem) (\<lambda>m. m\<lparr>m_status := ''free'', m_tier_id := None\<rparr>)) (members w)"
      using ue(1) that by simp
    then show ?thesis
      using ue(2) fm(1) find_on_member [OF fm(2), of "\<lambda>m. m\<lparr>m_status := ''free'', m_tier_id := None\<rparr>"]
      by (simp add: memberRepository_get_id_def same_tables_def)
  qed
  show ?thesis
    using c u by (auto simp: route_cancelled route_updated)
qed

lemma respond_error_frame [simp]:
  "res_status (fst (respond_error e w)) = 400"
  "members (snd (respond_error e w)) = members w"
  by (simp_all add: respond_error_def)

lemmas handler_defs =
  handlePaymentSucceeded_def handlePaymentFailed_def handleSubscriptionCreated_def
  handleSubscriptionUpdated_def handleSubscriptionCancelled_def handleCustomerCreated_def
  handleCustomerUpdated_def handleInvoicePaymentSucceeded_def handleInvoicePaymentFailed_def

lemma handler_ok:
  assumes "ev_object ev = Some obj"
  shows "fst (handlePaymentSucceeded ev w) = Inr ()" "fst (handlePaymentFailed ev w) = Inr ()"
    "fst (handleSubscriptionCreated ev w) = Inr ()" "fst (handleSubscriptionUpdated ev w) = Inr ()"
    "fst (handleSubscriptionCancelled ev w) = Inr ()" "fst (handleCustomerCreated ev w) = Inr ()"
    "fst (handleCustomerUpdated ev w) = Inr ()"
  using assms
  by (simp_all add: handler_defs Let_def split: sum.splits option.splits)

lemma route_ok:
  assumes "ev_object ev = None \<longrightarrow> (\<forall>ty \<in> set handled_types. ev_type ev \<noteq> Some ty)"
  shows "fst (routeWebhookEvent ev w) = Inr ()"
proof (cases "ev_object ev")
  case None
  with assms show ?thesis by (simp add: routeWebhookEvent_def handled_types_def)
next
  case (Some obj)
  have inv: "fst (handleInvoicePaymentSucceeded ev w) = Inr ()" "fst (handleInvoicePaymentFailed ev w) = Inr ()"
    using Some by (simp_all add: handleInvoicePaymentSucceeded_def handleInvoicePaymentFailed_def handler_ok)
  show ?thesis
    by (simp add: routeWebhookEvent_def handler_ok [OF Some] inv)
qed

text \<open>
  C5, as the code has it. \<open>handleWebhook\<close> answers 400 and leaves the members alone when the
  signature check throws or fails or the payload does not parse. It answers 200 with the
  acknowledgement for a signature-valid event that carries its data object, or whose type
  has no handler, whatever happens inside the handler.
\<close>

theorem handleWebhook_status:
  "(verifyWebhookSignature nd (map_option (JSON_stringify nd) (body req)) (x_dodo_signature req) secret \<noteq> Inr True
      \<or> isl (parseWebhook (body req))
    \<longrightarrow> res_status (fst (handleWebhook nd secret req w)) = 400
        \<and> members (snd (handleWebhook nd secret req w)) = members w)
 \<and> (verifyWebhookSignature nd (map_option (JSON_stringify nd) (body req)) (x_dodo_signature req) secret = Inr True
      \<and> body req = Some ev
      \<and> (ev_object ev = None \<longrightarrow> (\<forall>ty \<in> set handled_types. ev_type ev \<noteq> Some ty))
    \<longrightarrow> fst (handleWebhook nd secret req w) = \<lparr>res_status = 200, res_json = Received\<rparr>)"
proof (intro conjI impI)
  assume a: "verifyWebhookSignature nd (map_option (JSON_stringify nd) (body req)) (x_dodo_signature req) secret \<noteq> Inr True
      \<or> isl (parseWebhook (body req))"
  have "verifyWebhookSignature nd (map_option (JSON_stringify nd) (body req)) (x_dodo_signature req) secret \<noteq> Inr True"
    using a by (cases "body req") (auto simp: parseWebhook_def verifyWebhookSignature_def)
  then show "res_status (fst (handleWebhook nd secret req w)) = 400"
    and "members (snd (handleWebhook nd secret req w)) = members w"
    by (auto simp: handleWebhook_def split: sum.splits)
next
  assume a: "verifyWebhookSignature nd (map_option (JSON_stringify nd) (body req)) (x_dodo_signature req) secret = Inr True
      \<and> body req = Some ev
      \<and> (ev_object ev = None \<longrightarrow> (\<forall>ty \<in> set handled_types. ev_type ev \<noteq> Some ty))"
  then have "fst (routeWebhookEvent ev (logging_info (''Processing Dodo webhook: '' @ js_string (ev_type ev)) w)) = Inr ()"
    by (intro route_ok) simp
  then show "fst (handleWebhook nd secret req w) = \<lparr>res_status = 200, res_json = Received\<rparr>"
    using a by (auto simp: handleWebhook_def parseWebhook_def split: sum.splits prod.splits)
qed


lemma no_row_no_member:
  "\<forall>r \<in> set (DodoCustomerModel w). cr_customer_id r \<noteq> cid \<Longrightarrow>
     findMemberFromCustomerId (Some cid) w = Inr None"
proof -
  assume "\<forall>r \<in> set (DodoCustomerModel w). cr_customer_id r \<noteq> cid"
  then have "find (\<lambda>r. cr_customer_id r = cid) (DodoCustomerModel w) = None"
    by (simp add: find_None_iff)
  then show ?thesis by (simp add: findMemberFromCustomerId_def)
qed

lemma findMember_log [simp]:
  "findMemberFromCustomerId c (logging_info s w) = findMemberFromCustomerId c w"
  "findMemberFromPayment obj (logging_info s w) = findMemberFromPayment obj w"
  by (auto simp: findMemberFromPayment_def findMemberFromCustomerId_def memberRepository_get_id_def
                 memberRepository_get_email_def log_defs split: option.splits)

lemma payment_no_row:
  "wo_customer obj = Some cid \<Longrightarrow> cid \<noteq> [] \<Longrightarrow>
   \<forall>r \<in> set (DodoCustomerModel w). cr_customer_id r \<noteq> cid \<Longrightarrow>
     findMemberFromPayment obj w = Inr None"
  by (simp add: findMemberFromPayment_def no_row_no_member)

lemma DodoCustomerModel_log [simp]:
  "DodoCustomerModel (logging_info s w) = DodoCustomerModel w"
  by (simp add: log_defs)

text \<open>
  C8. A signature-valid event that refers to a customer id (the object's id for customer
  events, its \<open>customer\<close> field otherwise) without a row in \<open>DodoCustomerModel\<close>: the
  handler returns without an error, the members are unchanged, and the endpoint answers 200.
\<close>

theorem unknown_customer_ignored:
  assumes sig: "verifyWebhookSignature nd (Some (JSON_stringify nd ev)) (x_dodo_signature req) secret = Inr True"
    and body: "body req = Some ev" and obj: "ev_object ev = Some obj"
    and cid: "(if ev_type ev = Some ''customer.created'' \<or> ev_type ev = Some ''customer.updated''
               then wo_id obj else wo_customer obj) = Some cid" "cid \<noteq> []"
    and norow: "\<forall>r \<in> set (DodoCustomerModel w). cr_customer_id r \<noteq> cid"
  shows "fst (routeWebhookEvent ev w) = Inr ()
       \<and> members (snd (routeWebhookEvent ev w)) = members w
       \<and> fst (handleWebhook nd secret req w) = \<lparr>res_status = 200, res_json = Received\<rparr>
       \<and> members (snd (handleWebhook nd secret req w)) = members w"
proof -
  have route: "fst (routeWebhookEvent ev w') = Inr () \<and> members (snd (routeWebhookEvent ev w')) = members w'"
    if "DodoCustomerModel w' = DodoCustomerModel w" for w'
  proof -
    have nr: "\<forall>r \<in> set (DodoCustomerModel w'). cr_customer_id r \<noteq> cid" using norow that by simp
    show ?thesis
      using obj cid
      by (auto simp: routeWebhookEvent_def handler_defs Let_def findMemberFromSubscription_def
            findMemberFromCustomer_def empty_object_def
            payment_no_row [OF _ cid(2) nr] no_row_no_member [OF nr] split: if_splits)
  qed
  from route [of w] have r1: "fst (routeWebhookEvent ev w) = Inr ()"
       "members (snd (routeWebhookEvent ev w)) = members w" by simp_all
  let ?w1 = "logging_info (''Processing Dodo webhook: '' @ js_string (ev_type ev)) w"
  from route [of ?w1] have r2: "fst (routeWebhookEvent ev ?w1) = Inr ()"
       "members (snd (routeWebhookEvent ev ?w1)) = members w" by simp_all
  have "fst (handleWebhook nd secret req w) = \<lparr>res_status = 200, res_json = Received\<rparr>
       \<and> members (snd (handleWebhook nd secret req w)) = members w"
    using sig body r2 by (auto simp: handleWebhook_def parseWebhook_def split: prod.splits sum.splits)
  with r1 show ?thesis by simp
qed

lemmas demo_defs = demo_member_def demo_tier_def demo_provider_def demo_world_def
  demo_subscription_def demo_node_def empty_object_def

lemmas webhook_defs = routeWebhookEvent_def handler_defs findMemberFromSubscription_def
  findMemberFromCustomer_def findMemberFromPayment_def findMemberFromCustomerId_def
  memberRepository_get_id_def memberRepository_get_email_def memberRepository_update_def
  apply_update_def no_update_def findTierFromSubscription_def tiersService_get_def
  grantTierAccess_def revokeTierAccess_def updateMemberSubscription_def
  handleWebhook_def verifyWebhookSignature_def parseWebhook_def respond_error_def log_defs

text \<open>C2 at the small publication: a free member, the two events in both orders.\<close>

theorem created_updated_converge_witness:
  "findMemberFromSubscription demo_subscription
      (demo_world\<lparr>members := [demo_member\<lparr>m_status := ''free'', m_subscribed := False, m_tier_id := None\<rparr>]\<rparr>) =
     Inr (Some (demo_member\<lparr>m_status := ''free'', m_subscribed := False, m_tier_id := None\<rparr>))
   \<and> members (snd (routeWebhookEvent \<lparr>ev_type = Some ''subscription.updated'', ev_object = Some demo_subscription\<rparr>
        (snd (routeWebhookEvent \<lparr>ev_type = Some ''subscription.created'', ev_object = Some demo_subscription\<rparr>
          (demo_world\<lparr>members := [demo_member\<lparr>m_status := ''free'', m_subscribed := False, m_tier_id := None\<rparr>]\<rparr>))))) =
     members (snd (routeWebhookEvent \<lparr>ev_type = Some ''subscription.created'', ev_object = Some demo_subscription\<rparr>
        (snd (routeWebhookEvent \<lparr>ev_type = Some ''subscription.updated'', ev_object = Some demo_subscription\<rparr>
          (demo_world\<lparr>members := [demo_member\<lparr>m_status := ''free'', m_subscribed := False, m_tier_id := None\<rparr>]\<rparr>)))))
   \<and> memberRepository_get_id ''m1''
        (snd (routeWebhookEvent \<lparr>ev_type = Some ''subscription.updated'', ev_object = Some demo_subscription\<rparr>
          (snd (routeWebhookEvent \<lparr>ev_type = Some ''subscription.created'', ev_object = Some demo_subscription\<rparr>
            (demo_world\<lparr>members := [demo_member\<lparr>m_status := ''free'', m_subscribed := False, m_tier_id := None\<rparr>]\<rparr>))))) =
       Inr (Some demo_member)"
proof -
  let ?m = "demo_member\<lparr>m_status := ''free'', m_subscribed := False, m_tier_id := None\<rparr>"
  let ?w = "demo_world\<lparr>members := [?m]\<rparr>"
  let ?c = "\<lparr>ev_type = Some ''subscription.created'', ev_object = Some demo_subscription\<rparr>"
  let ?u = "\<lparr>ev_type = Some ''subscription.updated'', ev_object = Some demo_subscription\<rparr>"
  have act: "wo_status demo_subscription = Some ''active''" by (simp add: demo_defs)
  have mem: "findMemberFromSubscription demo_subscription ?w = Inr (Some ?m)"
    by (simp add: webhook_defs demo_defs)
  have tr: "fst (findTierFromSubscription demo_subscription ?w) = Some demo_tier"
    by (simp add: webhook_defs demo_defs)
  from created_updated_converge [of ?c demo_subscription ?u demo_subscription ?w ?m "Some demo_tier",
        OF _ _ _ _ act act _ mem tr tr]
  show ?thesis using mem by (simp add: demo_member_def demo_tier_def)
qed

text \<open>
  C3 as stated fails on the update path: an update with status \<open>past_due\<close> leaves the
  member subscribed.
\<close>

theorem inactive_update_keeps_subscribed:
  "members (snd (routeWebhookEvent
      \<lparr>ev_type = Some ''subscription.updated'',
       ev_object = Some (demo_subscription\<lparr>wo_status := Some ''past_due''\<rparr>)\<rparr> demo_world)) =
   [\<lparr>m_id = ''m1'', m_email = ''ann@example.com'', m_name = Some ''Ann'',
     m_status = ''free'', m_subscribed = True, m_tier_id = None\<rparr>]"
  by (simp add: webhook_defs demo_defs Let_def)

text \<open>C3 at the small publication: a cancellation, and an update with status \<open>past_due\<close>.\<close>

theorem cancelled_or_inactive_update_witness:
  "findMemberFromSubscription demo_subscription demo_world = Inr (Some demo_member)
   \<and> memberRepository_get_id ''m1''
        (snd (routeWebhookEvent \<lparr>ev_type = Some ''subscription.cancelled'', ev_object = Some demo_subscription\<rparr>
           demo_world)) =
       Inr (Some (demo_member\<lparr>m_status := ''free'', m_subscribed := False, m_tier_id := None\<rparr>))
   \<and> wo_status (demo_subscription\<lparr>wo_status := Some ''past_due''\<rparr>) \<noteq> Some ''active''
   \<and> memberRepository_get_id ''m1''
        (snd (routeWebhookEvent
           \<lparr>ev_type = Some ''subscription.updated'',
            ev_object = Some (demo_subscription\<lparr>wo_status := Some ''past_due''\<rparr>)\<rparr> demo_world)) =
       Inr (Some (demo_member\<lparr>m_status := ''free'', m_tier_id := None\<rparr>))"
proof -
  let ?s = "demo_subscription\<lparr>wo_status := Some ''past_due''\<rparr>"
  have mem: "findMemberFromSubscription demo_subscription demo_world = Inr (Some demo_member)"
    by (simp add: webhook_defs demo_defs)
  have mem': "findMemberFromSubscription ?s demo_world = Inr (Some demo_member)"
    by (simp add: webhook_defs demo_defs)
  have st: "wo_status ?s \<noteq> Some ''active''" by simp
  have i: "m_id demo_member = ''m1''" by (simp add: demo_defs)
  from cancelled_or_inactive_update
         [of "\<lparr>ev_type = Some ''subscription.cancelled'', ev_object = Some demo_subscription\<rparr>"
             demo_subscription demo_world demo_member, OF _ mem]
       cancelled_or_inactive_update
         [of "\<lparr>ev_type = Some ''subscription.updated'', ev_object = Some ?s\<rparr>" ?s demo_world demo_member,
          OF _ mem']
  show ?thesis using mem st by (simp add: i)
qed

text \<open>
  C5 as stated fails for a signed event of a handled type without its data object: the
  handler throws before its own \<open>try\<close>, and the endpoint answers 400.
\<close>

theorem event_without_object_rejected:
  "verifyWebhookSignature demo_node
      (Some (JSON_stringify demo_node \<lparr>ev_type = Some ''payment.succeeded'', ev_object = None\<rparr>))
      (Some ''5d41'') ''whsec'' = Inr True
   \<and> parseWebhook (Some \<lparr>ev_type = Some ''payment.succeeded'', ev_object = None\<rparr>) =
       Inr \<lparr>ev_type = Some ''payment.succeeded'', ev_object = None\<rparr>
   \<and> res_status (fst (handleWebhook demo_node ''whsec''
        \<lparr>x_dodo_signature = Some ''5d41'',
         body = Some \<lparr>ev_type = Some ''payment.succeeded'', ev_object = None\<rparr>\<rparr> demo_world)) = 400"
  by (simp add: webhook_defs demo_defs Let_def)

text \<open>
  C5 at the small publication: a wrong signature is answered 400; a signed
  \<open>subscription.created\<close> event is answered 200 although the member repository is
  unavailable and the handler's work fails.
\<close>

theorem handleWebhook_status_witness:
  "verifyWebhookSignature demo_node
      (map_option (JSON_stringify demo_node)
         (Some \<lparr>ev_type = Some ''subscription.created'', ev_object = Some demo_subscription\<rparr>))
      (Some ''0000'') ''whsec'' \<noteq> Inr True
   \<and> res_status (fst (handleWebhook demo_node ''whsec''
        \<lparr>x_dodo_signature = Some ''0000'',
         body = Some \<lparr>ev_type = Some ''subscription.created'', ev_object = Some demo_subscription\<rparr>\<rparr>
        demo_world)) = 400
   \<and> members (snd (handleWebhook demo_node ''whsec''
        \<lparr>x_dodo_signature = Some ''0000'',
         body = Some \<lparr>ev_type = Some ''subscription.created'', ev_object = Some demo_subscription\<rparr>\<rparr>
        demo_world)) = members demo_world
   \<and> verifyWebhookSignature demo_node
      (map_option (JSON_stringify demo_node)
         (Some \<lparr>ev_type = Some ''subscription.created'', ev_object = Some demo_subscription\<rparr>))
      (Some ''5d41'') ''whsec'' = Inr True
   \<and> fst (handleWebhook demo_node ''whsec''
        \<lparr>x_dodo_signature = Some ''5d41'',
         body = Some \<lparr>ev_type = Some ''subscription.created'', ev_object = Some demo_subscription\<rparr>\<rparr>
        (demo_world\<lparr>repo_unavailable := True\<rparr>)) = \<lparr>res_status = 200, res_json = Received\<rparr>"
proof -
  let ?ev = "\<lparr>ev_type = Some ''subscription.created'', ev_object = Some demo_subscription\<rparr>"
  let ?bad = "\<lparr>x_dodo_signature = Some ''0000'', body = Some ?ev\<rparr>"
  let ?good = "\<lparr>x_dodo_signature = Some ''5d41'', body = Some ?ev\<rparr>"
  have bad: "verifyWebhookSignature demo_node (map_option (JSON_stringify demo_node) (body ?bad))
               (x_dodo_signature ?bad) ''whsec'' \<noteq> Inr True"
    by (simp add: verifyWebhookSignature_def demo_node_def)
  have good: "verifyWebhookSignature demo_node (map_option (JSON_stringify demo_node) (body ?good))
               (x_dodo_signature ?good) ''whsec'' = Inr True"
    by (simp add: verifyWebhookSignature_def demo_node_def)
  from handleWebhook_status [of demo_node ?bad "''whsec''" demo_world ?ev]
       handleWebhook_status [of demo_node ?good "''whsec''" "demo_world\<lparr>repo_unavailable := True\<rparr>" ?ev]
  show ?thesis using bad good by simp
qed

text \<open>C8 at the small publication: a payment of a customer that has no row.\<close>

theorem unknown_customer_ignored_witness:
  "verifyWebhookSignature demo_node
      (Some (JSON_stringify demo_node
         \<lparr>ev_type = Some ''payment.succeeded'',
          ev_object = Some (empty_object\<lparr>wo_customer := Some ''cus_9''\<rparr>)\<rparr>))
      (Some ''5d41'') ''whsec'' = Inr True
   \<and> ''cus_9'' \<notin> set (map cr_customer_id (DodoCustomerModel demo_world))
   \<and> fst (routeWebhookEvent
        \<lparr>ev_type = Some ''payment.succeeded'',
         ev_object = Some (empty_object\<lparr>wo_customer := Some ''cus_9''\<rparr>)\<rparr> demo_world) = Inr ()
   \<and> members (snd (routeWebhookEvent
        \<lparr>ev_type = Some ''payment.succeeded'',
         ev_object = Some (empty_object\<lparr>wo_customer := Some ''cus_9''\<rparr>)\<rparr> demo_world)) = members demo_world
   \<and> fst (handleWebhook demo_node ''whsec''
        \<lparr>x_dodo_signature = Some ''5d41'',
         body = Some \<lparr>ev_type = Some ''payment.succeeded'',
                      ev_object = Some (empty_object\<lparr>wo_customer := Some ''cus_9''\<rparr>)\<rparr>\<rparr> demo_world) =
       \<lparr>res_status = 200, res_json = Received\<rparr>
   \<and> members (snd (handleWebhook demo_node ''whsec''
        \<lparr>x_dodo_signature = Some ''5d41'',
         body = Some \<lparr>ev_type = Some ''payment.succeeded'',
                      ev_object = Some (empty_object\<lparr>wo_customer := Some ''cus_9''\<rparr>)\<rparr>\<rparr> demo_world)) =
       members demo_world"
proof -
  let ?obj = "empty_object\<lparr>wo_customer := Some ''cus_9''\<rparr>"
  let ?ev = "\<lparr>ev_type = Some ''payment.succeeded'', ev_object = Some ?obj\<rparr>"
  let ?req = "\<lparr>x_dodo_signature = Some ''5d41'', body = Some ?ev\<rparr>"
  have sig: "verifyWebhookSignature demo_node (Some (JSON_stringify demo_node ?ev))
               (x_dodo_signature ?req) ''whsec'' = Inr True"
    by (simp add: verifyWebhookSignature_def demo_node_def)
  have cid: "(if ev_type ?ev = Some ''customer.created'' \<or> ev_type ?ev = Some ''customer.updated''
              then wo_id ?obj else wo_customer ?obj) = Some ''cus_9''"
    by simp
  have norow: "\<forall>r \<in> set (DodoCustomerModel demo_world). cr_customer_id r \<noteq> ''cus_9''"
    by (simp add: demo_world_def)
  from unknown_customer_ignored [of demo_node ?ev ?req "''whsec''" ?obj "''cus_9''" demo_world,
         OF sig _ _ cid _ norow]
  show ?thesis using sig by (simp add: demo_world_def)
qed


section \<open>The payments service: scans, creations and their frames\<close>

lemma unlogged_log [simp]:
  "unlogged (logging_info s w) = unlogged w"
  "unlogged (logging_warn s w) = unlogged w"
  "unlogged (logging_error s w) = unlogged w"
  by (simp_all add: unlogged_def log_defs)

lemma unlogged_fields:
  assumes "unlogged w' = unlogged w"
  shows "dodo w' = dodo w" "DodoCustomerModel w' = DodoCustomerModel w"
    "DodoProductModel w' = DodoProductModel w" "DodoPriceModel w' = DodoPriceModel w"
    "OfferModel w' = OfferModel w" "offersAPI w' = offersAPI w" "members w' = members w"
    "tiers w' = tiers w" "repo_unavailable w' = repo_unavailable w"
proof -
  have "\<And>f. f (unlogged w') = f (unlogged w)" using assms by simp
  from this [of dodo] this [of DodoCustomerModel] this [of DodoProductModel]
       this [of DodoPriceModel] this [of OfferModel] this [of offersAPI] this [of members]
       this [of tiers] this [of repo_unavailable]
  show "dodo w' = dodo w" "DodoCustomerModel w' = DodoCustomerModel w"
    "DodoProductModel w' = DodoProductModel w" "DodoPriceModel w' = DodoPriceModel w"
    "OfferModel w' = OfferModel w" "offersAPI w' = offersAPI w" "members w' = members w"
    "tiers w' = tiers w" "repo_unavailable w' = repo_unavailable w"
    by (simp_all add: unlogged_def)
qed

lemma makeRequest_unlogged: "unlogged (snd (makeRequest r w)) = unlogged w"
  by (cases r) (simp_all add: makeRequest_def Let_def)

lemma makeRequest_Inr: "makeRequest r w = (Inr x, w') \<longleftrightarrow> r = Ok x \<and> w' = w"
  by (cases r) (auto simp: makeRequest_def Let_def)

declare getCouponForOffer.simps [simp del]

lemma makeRequest_Inl: "makeRequest r w = (Inl e, w') \<Longrightarrow> unlogged w' = unlogged w \<and> r \<noteq> Ok x"
  by (cases r) (auto simp: makeRequest_def Let_def)

lemma dodo_post_Inr:
  "dodo_post store w = (Inr i, w') \<longleftrightarrow>
     (\<exists>rs. replies (dodo w) = Ok i # rs \<and> w' = w\<lparr>dodo := store i ((dodo w)\<lparr>replies := rs\<rparr>)\<rparr>)"
  by (auto simp: dodo_post_def makeRequest_def Let_def split: list.splits reply.splits)

lemma dodo_post_Inl:
  "dodo_post store w = (Inl e, w') \<Longrightarrow>
     unlogged w' = unlogged (w\<lparr>dodo := (dodo w)\<lparr>replies := tl (replies (dodo w))\<rparr>\<rparr>)"
  by (auto simp: dodo_post_def makeRequest_def Let_def unlogged_def log_defs
           split: list.splits reply.splits)

lemma getCustomer_unlogged: "unlogged (snd (getCustomer i w)) = unlogged w"
  using makeRequest_unlogged [of "provider_get (customers (dodo w)) i" w]
  by (auto simp: getCustomer_def split: prod.splits sum.splits)

lemma getProduct_unlogged: "unlogged (snd (getProduct i w)) = unlogged w"
  using makeRequest_unlogged [of "provider_get (products (dodo w)) i" w]
  by (auto simp: getProduct_def split: prod.splits sum.splits)

lemma getPrice_unlogged: "unlogged (snd (getPrice i w)) = unlogged w"
  using makeRequest_unlogged [of "provider_get (prices (dodo w)) i" w]
  by (auto simp: getPrice_def split: prod.splits sum.splits)

lemma scanCustomers_unlogged: "unlogged (snd (scanCustomers rows w)) = unlogged w"
proof (induction rows arbitrary: w)
  case Nil
  show ?case by simp
next
  case (Cons a rows)
  show ?case
    using getCustomer_unlogged [of a w] Cons.IH
    by (auto split: prod.splits sum.splits)
qed

lemma scanProducts_unlogged: "unlogged (snd (scanProducts rows w)) = unlogged w"
proof (induction rows arbitrary: w)
  case Nil
  show ?case by simp
next
  case (Cons a rows)
  show ?case
    using getProduct_unlogged [of a w] Cons.IH
    by (auto split: prod.splits sum.splits)
qed


lemma getCustomer_result:
  "fst (getCustomer i w) =
     (case provider_get (customers (dodo w)) i of
        Ok c \<Rightarrow> Inr \<lparr>dc_id = Some i, dc_email = pc_email c, dc_name = pc_name c, dc_deleted = pc_deleted c\<rparr>
      | HttpError st msg \<Rightarrow>
          if st = 404 then Inr deleted_customer
          else Inl (BadRequestError (''Dodo API Error: '' @ (if msg = [] then ''Unknown error'' else msg)) st)
      | NetworkError msg \<Rightarrow> Inl (FetchError msg))"
  by (simp add: getCustomer_def makeRequest_def Let_def split: reply.splits)

lemma scanCustomers_result:
  "fst (scanCustomers rows w) = first_live (customers (dodo w)) rows"
proof (induction rows arbitrary: w)
  case Nil
  show ?case by simp
next
  case (Cons i rows)
  obtain r w1 where g: "getCustomer i w = (r, w1)" by (cases "getCustomer i w")
  have d: "dodo w1 = dodo w"
    using getCustomer_unlogged [of i w] g by (auto dest: unlogged_fields)
  have r: "r = fst (getCustomer i w)" using g by simp
  show ?case
    using d
    by (simp add: g, simp add: r getCustomer_result Cons.IH log_defs deleted_customer_def
          split: reply.splits)
qed


lemma provider_get_Cons [simp]:
  "provider_get ((i, r) # tbl) j = (if j = i then r else provider_get tbl j)"
  by (simp add: provider_get_def)

lemma dodo_post_Ok:
  "replies (dodo w) = Ok i # rs \<Longrightarrow>
     dodo_post store w = (Inr i, w\<lparr>dodo := store i ((dodo w)\<lparr>replies := rs\<rparr>)\<rparr>)"
  by (simp add: dodo_post_def makeRequest_def Let_def)

lemma createCustomerForMember_Inr:
  "createCustomerForMember mem w = (Inr c, w') \<longleftrightarrow>
     (\<exists>i rs. replies (dodo w) = Ok i # rs
        \<and> c = \<lparr>dc_id = Some i, dc_email = Some (m_email mem), dc_name = m_name mem, dc_deleted = False\<rparr>
        \<and> w' = w\<lparr>dodo := (dodo w)\<lparr>replies := rs,
                     customers := (i, Ok \<lparr>pc_email = Some (m_email mem), pc_name = m_name mem,
                                            pc_deleted = False\<rparr>) # customers (dodo w)\<rparr>,
                  DodoCustomerModel := DodoCustomerModel w @
                     [\<lparr>cr_member_id = m_id mem, cr_customer_id = i,
                       cr_email = Some (m_email mem), cr_name = m_name mem\<rparr>]\<rparr>)"
  by (auto simp: createCustomerForMember_def createCustomer_def dodo_post_Inr dodo_post_Ok
           split: prod.splits sum.splits option.splits)

lemma first_live_new:
  "first_live tbl rows = None \<Longrightarrow> \<not> pc_deleted c \<Longrightarrow>
   first_live ((i, Ok c) # tbl) (rows @ [i]) =
     Some \<lparr>dc_id = Some i, dc_email = pc_email c, dc_name = pc_name c, dc_deleted = False\<rparr>"
  by (induction rows) (auto split: reply.splits if_splits)

lemma getCustomerForMember_found:
  assumes "first_live (customers (dodo w))
             (map cr_customer_id (filter (\<lambda>r. cr_member_id r = m_id mem) (DodoCustomerModel w))) = Some c"
  shows "\<exists>w'. getCustomerForMember mem w = (Inr c, w') \<and> unlogged w' = unlogged w"
proof -
  let ?rows = "map cr_customer_id (filter (\<lambda>r. cr_member_id r = m_id mem) (DodoCustomerModel w))"
  obtain r w' where sc: "scanCustomers ?rows w = (r, w')" by (cases "scanCustomers ?rows w")
  have "r = Some c" using scanCustomers_result [of ?rows w] sc assms by simp
  moreover have "unlogged w' = unlogged w" using scanCustomers_unlogged [of ?rows w] sc by simp
  ultimately show ?thesis using sc by (simp add: getCustomerForMember_def)
qed

lemma customer_idempotent:
  assumes "getCustomerForMember mem w = (Inr c, w1)"
  shows "\<exists>w2. getCustomerForMember mem w1 = (Inr c, w2) \<and> unlogged w2 = unlogged w1"
    and "artifacts (dodo w1) \<le> artifacts (dodo w) + 1"
proof -
  let ?rows = "map cr_customer_id (filter (\<lambda>r. cr_member_id r = m_id mem) (DodoCustomerModel w))"
  obtain r w0 where sc: "scanCustomers ?rows w = (r, w0)" by (cases "scanCustomers ?rows w")
  have r: "r = first_live (customers (dodo w)) ?rows" using scanCustomers_result [of ?rows w] sc by simp
  have u0: "unlogged w0 = unlogged w" using scanCustomers_unlogged [of ?rows w] sc by simp
  note f0 = unlogged_fields [OF u0]
  have both: "(\<exists>w2. getCustomerForMember mem w1 = (Inr c, w2) \<and> unlogged w2 = unlogged w1)
      \<and> artifacts (dodo w1) \<le> artifacts (dodo w) + 1"
  proof (cases r)
    case (Some c')
    then have eq: "c = c'" "w1 = w0" using assms sc by (simp_all add: getCustomerForMember_def)
    have "first_live (customers (dodo w1))
             (map cr_customer_id (filter (\<lambda>r. cr_member_id r = m_id mem) (DodoCustomerModel w1))) = Some c"
      using r Some eq f0 by simp
    from getCustomerForMember_found [OF this] show ?thesis using eq f0 by simp
  next
    case None
    then have cr: "createCustomerForMember mem w0 = (Inr c, w1)"
      using assms sc by (simp add: getCustomerForMember_def)
    then obtain i rs where rep: "replies (dodo w0) = Ok i # rs"
      and c: "c = \<lparr>dc_id = Some i, dc_email = Some (m_email mem), dc_name = m_name mem, dc_deleted = False\<rparr>"
      and w1: "w1 = w0\<lparr>dodo := (dodo w0)\<lparr>replies := rs,
                     customers := (i, Ok \<lparr>pc_email = Some (m_email mem), pc_name = m_name mem,
                                            pc_deleted = False\<rparr>) # customers (dodo w0)\<rparr>,
                  DodoCustomerModel := DodoCustomerModel w0 @
                     [\<lparr>cr_member_id = m_id mem, cr_customer_id = i,
                       cr_email = Some (m_email mem), cr_name = m_name mem\<rparr>]\<rparr>"
      unfolding createCustomerForMember_Inr by blast
    have "first_live (customers (dodo w1))
             (map cr_customer_id (filter (\<lambda>r. cr_member_id r = m_id mem) (DodoCustomerModel w1))) = Some c"
      using first_live_new [of "customers (dodo w)" ?rows
               "\<lparr>pc_email = Some (m_email mem), pc_name = m_name mem, pc_deleted = False\<rparr>" i]
            r None f0
      by (simp add: w1 c)
    from getCustomerForMember_found [OF this] show ?thesis
      using f0 by (simp add: w1 artifacts_def)
  qed
  show "\<exists>w2. getCustomerForMember mem w1 = (Inr c, w2) \<and> unlogged w2 = unlogged w1"
    and "artifacts (dodo w1) \<le> artifacts (dodo w) + 1"
    using both by simp_all
qed


lemma getProduct_result:
  "fst (getProduct i w) =
     (case provider_get (products (dodo w)) i of
        Ok p \<Rightarrow> Inr \<lparr>dp_id = i, dp_name = pp_name p, dp_active = pp_active p\<rparr>
      | HttpError st msg \<Rightarrow>
          Inl (BadRequestError (''Dodo API Error: '' @ (if msg = [] then ''Unknown error'' else msg)) st)
      | NetworkError msg \<Rightarrow> Inl (FetchError msg))"
  by (simp add: getProduct_def makeRequest_def Let_def split: reply.splits)

lemma scanProducts_result:
  "fst (scanProducts rows w) = first_active (products (dodo w)) rows"
proof (induction rows arbitrary: w)
  case Nil
  show ?case by simp
next
  case (Cons i rows)
  obtain r w1 where g: "getProduct i w = (r, w1)" by (cases "getProduct i w")
  have d: "dodo w1 = dodo w"
    using getProduct_unlogged [of i w] g by (auto dest: unlogged_fields)
  have r: "r = fst (getProduct i w)" using g by simp
  show ?case
    using d
    by (simp add: g, simp add: r getProduct_result Cons.IH log_defs split: reply.splits)
qed

lemma createProductForTier_Inr:
  "createProductForTier tr w = (Inr p, w') \<longleftrightarrow>
     (\<exists>i rs. replies (dodo w) = Ok i # rs
        \<and> p = \<lparr>dp_id = i, dp_name = t_name tr, dp_active = True\<rparr>
        \<and> w' = w\<lparr>dodo := (dodo w)\<lparr>replies := rs,
                     products := (i, Ok \<lparr>pp_name = t_name tr, pp_active = True\<rparr>) # products (dodo w)\<rparr>,
                  DodoProductModel := DodoProductModel w @
                     [\<lparr>pr_product_id = Some (t_id tr), pr_dodo_product_id = i\<rparr>]\<rparr>)"
  by (auto simp: createProductForTier_def createProduct_def dodo_post_Inr dodo_post_Ok
           split: prod.splits sum.splits option.splits)

lemma first_active_new:
  "first_active tbl rows = None \<Longrightarrow> pp_active p \<Longrightarrow>
   first_active ((i, Ok p) # tbl) (rows @ [i]) = Some i"
  by (induction rows) (auto split: reply.splits if_splits)

lemma getProductForTier_found:
  assumes "first_active (products (dodo w)) (product_rows tr w) = Some i"
  shows "\<exists>w'. getProductForTier tr w = (Inr i, w') \<and> unlogged w' = unlogged w"
proof -
  obtain r w' where sc: "scanProducts (product_rows tr w) w = (r, w')"
    by (cases "scanProducts (product_rows tr w) w")
  have "r = Some i" using scanProducts_result [of "product_rows tr w" w] sc assms by simp
  moreover have "unlogged w' = unlogged w"
    using scanProducts_unlogged [of "product_rows tr w" w] sc by simp
  ultimately show ?thesis using sc by (simp add: getProductForTier_def product_rows_def)
qed

text \<open>What a successful product resolution leaves behind.\<close>

lemma getProductForTier_Inr:
  assumes "getProductForTier tr w = (Inr i, w1)"
  shows "first_active (products (dodo w1)) (product_rows tr w1) = Some i"
    and "unlogged w1 = unlogged w \<or>
         (\<exists>rs. replies (dodo w) = Ok i # rs \<and>
            unlogged w1 = unlogged (w\<lparr>dodo := (dodo w)\<lparr>replies := rs,
                     products := (i, Ok \<lparr>pp_name = t_name tr, pp_active = True\<rparr>) # products (dodo w)\<rparr>,
                  DodoProductModel := DodoProductModel w @
                     [\<lparr>pr_product_id = Some (t_id tr), pr_dodo_product_id = i\<rparr>]\<rparr>))"
proof -
  obtain r w0 where sc: "scanProducts (product_rows tr w) w = (r, w0)"
    by (cases "scanProducts (product_rows tr w) w")
  have r: "r = first_active (products (dodo w)) (product_rows tr w)"
    using scanProducts_result [of "product_rows tr w" w] sc by simp
  have u0: "unlogged w0 = unlogged w" using scanProducts_unlogged [of "product_rows tr w" w] sc by simp
  note f0 = unlogged_fields [OF u0]
  have both: "first_active (products (dodo w1)) (product_rows tr w1) = Some i \<and>
     (unlogged w1 = unlogged w \<or>
         (\<exists>rs. replies (dodo w) = Ok i # rs \<and>
            unlogged w1 = unlogged (w\<lparr>dodo := (dodo w)\<lparr>replies := rs,
                     products := (i, Ok \<lparr>pp_name = t_name tr, pp_active = True\<rparr>) # products (dodo w)\<rparr>,
                  DodoProductModel := DodoProductModel w @
                     [\<lparr>pr_product_id = Some (t_id tr), pr_dodo_product_id = i\<rparr>]\<rparr>)))"
  proof (cases r)
    case (Some i')
    then have eq: "i = i'" "w1 = w0"
      using assms sc by (simp_all add: getProductForTier_def product_rows_def)
    show ?thesis using r Some eq f0 u0 by (simp add: product_rows_def)
  next
    case None
    then obtain p where cr: "createProductForTier tr w0 = (Inr p, w1)" and ip: "i = dp_id p"
      using assms sc
      by (auto simp: getProductForTier_def product_rows_def split: prod.splits sum.splits)
    then obtain j rs where rep: "replies (dodo w0) = Ok j # rs"
      and p: "p = \<lparr>dp_id = j, dp_name = t_name tr, dp_active = True\<rparr>"
      and w1: "w1 = w0\<lparr>dodo := (dodo w0)\<lparr>replies := rs,
                     products := (j, Ok \<lparr>pp_name = t_name tr, pp_active = True\<rparr>) # products (dodo w0)\<rparr>,
                  DodoProductModel := DodoProductModel w0 @
                     [\<lparr>pr_product_id = Some (t_id tr), pr_dodo_product_id = j\<rparr>]\<rparr>"
      unfolding createProductForTier_Inr by blast
    have ij: "i = j" using ip p by simp
    have fa: "first_active (products (dodo w1)) (product_rows tr w1) = Some i"
      using first_active_new [of "products (dodo w)" "product_rows tr w"
               "\<lparr>pp_name = t_name tr, pp_active = True\<rparr>" i]
            r None f0
      by (simp add: w1 ij product_rows_def)
    have "unlogged w1 = unlogged (w\<lparr>dodo := (dodo w)\<lparr>replies := rs,
                     products := (i, Ok \<lparr>pp_name = t_name tr, pp_active = True\<rparr>) # products (dodo w)\<rparr>,
                  DodoProductModel := DodoProductModel w @
                     [\<lparr>pr_product_id = Some (t_id tr), pr_dodo_product_id = i\<rparr>]\<rparr>)"
      using u0 f0 by (simp add: w1 ij unlogged_def)
    then show ?thesis using fa rep f0 ij by auto
  qed
  show "first_active (products (dodo w1)) (product_rows tr w1) = Some i"
    and "unlogged w1 = unlogged w \<or>
         (\<exists>rs. replies (dodo w) = Ok i # rs \<and>
            unlogged w1 = unlogged (w\<lparr>dodo := (dodo w)\<lparr>replies := rs,
                     products := (i, Ok \<lparr>pp_name = t_name tr, pp_active = True\<rparr>) # products (dodo w)\<rparr>,
                  DodoProductModel := DodoProductModel w @
                     [\<lparr>pr_product_id = Some (t_id tr), pr_dodo_product_id = i\<rparr>]\<rparr>))"
    using both by simp_all
qed


lemma product_idempotent:
  assumes "getProductForTier tr w = (Inr i, w1)"
  shows "\<exists>w2. getProductForTier tr w1 = (Inr i, w2) \<and> unlogged w2 = unlogged w1"
    and "artifacts (dodo w1) \<le> artifacts (dodo w) + 1"
proof -
  note r = getProductForTier_Inr [OF assms]
  show "\<exists>w2. getProductForTier tr w1 = (Inr i, w2) \<and> unlogged w2 = unlogged w1"
    by (rule getProductForTier_found [OF r(1)])
  from r(2) show "artifacts (dodo w1) \<le> artifacts (dodo w) + 1"
    by (auto dest!: unlogged_fields(1) simp: artifacts_def)
qed

lemma find_map_or_id:
  assumes "\<And>r. or_id (f r) = or_id r"
  shows "find (\<lambda>r. or_id r = i) (map f rows) = map_option f (find (\<lambda>r. or_id r = i) rows)"
  using assms by (induction rows) auto

lemma find_Some_P: "find P xs = Some x \<Longrightarrow> P x"
  by (induction xs) (auto split: if_splits)

lemma createCouponForOffer_Inr:
  "createCouponForOffer (Some ofr) w = (Inr u, w') \<longleftrightarrow>
     (\<exists>i rs. replies (dodo w) = Ok i # rs
        \<and> w' = w\<lparr>dodo := (dodo w)\<lparr>replies := rs,
                     coupons := (i, coupon_request_of (couponData_of ofr)) # coupons (dodo w)\<rparr>,
                  OfferModel := map (\<lambda>r. if or_id r = od_id ofr
                                         then r\<lparr>or_dodo_coupon_id := Some i\<rparr> else r) (OfferModel w)\<rparr>)"
  by (auto simp: createCouponForOffer_def createCoupon_def dodo_post_Inr dodo_post_Ok
           split: prod.splits sum.splits option.splits)

lemma createCouponForOffer_None [simp]:
  "createCouponForOffer None w = (Inl (TypeError ''Cannot read properties of null''), w)"
  by (simp add: createCouponForOffer_def)

lemma getCouponForOffer_stored:
  "find (\<lambda>r. or_id r = oid) (OfferModel w) = Some row \<Longrightarrow> or_discount_type row \<noteq> ''trial'' \<Longrightarrow>
   truthy (or_dodo_coupon_id row) \<Longrightarrow> getCouponForOffer oid w = (Inr (or_dodo_coupon_id row), w)"
  by (subst getCouponForOffer.simps) simp

lemma coupon_idempotent:
  assumes ne: "Ok [] \<notin> set (replies (dodo w))"
    and res: "getCouponForOffer oid w = (Inr r, w1)"
  shows "getCouponForOffer oid w1 = (Inr r, w1)"
    and "artifacts (dodo w1) \<le> artifacts (dodo w) + 1"
proof -
  have both: "getCouponForOffer oid w1 = (Inr r, w1) \<and> artifacts (dodo w1) \<le> artifacts (dodo w) + 1"
  proof (cases "find (\<lambda>r. or_id r = oid) (OfferModel w)")
    case None
    then have "getCouponForOffer oid w = (Inr None, w)" by (subst getCouponForOffer.simps) simp
    with res show ?thesis by simp
  next
    case (Some row)
    show ?thesis
    proof (cases "or_discount_type row = ''trial''")
      case True
      with Some have "getCouponForOffer oid w = (Inr None, w)" by (subst getCouponForOffer.simps) simp
      with res show ?thesis by simp
    next
      case nt: False
      show ?thesis
      proof (cases "truthy (or_dodo_coupon_id row)")
        case True
        from getCouponForOffer_stored [OF Some nt True] res show ?thesis by simp
      next
        case False
        from res Some nt False obtain u w' where
          cr: "createCouponForOffer (offersAPI_getOffer oid w) w = (Inr u, w')"
          and rec: "getCouponForOffer oid w' = (Inr r, w1)"
          by (subst (asm) getCouponForOffer.simps) (auto split: prod.splits sum.splits)
        from cr obtain ofr where o: "offersAPI_getOffer oid w = Some ofr"
          by (cases "offersAPI_getOffer oid w") auto
        then have oid: "od_id ofr = oid"
          by (auto simp: offersAPI_getOffer_def dest: find_Some_P)
        from cr [unfolded o createCouponForOffer_Inr] obtain i rs where
          rep: "replies (dodo w) = Ok i # rs"
          and w': "w' = w\<lparr>dodo := (dodo w)\<lparr>replies := rs,
                     coupons := (i, coupon_request_of (couponData_of ofr)) # coupons (dodo w)\<rparr>,
                  OfferModel := map (\<lambda>r. if or_id r = od_id ofr
                                         then r\<lparr>or_dodo_coupon_id := Some i\<rparr> else r) (OfferModel w)\<rparr>"
          by blast
        have i: "i \<noteq> []" using ne rep by auto
        let ?f = "\<lambda>r. if or_id r = oid then r\<lparr>or_dodo_coupon_id := Some i\<rparr> else r"
        have fnd: "find (\<lambda>r. or_id r = oid) (OfferModel w') = Some (row\<lparr>or_dodo_coupon_id := Some i\<rparr>)"
          using Some find_Some_P [OF Some] by (simp add: w' oid find_map_or_id [of ?f])
        have st: "getCouponForOffer oid w' = (Inr (Some i), w')"
          using getCouponForOffer_stored [OF fnd] nt i by simp
        with rec have "r = Some i" "w1 = w'" by simp_all
        then show ?thesis using st by (simp add: w' artifacts_def)
      qed
    qed
  qed
  then show "getCouponForOffer oid w1 = (Inr r, w1)"
    and "artifacts (dodo w1) \<le> artifacts (dodo w) + 1" by simp_all
qed

text \<open>A coupon that is returned has a non-empty id, and resolving it starts no session.\<close>

lemma getCouponForOffer_Some:
  "getCouponForOffer oid w = (Inr (Some c), w1) \<Longrightarrow> c \<noteq> [] \<and> sessions (dodo w1) = sessions (dodo w)"
proof (induction oid w rule: getCouponForOffer.induct)
  case (1 offerId w)
  show ?case
  proof (cases "find (\<lambda>r. or_id r = offerId) (OfferModel w)")
    case None
    then have "getCouponForOffer offerId w = (Inr None, w)" by (subst getCouponForOffer.simps) simp
    with "1.prems" show ?thesis by simp
  next
    case (Some row)
    show ?thesis
    proof (cases "or_discount_type row = ''trial''")
      case True
      with Some have "getCouponForOffer offerId w = (Inr None, w)" by (subst getCouponForOffer.simps) simp
      with "1.prems" show ?thesis by simp
    next
      case nt: False
      show ?thesis
      proof (cases "truthy (or_dodo_coupon_id row)")
        case True
        from getCouponForOffer_stored [OF Some nt True] "1.prems" True show ?thesis
          by (cases "or_dodo_coupon_id row") auto
      next
        case False
        from "1.prems" Some nt False obtain u w' where
          cr: "createCouponForOffer (offersAPI_getOffer offerId w) w = (Inr u, w')"
          and rec: "getCouponForOffer offerId w' = (Inr (Some c), w1)"
          by (subst (asm) getCouponForOffer.simps) (auto split: prod.splits sum.splits)
        have ih: "c \<noteq> [] \<and> sessions (dodo w1) = sessions (dodo w')"
          by (rule "1.IH" [OF Some nt False cr [symmetric] _ rec]) simp
        from cr obtain ofr where o: "offersAPI_getOffer offerId w = Some ofr"
          by (cases "offersAPI_getOffer offerId w") auto
        from cr [unfolded o createCouponForOffer_Inr] have "sessions (dodo w') = sessions (dodo w)"
          by auto
        with ih show ?thesis by simp
      qed
    qed
  qed
qed


lemma lower_char_idem [simp]: "lower_char (lower_char c) = lower_char c"
  by (auto simp: lower_char_def)

lemma toLowerCase_idem [simp]: "toLowerCase (toLowerCase s) = toLowerCase s"
  by (simp add: toLowerCase_def)

lemma unpriced_log [simp]:
  "unpriced (logging_info s w) = unpriced w"
  "unpriced (logging_warn s w) = unpriced w"
  "unpriced (logging_error s w) = unpriced w"
  "unpriced (DodoPriceModel_edit_active a i w) = unpriced w"
  by (simp_all add: unpriced_def log_defs DodoPriceModel_edit_active_def)

lemma unlogged_unpriced: "unlogged w' = unlogged w \<Longrightarrow> unpriced w' = unpriced w"
proof -
  assume "unlogged w' = unlogged w"
  then have "(unlogged w')\<lparr>DodoPriceModel := []\<rparr> = (unlogged w)\<lparr>DodoPriceModel := []\<rparr>" by simp
  then show ?thesis by (simp add: unlogged_def unpriced_def)
qed

lemma unpriced_fields:
  assumes "unpriced w' = unpriced w"
  shows "dodo w' = dodo w" "DodoCustomerModel w' = DodoCustomerModel w"
    "DodoProductModel w' = DodoProductModel w"
    "OfferModel w' = OfferModel w" "offersAPI w' = offersAPI w" "members w' = members w"
    "tiers w' = tiers w" "repo_unavailable w' = repo_unavailable w"
proof -
  have "\<And>f. f (unpriced w') = f (unpriced w)" using assms by simp
  from this [of dodo] this [of DodoCustomerModel] this [of DodoProductModel]
       this [of OfferModel] this [of offersAPI] this [of members]
       this [of tiers] this [of repo_unavailable]
  show "dodo w' = dodo w" "DodoCustomerModel w' = DodoCustomerModel w"
    "DodoProductModel w' = DodoProductModel w"
    "OfferModel w' = OfferModel w" "offersAPI w' = offersAPI w" "members w' = members w"
    "tiers w' = tiers w" "repo_unavailable w' = repo_unavailable w"
    by (simp_all add: unpriced_def)
qed

lemma getPrice_result:
  "fst (getPrice i w) =
     (case provider_get (prices (dodo w)) i of
        Ok p \<Rightarrow> Inr ((price_object i p)\<lparr>dx_nickname := None\<rparr>)
      | HttpError st msg \<Rightarrow>
          Inl (BadRequestError (''Dodo API Error: '' @ (if msg = [] then ''Unknown error'' else msg)) st)
      | NetworkError msg \<Rightarrow> Inl (FetchError msg))"
  by (simp add: getPrice_def makeRequest_def Let_def split: reply.splits)

lemma price_verified_nickname [simp]:
  "price_verified c a cad (p\<lparr>dx_nickname := n\<rparr>) = price_verified c a cad p"
  by (simp add: price_verified_def)

lemma dx_id_price_object [simp]: "dx_id (price_object i p) = i"
  by (simp add: price_object_def)

lemma row_verified_active [simp]:
  "row_verified tbl c a cad (r\<lparr>row_active := b\<rparr>) = row_verified tbl c a cad r"
  by (simp add: row_verified_def split: reply.splits)

text \<open>One step of the price scan, by what the provider answers for the row's price id.\<close>

lemma scanPrices_step:
  "scanPrices c a cad (row # rows) w =
     (case provider_get (prices (dodo w)) (dodo_price_id row) of
        Ok p \<Rightarrow>
          if row_verified (prices (dodo w)) c a cad row then (Some (dodo_price_id row), w)
          else scanPrices c a cad rows (DodoPriceModel_edit_active (px_active p) (row_id row) w)
      | HttpError st msg \<Rightarrow>
          scanPrices c a cad rows
            (logging_error (''Dodo API Error: '' @ (if msg = [] then ''Unknown error'' else msg))
              (logging_error (''Failed to lookup Dodo Price '' @ dodo_price_id row)
                (logging_error (''Dodo API request failed: '' @ ''Dodo API Error: '' @
                     (if msg = [] then ''Unknown error'' else msg)) w)))
      | NetworkError msg \<Rightarrow>
          scanPrices c a cad rows
            (logging_error msg
              (logging_error (''Failed to lookup Dodo Price '' @ dodo_price_id row)
                (logging_error (''Dodo API request failed: '' @ msg) w))))"
  by (simp add: getPrice_def makeRequest_def Let_def row_verified_def price_object_def
                price_verified_def split: reply.splits)


declare scanPrices.simps(2) [simp del]

lemma scanPrices_step_fail:
  assumes "\<And>p. provider_get (prices (dodo w)) (dodo_price_id row) \<noteq> Ok p"
  shows "\<exists>l. scanPrices c a cad (row # rows) w = scanPrices c a cad rows (w\<lparr>logging := l\<rparr>)"
proof (cases "provider_get (prices (dodo w)) (dodo_price_id row)")
  case (Ok p)
  with assms [of p] show ?thesis by simp
next
  case (HttpError st msg)
  then show ?thesis by (simp add: scanPrices_step log_defs) blast
next
  case (NetworkError msg)
  then show ?thesis by (simp add: scanPrices_step log_defs) blast
qed

lemma unpriced_logging [simp]: "unpriced (w\<lparr>logging := l\<rparr>) = unpriced w"
  by (simp add: unpriced_def)

lemma scanPrices_char:
  assumes "scanPrices c a cad rows w = (res, w')"
  shows "res = map_option dodo_price_id (find (row_verified (prices (dodo w)) c a cad) rows)
       \<and> unpriced w' = unpriced w"
  using assms
proof (induction rows arbitrary: w)
  case Nil
  then show ?case by simp
next
  case (Cons row rows)
  show ?case
  proof (cases "provider_get (prices (dodo w)) (dodo_price_id row)")
    case (Ok p)
    show ?thesis
    proof (cases "row_verified (prices (dodo w)) c a cad row")
      case True
      with Cons.prems Ok show ?thesis by (simp add: scanPrices_step)
    next
      case False
      let ?w1 = "DodoPriceModel_edit_active (px_active p) (row_id row) w"
      have d1: "dodo ?w1 = dodo w" by (simp add: DodoPriceModel_edit_active_def)
      have "scanPrices c a cad rows ?w1 = (res, w')"
        using Cons.prems Ok False by (simp add: scanPrices_step)
      from Cons.IH [OF this] False d1 show ?thesis by simp
    qed
  next
    case (HttpError st msg)
    then have nv: "\<not> row_verified (prices (dodo w)) c a cad row" by (simp add: row_verified_def)
    from HttpError scanPrices_step_fail [of w row c a cad rows] Cons.prems obtain l where
      "scanPrices c a cad rows (w\<lparr>logging := l\<rparr>) = (res, w')" by auto
    from Cons.IH [OF this] nv show ?thesis by simp
  next
    case (NetworkError msg)
    then have nv: "\<not> row_verified (prices (dodo w)) c a cad row" by (simp add: row_verified_def)
    from NetworkError scanPrices_step_fail [of w row c a cad rows] Cons.prems obtain l where
      "scanPrices c a cad rows (w\<lparr>logging := l\<rparr>) = (res, w')" by auto
    from Cons.IH [OF this] nv show ?thesis by simp
  qed
qed

lemma distinct_map_eq:
  "distinct (map f xs) \<Longrightarrow> x \<in> set xs \<Longrightarrow> y \<in> set xs \<Longrightarrow> f x = f y \<Longrightarrow> x = y"
  by (auto simp: distinct_map dest: inj_onD)

lemma healed_edit:
  assumes d: "distinct (map row_id T0)" and r: "row \<in> set T0" and nv: "\<not> V row"
    and h: "list_all2 (healed V) T0 T"
  shows "list_all2 (healed V) T0
           (map (\<lambda>r'. if row_id r' = row_id row then r'\<lparr>row_active := b\<rparr> else r') T)"
  unfolding list_all2_map2
proof (rule list.rel_mono_strong [OF h])
  fix x y
  assume x: "x \<in> set T0" and hy: "healed V x y"
  then have y: "y = x\<lparr>row_active := row_active y\<rparr>" and vx: "V x \<longrightarrow> y = x"
    by (simp_all add: healed_def)
  from y have id: "row_id y = row_id x" by (metis price_row.select_convs(1) price_row.surjective price_row.update_convs(4))
  show "healed V x (if row_id y = row_id row then y\<lparr>row_active := b\<rparr> else y)"
  proof (cases "row_id y = row_id row")
    case True
    then have "x = row" using distinct_map_eq [OF d x r] id by simp
    then have "\<not> V x" using nv by simp
    moreover have "y\<lparr>row_active := b\<rparr> = x\<lparr>row_active := b\<rparr>" by (subst y) simp
    ultimately show ?thesis using True by (simp add: healed_def)
  next
    case False
    with hy show ?thesis by simp
  qed
qed

lemma scanPrices_healed:
  assumes "distinct (map row_id T0)" and "set rows \<subseteq> set T0"
    and "prices (dodo w) = tbl"
    and "list_all2 (healed (row_verified tbl c a cad)) T0 (DodoPriceModel w)"
    and "scanPrices c a cad rows w = (res, w')"
  shows "list_all2 (healed (row_verified tbl c a cad)) T0 (DodoPriceModel w')"
  using assms(2-)
proof (induction rows arbitrary: w)
  case Nil
  then show ?case by simp
next
  case (Cons row rows)
  have sub: "set rows \<subseteq> set T0" and row: "row \<in> set T0" using Cons.prems(1) by simp_all
  show ?case
  proof (cases "provider_get tbl (dodo_price_id row)")
    case (Ok p)
    show ?thesis
    proof (cases "row_verified tbl c a cad row")
      case True
      with Cons.prems Ok show ?thesis by (simp add: scanPrices_step)
    next
      case False
      let ?w1 = "DodoPriceModel_edit_active (px_active p) (row_id row) w"
      have sc: "scanPrices c a cad rows ?w1 = (res, w')"
        using Cons.prems Ok False by (simp add: scanPrices_step)
      have h: "list_all2 (healed (row_verified tbl c a cad)) T0 (DodoPriceModel ?w1)"
        using healed_edit [OF assms(1) row False Cons.prems(3)]
        by (simp add: DodoPriceModel_edit_active_def)
      have t: "prices (dodo ?w1) = tbl"
        using Cons.prems(2) by (simp add: DodoPriceModel_edit_active_def)
      show ?thesis by (rule Cons.IH [OF sub t h sc])
    qed
  next
    case (HttpError st msg)
    from HttpError scanPrices_step_fail [of w row c a cad rows] Cons.prems obtain l where
      "scanPrices c a cad rows (w\<lparr>logging := l\<rparr>) = (res, w')" by auto
    from Cons.IH [OF sub _ _ this] Cons.prems show ?thesis by simp
  next
    case (NetworkError msg)
    from NetworkError scanPrices_step_fail [of w row c a cad rows] Cons.prems obtain l where
      "scanPrices c a cad rows (w\<lparr>logging := l\<rparr>) = (res, w')" by auto
    from Cons.IH [OF sub _ _ this] Cons.prems show ?thesis by simp
  qed
qed

lemma healed_refl: "list_all2 (healed V) T T"
  by (simp add: list_all2_refl healed_def)

lemma find_filter: "find V (filter P xs) = find (\<lambda>x. P x \<and> V x) xs"
  by (induction xs) auto

lemma find_healed:
  assumes "list_all2 (healed (row_verified tbl c a cad)) T T'"
  shows "find (\<lambda>r. P r \<and> row_verified tbl c a cad r) T' = find (\<lambda>r. P r \<and> row_verified tbl c a cad r) T"
  using assms
proof (induction rule: list_all2_induct)
  case Nil
  show ?case by simp
next
  case (Cons x xs y ys)
  from Cons.hyps(1) have y: "y = x\<lparr>row_active := row_active y\<rparr>"
    and v: "row_verified tbl c a cad x \<longrightarrow> y = x" by (simp_all add: healed_def)
  have vy: "row_verified tbl c a cad y = row_verified tbl c a cad x" by (subst y) simp
  show ?case using Cons.IH v vy by auto
qed


lemma getProductForTier_frame:
  assumes "getProductForTier tr w = (Inr i, w1)"
  shows "DodoPriceModel w1 = DodoPriceModel w" "prices (dodo w1) = prices (dodo w)"
    "customers (dodo w1) = customers (dodo w)" "coupons (dodo w1) = coupons (dodo w)"
    "sessions (dodo w1) = sessions (dodo w)"
    "length (products (dodo w1)) \<le> length (products (dodo w)) + 1"
proof -
  from getProductForTier_Inr(2) [OF assms]
  have "(dodo w1 = dodo w \<or>
         (\<exists>rs. dodo w1 = (dodo w)\<lparr>replies := rs,
                     products := (i, Ok \<lparr>pp_name = t_name tr, pp_active = True\<rparr>) # products (dodo w)\<rparr>))
       \<and> DodoPriceModel w1 = DodoPriceModel w"
  proof (elim disjE exE conjE)
    assume u: "unlogged w1 = unlogged w"
    from unlogged_fields(1,4) [OF u] show ?thesis by simp
  next
    fix rs
    assume u: "unlogged w1 = unlogged (w\<lparr>dodo := (dodo w)\<lparr>replies := rs,
                     products := (i, Ok \<lparr>pp_name = t_name tr, pp_active = True\<rparr>) # products (dodo w)\<rparr>,
                  DodoProductModel := DodoProductModel w @
                     [\<lparr>pr_product_id = Some (t_id tr), pr_dodo_product_id = i\<rparr>]\<rparr>)"
    from unlogged_fields(1,4) [OF u] show ?thesis by auto
  qed
  then show "DodoPriceModel w1 = DodoPriceModel w" "prices (dodo w1) = prices (dodo w)"
    "customers (dodo w1) = customers (dodo w)" "coupons (dodo w1) = coupons (dodo w)"
    "sessions (dodo w1) = sessions (dodo w)"
    "length (products (dodo w1)) \<le> length (products (dodo w)) + 1"
    by auto
qed

lemma createPrice_Inr:
  "createPrice pd w = (Inr price, w') \<longleftrightarrow>
     (\<exists>x rs. replies (dodo w) = Ok x # rs \<and> price = price_object x (price_request pd)
        \<and> w' = w\<lparr>dodo := (dodo w)\<lparr>replies := rs,
                     prices := (x, Ok (price_request pd)) # prices (dodo w)\<rparr>\<rparr>)"
  by (auto simp: createPrice_def dodo_post_Inr dodo_post_Ok split: prod.splits sum.splits)

lemma getPrice_found:
  assumes fa: "first_active (products (dodo w)) (product_rows tr w) = Some p"
    and fnd: "find (\<lambda>r. price_candidate p (toLowerCase (t_currency tr)) (tier_getPrice tr cad) cad r
                       \<and> row_verified (prices (dodo w)) (toLowerCase (t_currency tr)) (tier_getPrice tr cad) cad r)
                (DodoPriceModel w) = Some k"
  shows "\<exists>w2. getPriceForTierCadence tr cad w = (Inr (dodo_price_id k), w2) \<and> dodo w2 = dodo w"
proof -
  let ?c = "toLowerCase (t_currency tr)" and ?a = "tier_getPrice tr cad"
  from getProductForTier_found [OF fa] obtain w1 where
    g: "getProductForTier tr w = (Inr p, w1)" and u1: "unlogged w1 = unlogged w" by blast
  note f1 = unlogged_fields [OF u1]
  let ?rows = "filter (price_candidate p ?c ?a cad) (DodoPriceModel w1)"
  obtain res w2 where sc: "scanPrices ?c ?a cad ?rows w1 = (res, w2)"
    by (cases "scanPrices ?c ?a cad ?rows w1")
  from scanPrices_char [OF sc] have r: "res = Some (dodo_price_id k)" and u2: "unpriced w2 = unpriced w1"
    using fnd f1 by (simp_all add: find_filter)
  have "dodo w2 = dodo w" using unpriced_fields(1) [OF u2] f1 by simp
  moreover have "getPriceForTierCadence tr cad w = (Inr (dodo_price_id k), w2)"
    using g sc r by (simp add: getPriceForTierCadence_def Let_def)
  ultimately show ?thesis by blast
qed

lemma price_idempotent:
  assumes d: "distinct (map row_id (DodoPriceModel w))"
    and res: "getPriceForTierCadence tr cad w = (Inr i, wz)"
  shows "\<exists>w2. getPriceForTierCadence tr cad wz = (Inr i, w2) \<and> dodo w2 = dodo wz"
    and "length (prices (dodo wz)) \<le> length (prices (dodo w)) + 1"
    and "length (products (dodo wz)) \<le> length (products (dodo w)) + 1"
    and "customers (dodo wz) = customers (dodo w)" "coupons (dodo wz) = coupons (dodo w)"
        "sessions (dodo wz) = sessions (dodo w)"
proof -
  let ?c = "toLowerCase (t_currency tr)" and ?a = "tier_getPrice tr cad"
  from res obtain p w1 where g: "getProductForTier tr w = (Inr p, w1)"
    by (auto simp: getPriceForTierCadence_def split: prod.splits sum.splits)
  note fr = getProductForTier_frame [OF g]
  note fa1 = getProductForTier_Inr(1) [OF g]
  let ?T1 = "DodoPriceModel w1"
  let ?tbl = "prices (dodo w1)"
  let ?V = "row_verified ?tbl ?c ?a cad"
  let ?P = "price_candidate p ?c ?a cad"
  let ?rows = "filter ?P ?T1"
  obtain r w2 where sc: "scanPrices ?c ?a cad ?rows w1 = (r, w2)"
    by (cases "scanPrices ?c ?a cad ?rows w1")
  from scanPrices_char [OF sc] have r: "r = map_option dodo_price_id (find (\<lambda>x. ?P x \<and> ?V x) ?T1)"
    and u2: "unpriced w2 = unpriced w1" by (simp_all add: find_filter)
  note f2 = unpriced_fields [OF u2]
  have d1: "distinct (map row_id ?T1)" using d fr(1) by simp
  have h: "list_all2 (healed ?V) ?T1 (DodoPriceModel w2)"
    by (rule scanPrices_healed [OF d1 _ refl healed_refl sc]) simp
  have fh: "find (\<lambda>x. ?P x \<and> ?V x) (DodoPriceModel w2) = find (\<lambda>x. ?P x \<and> ?V x) ?T1"
    by (rule find_healed [OF h])
  have fa2: "first_active (products (dodo w2)) (product_rows tr w2) = Some p"
    using fa1 f2 by (simp add: product_rows_def)
  have all: "(\<exists>w3. getPriceForTierCadence tr cad wz = (Inr i, w3) \<and> dodo w3 = dodo wz)
      \<and> length (prices (dodo wz)) \<le> length (prices (dodo w)) + 1
      \<and> length (products (dodo wz)) \<le> length (products (dodo w)) + 1
      \<and> customers (dodo wz) = customers (dodo w) \<and> coupons (dodo wz) = coupons (dodo w)
      \<and> sessions (dodo wz) = sessions (dodo w)"
  proof (cases r)
    case (Some i')
    then have eq: "i = i'" "wz = w2"
      using res g sc by (simp_all add: getPriceForTierCadence_def Let_def)
    from Some r obtain k where k: "find (\<lambda>x. ?P x \<and> ?V x) ?T1 = Some k" "dodo_price_id k = i'"
      by auto
    have "find (\<lambda>x. ?P x \<and> row_verified (prices (dodo w2)) ?c ?a cad x) (DodoPriceModel w2) = Some k"
      using fh k f2 by simp
    from getPrice_found [OF fa2 this] show ?thesis
      using eq k fr f2 by simp
  next
    case None
    then obtain price where cp: "createPriceForTierCadence tr cad w2 = (Inr price, wz)"
      and ip: "i = dx_id price"
      using res g sc by (auto simp: getPriceForTierCadence_def Let_def split: prod.splits sum.splits)
    from getProductForTier_found [OF fa2] obtain w3 where
      g3: "getProductForTier tr w2 = (Inr p, w3)" and u3: "unlogged w3 = unlogged w2" by blast
    note f3 = unlogged_fields [OF u3]
    let ?pd = "\<lparr>pd_product = p, pd_interval = Some (cadence_str cad),
                  pd_currency = t_currency tr, pd_amount = tier_getPrice tr cad,
                  pd_nickname = Some (if cad = month then ''Monthly'' else ''Yearly''),
                  pd_type = ''recurring'', pd_active = True\<rparr>"
    from cp g3 obtain w4 where c4: "createPrice ?pd w3 = (Inr price, w4)"
      and wz: "wz = w4\<lparr>DodoPriceModel := DodoPriceModel w4 @
                    [\<lparr>row_id = new_row_id (DodoPriceModel w4), dodo_price_id = dx_id price,
                      dodo_product_id = p, row_active = dx_active price,
                      row_nickname = dx_nickname price, row_currency = dx_currency price,
                      row_amount = dx_unit_amount price, row_type = ''recurring'',
                      row_interval = Some (cadence_str cad)\<rparr>]\<rparr>"
      by (auto simp: createPriceForTierCadence_def split: prod.splits sum.splits)
    from c4 [unfolded createPrice_Inr] obtain x rs where
      rep: "replies (dodo w3) = Ok x # rs" and price: "price = price_object x (price_request ?pd)"
      and w4: "w4 = w3\<lparr>dodo := (dodo w3)\<lparr>replies := rs,
                     prices := (x, Ok (price_request ?pd)) # prices (dodo w3)\<rparr>\<rparr>"
      by blast
    have ix: "i = x" using ip price by simp
    let ?new = "\<lparr>row_id = new_row_id (DodoPriceModel w4), dodo_price_id = dx_id price,
                      dodo_product_id = p, row_active = dx_active price,
                      row_nickname = dx_nickname price, row_currency = dx_currency price,
                      row_amount = dx_unit_amount price, row_type = ''recurring'',
                      row_interval = Some (cadence_str cad)\<rparr>"
    let ?tbl' = "(x, Ok (price_request ?pd)) # ?tbl"
    let ?V' = "row_verified ?tbl' ?c ?a cad"
    have Tf: "DodoPriceModel wz = DodoPriceModel w2 @ [?new]" using f3 by (simp add: wz w4)
    have tblf: "prices (dodo wz) = ?tbl'" using f3 f2 by (simp add: wz w4)
    have newP: "?P ?new"
      by (simp add: price_candidate_def price price_object_def price_request_def)
    have newV: "?V' ?new"
      by (simp add: row_verified_def price price_object_def price_request_def price_verified_def)
    have newid: "dodo_price_id ?new = x" by (simp add: price)
    have none1: "find (\<lambda>x. ?P x \<and> ?V x) (DodoPriceModel w2) = None"
      using fh r None by simp
    have old: "dodo_price_id k = x" if "k \<in> set (DodoPriceModel w2)" "?P k" "?V' k" for k
    proof (rule ccontr)
      assume "dodo_price_id k \<noteq> x"
      then have "?V k" using that(3) by (simp add: row_verified_def)
      with that(1,2) none1 show False by (auto simp: find_None_iff)
    qed
    have "?new \<in> set (DodoPriceModel wz)" unfolding Tf by simp
    with newP newV have "\<exists>x. x \<in> set (DodoPriceModel wz) \<and> (?P x \<and> ?V' x)" by blast
    then have "find (\<lambda>x. ?P x \<and> ?V' x) (DodoPriceModel wz) \<noteq> None"
      by (simp only: find_None_iff not_not)
    then obtain k where k: "find (\<lambda>x. ?P x \<and> ?V' x) (DodoPriceModel wz) = Some k" by auto
    from find_Some_P [OF k] have kP: "?P k" "?V' k" by simp_all
    have "k \<in> set (DodoPriceModel wz)" using k by (auto simp: find_Some_iff)
    then have kid: "dodo_price_id k = x" using old kP newid by (auto simp: Tf)
    have faf: "first_active (products (dodo wz)) (product_rows tr wz) = Some p"
      using fa2 f3 by (simp add: wz w4 product_rows_def)
    have "find (\<lambda>r. ?P r \<and> row_verified (prices (dodo wz)) ?c ?a cad r) (DodoPriceModel wz) = Some k"
      using k tblf by simp
    from getPrice_found [OF faf this] show ?thesis
      using kid ix fr f2 f3 by (simp add: wz w4)
  qed
  then show "\<exists>w2. getPriceForTierCadence tr cad wz = (Inr i, w2) \<and> dodo w2 = dodo wz"
    and "length (prices (dodo wz)) \<le> length (prices (dodo w)) + 1"
    and "length (products (dodo wz)) \<le> length (products (dodo w)) + 1"
    and "customers (dodo wz) = customers (dodo w)" "coupons (dodo wz) = coupons (dodo w)"
        "sessions (dodo wz) = sessions (dodo w)"
    by simp_all
qed


lemma getCustomerForMember_sessions:
  assumes "getCustomerForMember mem w = (Inr c, w1)"
  shows "sessions (dodo w1) = sessions (dodo w)"
proof -
  let ?rows = "map cr_customer_id (filter (\<lambda>r. cr_member_id r = m_id mem) (DodoCustomerModel w))"
  obtain r w0 where sc: "scanCustomers ?rows w = (r, w0)" by (cases "scanCustomers ?rows w")
  have u0: "unlogged w0 = unlogged w" using scanCustomers_unlogged [of ?rows w] sc by simp
  note f0 = unlogged_fields [OF u0]
  show ?thesis
  proof (cases r)
    case (Some c')
    then show ?thesis using assms sc f0 by (simp add: getCustomerForMember_def)
  next
    case None
    then have "createCustomerForMember mem w0 = (Inr c, w1)"
      using assms sc by (simp add: getCustomerForMember_def)
    then show ?thesis using f0 unfolding createCustomerForMember_Inr by auto
  qed
qed

lemma getPriceForTierCadence_sessions:
  assumes "getPriceForTierCadence tr cad w = (Inr i, wz)"
  shows "sessions (dodo wz) = sessions (dodo w)"
proof -
  let ?c = "toLowerCase (t_currency tr)" and ?a = "tier_getPrice tr cad"
  from assms obtain p w1 where g: "getProductForTier tr w = (Inr p, w1)"
    by (auto simp: getPriceForTierCadence_def split: prod.splits sum.splits)
  note fr = getProductForTier_frame [OF g]
  let ?rows = "filter (price_candidate p ?c ?a cad) (DodoPriceModel w1)"
  obtain r w2 where sc: "scanPrices ?c ?a cad ?rows w1 = (r, w2)"
    by (cases "scanPrices ?c ?a cad ?rows w1")
  from scanPrices_char [OF sc] have u2: "unpriced w2 = unpriced w1" by simp
  note f2 = unpriced_fields [OF u2]
  show ?thesis
  proof (cases r)
    case (Some i')
    then show ?thesis using assms g sc fr f2 by (simp add: getPriceForTierCadence_def Let_def)
  next
    case None
    then obtain price where cp: "createPriceForTierCadence tr cad w2 = (Inr price, wz)"
      using assms g sc by (auto simp: getPriceForTierCadence_def Let_def split: prod.splits sum.splits)
    then obtain p' w3 pd w4 where g3: "getProductForTier tr w2 = (Inr p', w3)"
      and c4: "createPrice pd w3 = (Inr price, w4)" and wz: "sessions (dodo wz) = sessions (dodo w4)"
      by (auto simp: createPriceForTierCadence_def split: prod.splits sum.splits)
    note fr3 = getProductForTier_frame [OF g3]
    from c4 have "sessions (dodo w4) = sessions (dodo w3)" unfolding createPrice_Inr by auto
    then show ?thesis using wz fr3 f2 fr by simp
  qed
qed


section \<open>The payments service: what the operations guarantee\<close>

lemmas demo2_defs = live_provider_def demo_offer_def demo_offer_dto_def offer_world_def
  fresh_world_def drifted_world_def mixed_world_def

lemmas api_defs = makeRequest_def provider_get_def dodo_post_def sessionData_def checkout_url_def
  createCheckoutSession_def createCustomer_def deleted_customer_def getCustomer_def
  createProduct_def getProduct_def price_request_def price_object_def createPrice_def getPrice_def
  coupon_request_of_def createCoupon_def truthy_num_def toLowerCase_def lower_char_def

lemmas payments_defs = createCustomerForMember_def getCustomerForMember_def
  createProductForTier_def getProductForTier_def new_row_id_def DodoPriceModel_edit_active_def
  createPriceForTierCadence_def price_verified_def price_candidate_def getPriceForTierCadence_def
  couponData_of_def createCouponForOffer_def offersAPI_getOffer_def checkoutData_def
  getPaymentLink_def scanPrices.simps(2) getCouponForOffer.simps customer_rows_def product_rows_def
  artifacts_def warnings_def unlogged_def

subsection \<open>Price rows that the provider does not confirm\<close>

lemma edit_other_rows:
  "i \<noteq> j \<Longrightarrow>
   filter (\<lambda>r. row_id r = i) (map (\<lambda>r. if row_id r = j then r\<lparr>row_active := b\<rparr> else r) xs) =
   filter (\<lambda>r. row_id r = i) xs"
  by (induction xs) auto

lemma scanPrices_other_rows:
  assumes "scanPrices c a cad rows w = (res, w')" and "i \<notin> row_id ` set rows"
  shows "filter (\<lambda>r. row_id r = i) (DodoPriceModel w') = filter (\<lambda>r. row_id r = i) (DodoPriceModel w)"
  using assms
proof (induction rows arbitrary: w)
  case Nil
  then show ?case by simp
next
  case (Cons row rows)
  have ni: "i \<notin> row_id ` set rows" and ne: "i \<noteq> row_id row" using Cons.prems(2) by auto
  show ?case
  proof (cases "provider_get (prices (dodo w)) (dodo_price_id row)")
    case (Ok p)
    show ?thesis
    proof (cases "row_verified (prices (dodo w)) c a cad row")
      case True
      with Cons.prems Ok show ?thesis by (simp add: scanPrices_step)
    next
      case False
      let ?w1 = "DodoPriceModel_edit_active (px_active p) (row_id row) w"
      have "scanPrices c a cad rows ?w1 = (res, w')"
        using Cons.prems Ok False by (simp add: scanPrices_step)
      from Cons.IH [OF this ni] edit_other_rows [OF ne] show ?thesis
        by (simp add: DodoPriceModel_edit_active_def)
    qed
  next
    case (HttpError st msg)
    from HttpError scanPrices_step_fail [of w row c a cad rows] Cons.prems obtain l where
      "scanPrices c a cad rows (w\<lparr>logging := l\<rparr>) = (res, w')" by auto
    from Cons.IH [OF this ni] show ?thesis by simp
  next
    case (NetworkError msg)
    from NetworkError scanPrices_step_fail [of w row c a cad rows] Cons.prems obtain l where
      "scanPrices c a cad rows (w\<lparr>logging := l\<rparr>) = (res, w')" by auto
    from Cons.IH [OF this ni] show ?thesis by simp
  qed
qed

lemma edit_flag_list:
  "r \<in> set (map (\<lambda>x. if row_id x = i then x\<lparr>row_active := b\<rparr> else x) xs) \<Longrightarrow>
   row_id r = i \<Longrightarrow> row_active r = b"
proof (induction xs)
  case Nil
  then show ?case by simp
next
  case (Cons x xs)
  show ?case
  proof (cases "r = (if row_id x = i then x\<lparr>row_active := b\<rparr> else x)")
    case True
    with Cons.prems(2) show ?thesis by (cases "row_id x = i") simp_all
  next
    case False
    with Cons.prems have "r \<in> set (map (\<lambda>x. if row_id x = i then x\<lparr>row_active := b\<rparr> else x) xs)"
      by simp
    from Cons.IH [OF this Cons.prems(2)] show ?thesis .
  qed
qed

lemma edit_flag:
  "\<forall>r \<in> set (DodoPriceModel (DodoPriceModel_edit_active b i w)). row_id r = i \<longrightarrow> row_active r = b"
proof (intro ballI impI)
  fix r
  assume a: "r \<in> set (DodoPriceModel (DodoPriceModel_edit_active b i w))" and i: "row_id r = i"
  from a have "r \<in> set (map (\<lambda>x. if row_id x = i then x\<lparr>row_active := b\<rparr> else x) (DodoPriceModel w))"
    by (simp add: DodoPriceModel_edit_active_def)
  from edit_flag_list [OF this i] show "row_active r = b" .
qed

lemma scanPrices_flags:
  assumes "distinct (map row_id rows)" and "scanPrices c a cad rows w = (None, w')"
    and "r \<in> set rows" and "provider_get (prices (dodo w)) (dodo_price_id r) = Ok p"
  shows "\<forall>r' \<in> set (DodoPriceModel w'). row_id r' = row_id r \<longrightarrow> row_active r' = px_active p"
  using assms
proof (induction rows arbitrary: w)
  case Nil
  then show ?case by simp
next
  case (Cons row rows)
  have dr: "distinct (map row_id rows)" and ni: "row_id row \<notin> row_id ` set rows"
    using Cons.prems(1) by auto
  show ?case
  proof (cases "provider_get (prices (dodo w)) (dodo_price_id row)")
    case (Ok q)
    have nv: "\<not> row_verified (prices (dodo w)) c a cad row"
      using Cons.prems(2) Ok by (auto simp: scanPrices_step split: if_splits)
    let ?w1 = "DodoPriceModel_edit_active (px_active q) (row_id row) w"
    have sc: "scanPrices c a cad rows ?w1 = (None, w')"
      using Cons.prems(2) Ok nv by (simp add: scanPrices_step)
    have t1: "prices (dodo ?w1) = prices (dodo w)" by (simp add: DodoPriceModel_edit_active_def)
    show ?thesis
    proof (cases "r = row")
      case True
      then have qp: "q = p" using Ok Cons.prems(4) by simp
      have same: "filter (\<lambda>x. row_id x = row_id row) (DodoPriceModel w') =
                  filter (\<lambda>x. row_id x = row_id row) (DodoPriceModel ?w1)"
        by (rule scanPrices_other_rows [OF sc ni])
      show ?thesis
      proof (intro ballI impI)
        fix r'
        assume "r' \<in> set (DodoPriceModel w')" and "row_id r' = row_id r"
        then have "r' \<in> set (filter (\<lambda>x. row_id x = row_id row) (DodoPriceModel w'))"
          using True by simp
        then have "r' \<in> set (DodoPriceModel ?w1)" "row_id r' = row_id row"
          unfolding same by simp_all
        with edit_flag [of "px_active q" "row_id row" w] qp show "row_active r' = px_active p"
          by simp
      qed
    next
      case False
      then have "r \<in> set rows" using Cons.prems(3) by simp
      from Cons.IH [OF dr sc this] Cons.prems(4) t1 show ?thesis by simp
    qed
  next
    case (HttpError st msg)
    then have "r \<noteq> row" using Cons.prems(4) by auto
    then have rr: "r \<in> set rows" using Cons.prems(3) by simp
    from HttpError scanPrices_step_fail [of w row c a cad rows] Cons.prems(2) obtain l where
      "scanPrices c a cad rows (w\<lparr>logging := l\<rparr>) = (None, w')" by auto
    from Cons.IH [OF dr this rr] Cons.prems(4) show ?thesis by simp
  next
    case (NetworkError msg)
    then have "r \<noteq> row" using Cons.prems(4) by auto
    then have rr: "r \<in> set rows" using Cons.prems(3) by simp
    from NetworkError scanPrices_step_fail [of w row c a cad rows] Cons.prems(2) obtain l where
      "scanPrices c a cad rows (w\<lparr>logging := l\<rparr>) = (None, w')" by auto
    from Cons.IH [OF dr this rr] Cons.prems(4) show ?thesis by simp
  qed
qed

lemma getPrice_Inr:
  "fst (getPrice i w) = Inr price \<longleftrightarrow>
     (\<exists>p. provider_get (prices (dodo w)) i = Ok p \<and> price = (price_object i p)\<lparr>dx_nickname := None\<rparr>)"
  by (auto simp: getPrice_result split: reply.splits)

text \<open>
  C1, as the code has it. When the provider's record of a candidate row does not verify
  (it is inactive, or its currency, amount or interval differs), the scan sets the row's
  active flag to the provider price's active flag and goes on with the next candidate.
  The flag becomes false when the provider's price is inactive; it stays true when the
  price is active and only its values differ. After a scan in which no candidate is
  verified, every candidate the provider answered for carries the provider's flag (the
  candidates having different row ids).
\<close>

theorem price_row_flag_follows_provider:
  "(fst (getPrice (dodo_price_id row) w) = Inr price \<and> \<not> price_verified currency amount cad price \<longrightarrow>
      scanPrices currency amount cad (row # rows) w =
        scanPrices currency amount cad rows (DodoPriceModel_edit_active (dx_active price) (row_id row) w)
    \<and> (\<forall>r \<in> set (DodoPriceModel (DodoPriceModel_edit_active (dx_active price) (row_id row) w)).
          row_id r = row_id row \<longrightarrow> row_active r = dx_active price))
 \<and> (distinct (map row_id rows) \<and> fst (scanPrices currency amount cad rows w) = None
      \<and> candidate \<in> set rows \<and> fst (getPrice (dodo_price_id candidate) w) = Inr found \<longrightarrow>
      (\<forall>r \<in> set (DodoPriceModel (snd (scanPrices currency amount cad rows w))).
          row_id r = row_id candidate \<longrightarrow> row_active r = dx_active found))"
proof (intro conjI impI)
  assume a: "fst (getPrice (dodo_price_id row) w) = Inr price \<and> \<not> price_verified currency amount cad price"
  then obtain p where p: "provider_get (prices (dodo w)) (dodo_price_id row) = Ok p"
    and price: "price = (price_object (dodo_price_id row) p)\<lparr>dx_nickname := None\<rparr>"
    unfolding getPrice_Inr by blast
  have nv: "\<not> row_verified (prices (dodo w)) currency amount cad row"
    using a p price by (simp add: row_verified_def)
  have act: "dx_active price = px_active p" by (simp add: price price_object_def)
  show "scanPrices currency amount cad (row # rows) w =
        scanPrices currency amount cad rows (DodoPriceModel_edit_active (dx_active price) (row_id row) w)"
    using p nv act by (simp add: scanPrices_step)
  show "\<forall>r \<in> set (DodoPriceModel (DodoPriceModel_edit_active (dx_active price) (row_id row) w)).
          row_id r = row_id row \<longrightarrow> row_active r = dx_active price"
    by (rule edit_flag)
next
  assume a: "distinct (map row_id rows) \<and> fst (scanPrices currency amount cad rows w) = None
      \<and> candidate \<in> set rows \<and> fst (getPrice (dodo_price_id candidate) w) = Inr found"
  then obtain p where p: "provider_get (prices (dodo w)) (dodo_price_id candidate) = Ok p"
    and found: "found = (price_object (dodo_price_id candidate) p)\<lparr>dx_nickname := None\<rparr>"
    unfolding getPrice_Inr by blast
  have act: "dx_active found = px_active p" by (simp add: found price_object_def)
  obtain w' where sc: "scanPrices currency amount cad rows w = (None, w')"
    using a by (cases "scanPrices currency amount cad rows w") simp
  from scanPrices_flags [OF _ sc _ p] a
  show "\<forall>r \<in> set (DodoPriceModel (snd (scanPrices currency amount cad rows w))).
          row_id r = row_id candidate \<longrightarrow> row_active r = dx_active found"
    by (simp add: sc act)
qed

text \<open>
  C1 as stated fails when the provider's price is active and its amount has moved: the
  cached row is a candidate, the provider's record does not verify, and after the
  resolution the row is still active (beside the row of the new price).
\<close>

theorem diverged_active_price_row_stays_active:
  "map row_active (filter (price_candidate ''prod_1'' ''usd'' 500 month) (DodoPriceModel drifted_world)) = [True]
   \<and> fst (getPrice ''price_1'' drifted_world) =
       Inr \<lparr>dx_id = ''price_1'', dx_currency = ''usd'', dx_unit_amount = 700, dx_active = True,
            dx_nickname = None, dx_recurring = Some ''month''\<rparr>
   \<and> fst (getPriceForTierCadence demo_tier month drifted_world) = Inr ''id_1''
   \<and> map row_id (DodoPriceModel (snd (getPriceForTierCadence demo_tier month drifted_world))) = [1, 2]
   \<and> map row_active (DodoPriceModel (snd (getPriceForTierCadence demo_tier month drifted_world))) = [True, True]"
  by (simp add: payments_defs api_defs demo_defs demo2_defs log_defs Let_def)

text \<open>C1 at the drifted publication: the scan over the one candidate.\<close>

theorem price_row_flag_follows_provider_witness:
  "fst (getPrice ''price_1'' drifted_world) =
       Inr \<lparr>dx_id = ''price_1'', dx_currency = ''usd'', dx_unit_amount = 700, dx_active = True,
            dx_nickname = None, dx_recurring = Some ''month''\<rparr>
   \<and> \<not> price_verified ''usd'' 500 month
         \<lparr>dx_id = ''price_1'', dx_currency = ''usd'', dx_unit_amount = 700, dx_active = True,
          dx_nickname = None, dx_recurring = Some ''month''\<rparr>
   \<and> scanPrices ''usd'' 500 month (DodoPriceModel drifted_world) drifted_world =
       scanPrices ''usd'' 500 month [] (DodoPriceModel_edit_active True 1 drifted_world)
   \<and> distinct (map row_id (DodoPriceModel drifted_world))
   \<and> fst (scanPrices ''usd'' 500 month (DodoPriceModel drifted_world) drifted_world) = None
   \<and> map row_active (DodoPriceModel (snd (scanPrices ''usd'' 500 month (DodoPriceModel drifted_world) drifted_world))) = [True]"
proof -
  let ?row = "\<lparr>row_id = 1, dodo_price_id = ''price_1'', dodo_product_id = ''prod_1'', row_active = True,
         row_nickname = Some ''Monthly'', row_currency = ''usd'', row_amount = 500,
         row_type = ''recurring'', row_interval = Some ''month''\<rparr>"
  let ?price = "\<lparr>dx_id = ''price_1'', dx_currency = ''usd'', dx_unit_amount = 700, dx_active = True,
            dx_nickname = None, dx_recurring = Some ''month''\<rparr>"
  have T: "DodoPriceModel drifted_world = [?row]" by (simp add: demo_defs demo2_defs)
  have g: "fst (getPrice (dodo_price_id ?row) drifted_world) = Inr ?price"
    by (simp add: api_defs demo_defs demo2_defs)
  have nv: "\<not> price_verified ''usd'' 500 month ?price" by (simp add: price_verified_def)
  have none: "fst (scanPrices ''usd'' 500 month [?row] drifted_world) = None"
    by (simp add: payments_defs api_defs demo_defs demo2_defs log_defs)
  from price_row_flag_follows_provider
         [of ?row drifted_world ?price "''usd''" 500 month "[]" ?row ?price]
       price_row_flag_follows_provider
         [of ?row drifted_world ?price "''usd''" 500 month "[?row]" ?row ?price]
  show ?thesis using g nv none by (simp add: T DodoPriceModel_edit_active_def)
qed

subsection \<open>Checkout\<close>

text \<open>
  C4. When \<open>getPaymentLink\<close> returns a URL for an offer that is not a trial and for which
  a coupon id is resolved, the session request sent to the provider carries the coupon id
  and no trial-days field, whatever the tier's trial days are.
\<close>

theorem coupon_excludes_trial:
  assumes run: "fst (getPaymentLink tr cad (Some ofr) member_opt metadata successUrl cancelUrl email w) = Inr url"
    and nt: "of_type ofr \<noteq> ''trial''"
    and cp: "fst (getCouponForOffer (of_id ofr) w) = Inr (Some coupon_id)"
  shows "\<exists>sid request.
           sessions (dodo (snd (getPaymentLink tr cad (Some ofr) member_opt metadata successUrl cancelUrl email w))) =
             (sid, request) # sessions (dodo w)
         \<and> sq_coupon_id request = Some coupon_id \<and> sq_trial_period_days request = None
         \<and> url = checkout_url sid"
proof -
  obtain w1 where c1: "getCouponForOffer (of_id ofr) w = (Inr (Some coupon_id), w1)"
    using cp by (cases "getCouponForOffer (of_id ofr) w") simp
  note cs = getCouponForOffer_Some [OF c1]
  have tid: "t_id tr = of_tier_id ofr"
    using run by (auto simp: getPaymentLink_def split: if_splits)
  obtain rc w2 where cust: "(case member_opt of
                  None \<Rightarrow> (Inr None, w1)
                | Some mem \<Rightarrow>
                   (case getCustomerForMember mem w1 of
                      (Inl e, w2) \<Rightarrow> (Inl e, w2)
                    | (Inr c, w2) \<Rightarrow> (Inr (Some c), w2))) = (rc, w2)"
    by (cases "(case member_opt of
                  None \<Rightarrow> (Inr None, w1)
                | Some mem \<Rightarrow>
                   (case getCustomerForMember mem w1 of
                      (Inl e, w2) \<Rightarrow> (Inl e, w2)
                    | (Inr c, w2) \<Rightarrow> (Inr (Some c), w2)))")
  from run tid nt c1 cust obtain customer where rc: "rc = Inr customer"
    by (cases rc) (auto simp: getPaymentLink_def)
  have s2: "sessions (dodo w2) = sessions (dodo w1)"
    using cust rc
    by (auto split: option.splits prod.splits sum.splits dest: getCustomerForMember_sessions)
  obtain rp w3 where pr: "getPriceForTierCadence tr cad w2 = (rp, w3)"
    by (cases "getPriceForTierCadence tr cad w2")
  from run tid nt c1 cust rc pr obtain price where rp: "rp = Inr price"
    by (cases rp) (auto simp: getPaymentLink_def)
  have s3: "sessions (dodo w3) = sessions (dodo w2)"
    using getPriceForTierCadence_sessions pr rp by simp
  let ?data = "checkoutData tr (Some coupon_id) None customer metadata successUrl cancelUrl email"
  obtain rs w4 where se: "createCheckoutSession price customer ?data w3 = (rs, w4)"
    by (cases "createCheckoutSession price customer ?data w3")
  have whole: "getPaymentLink tr cad (Some ofr) member_opt metadata successUrl cancelUrl email w =
      (case rs of Inl e \<Rightarrow> (Inl e, w4) | Inr session \<Rightarrow> (Inr (ds_url session), w4))"
    using tid nt c1 cust rc pr rp se by (simp add: getPaymentLink_def split: sum.splits)
  with run obtain session where rs: "rs = Inr session" and url: "url = ds_url session"
    by (cases rs) auto
  from se rs obtain sid where sid: "session = \<lparr>ds_id = sid, ds_url = checkout_url sid\<rparr>"
    and post: "dodo_post (\<lambda>i p. p\<lparr>sessions := (i, sessionData price customer ?data) # sessions p\<rparr>) w3 =
                 (Inr sid, w4)"
    by (auto simp: createCheckoutSession_def split: prod.splits sum.splits)
  from post have s4: "sessions (dodo w4) = (sid, sessionData price customer ?data) # sessions (dodo w3)"
    unfolding dodo_post_Inr by auto
  have data: "sq_coupon_id (sessionData price customer ?data) = Some coupon_id"
             "sq_trial_period_days (sessionData price customer ?data) = None"
    using cs by (simp_all add: sessionData_def checkoutData_def Let_def truthy_num_def)
  show ?thesis
    using s4 s3 s2 cs data url sid by (simp add: whole rs)
qed

text \<open>
  C4 at the small publication: the tier has seven trial days and the offer a stored
  coupon; the session is the fourth artifact created.
\<close>

theorem coupon_excludes_trial_witness:
  "fst (getPaymentLink demo_tier month (Some demo_offer) (Some demo_member) None
          ''https://site/ok'' ''https://site/no'' None (offer_world (Some ''coup_1''))) =
     Inr ''https://checkout.dodopayments.com/id_4''
   \<and> t_trialDays demo_tier = Some 7
   \<and> of_type demo_offer \<noteq> ''trial''
   \<and> fst (getCouponForOffer (of_id demo_offer) (offer_world (Some ''coup_1''))) = Inr (Some ''coup_1'')
   \<and> (\<exists>sid request.
         sessions (dodo (snd (getPaymentLink demo_tier month (Some demo_offer) (Some demo_member) None
            ''https://site/ok'' ''https://site/no'' None (offer_world (Some ''coup_1''))))) =
           (sid, request) # sessions (dodo (offer_world (Some ''coup_1'')))
       \<and> sq_coupon_id request = Some ''coup_1'' \<and> sq_trial_period_days request = None
       \<and> ''https://checkout.dodopayments.com/id_4'' = checkout_url sid)"
proof -
  have run: "fst (getPaymentLink demo_tier month (Some demo_offer) (Some demo_member) None
          ''https://site/ok'' ''https://site/no'' None (offer_world (Some ''coup_1''))) =
     Inr ''https://checkout.dodopayments.com/id_4''"
    by (simp add: payments_defs api_defs demo_defs demo2_defs log_defs Let_def)
  have nt: "of_type demo_offer \<noteq> ''trial''" by (simp add: demo_offer_def)
  have cp: "fst (getCouponForOffer (of_id demo_offer) (offer_world (Some ''coup_1''))) = Inr (Some ''coup_1'')"
    by (simp add: payments_defs demo_defs demo2_defs)
  have td: "t_trialDays demo_tier = Some 7" by (simp add: demo_tier_def)
  from coupon_excludes_trial [OF run nt cp] show ?thesis using run nt cp td by simp
qed

text \<open>
  C7. An offer whose tier is not the requested tier makes \<open>getPaymentLink\<close> fail with a
  BadRequestError, the world untouched: no customer, coupon or price was resolved and no
  session was requested.
\<close>

theorem offer_for_other_tier_rejected:
  "t_id tr \<noteq> of_tier_id ofr \<Longrightarrow>
   getPaymentLink tr cad (Some ofr) member_opt metadata successUrl cancelUrl email w =
     (Inl (BadRequestError ''This Offer is not valid for the Tier'' 400), w)"
  by (simp add: getPaymentLink_def)

text \<open>C7 at the small publication: the offer is for another tier.\<close>

theorem offer_for_other_tier_rejected_witness:
  "t_id demo_tier \<noteq> of_tier_id (demo_offer\<lparr>of_tier_id := ''silver''\<rparr>)
   \<and> getPaymentLink demo_tier month (Some (demo_offer\<lparr>of_tier_id := ''silver''\<rparr>)) (Some demo_member) None
        ''https://site/ok'' ''https://site/no'' None (offer_world None) =
       (Inl (BadRequestError ''This Offer is not valid for the Tier'' 400), offer_world None)"
proof -
  have ne: "t_id demo_tier \<noteq> of_tier_id (demo_offer\<lparr>of_tier_id := ''silver''\<rparr>)"
    by (simp add: demo_tier_def)
  from offer_for_other_tier_rejected [OF ne] show ?thesis using ne by simp
qed

subsection \<open>Coupons\<close>

text \<open>
  C9. For the offer's row, \<open>getCouponForOffer\<close> returns none when the discount kind is
  trial, and otherwise returns a stored (non-empty) coupon id as it is; in both cases the
  world is unchanged, so nothing is created at the provider.
\<close>

theorem coupon_for_trial_or_stored:
  assumes "find (\<lambda>r. or_id r = offerId) (OfferModel w) = Some row"
  shows "(or_discount_type row = ''trial'' \<longrightarrow> getCouponForOffer offerId w = (Inr None, w))
       \<and> (or_discount_type row \<noteq> ''trial'' \<and> or_dodo_coupon_id row = Some coupon_id \<and> coupon_id \<noteq> []
            \<longrightarrow> getCouponForOffer offerId w = (Inr (Some coupon_id), w))"
  using assms by (subst (1 2) getCouponForOffer.simps) simp

text \<open>C9 at the small publication: a trial offer that even has a coupon id stored, and a percent offer with one.\<close>

theorem coupon_for_trial_or_stored_witness:
  "find (\<lambda>r. or_id r = ''off_1'')
      (OfferModel (demo_world\<lparr>OfferModel :=
         [\<lparr>or_id = ''off_1'', or_dodo_coupon_id = Some ''coup_0'', or_discount_type = ''trial''\<rparr>]\<rparr>)) =
     Some \<lparr>or_id = ''off_1'', or_dodo_coupon_id = Some ''coup_0'', or_discount_type = ''trial''\<rparr>
   \<and> getCouponForOffer ''off_1'' (demo_world\<lparr>OfferModel :=
         [\<lparr>or_id = ''off_1'', or_dodo_coupon_id = Some ''coup_0'', or_discount_type = ''trial''\<rparr>]\<rparr>) =
       (Inr None, demo_world\<lparr>OfferModel :=
         [\<lparr>or_id = ''off_1'', or_dodo_coupon_id = Some ''coup_0'', or_discount_type = ''trial''\<rparr>]\<rparr>)
   \<and> find (\<lambda>r. or_id r = ''off_1'') (OfferModel (offer_world (Some ''coup_1''))) =
       Some \<lparr>or_id = ''off_1'', or_dodo_coupon_id = Some ''coup_1'', or_discount_type = ''percent''\<rparr>
   \<and> getCouponForOffer ''off_1'' (offer_world (Some ''coup_1'')) =
       (Inr (Some ''coup_1''), offer_world (Some ''coup_1''))"
proof -
  let ?t = "\<lparr>or_id = ''off_1'', or_dodo_coupon_id = Some ''coup_0'', or_discount_type = ''trial''\<rparr>"
  let ?p = "\<lparr>or_id = ''off_1'', or_dodo_coupon_id = Some ''coup_1'', or_discount_type = ''percent''\<rparr>"
  have f1: "find (\<lambda>r. or_id r = ''off_1'') (OfferModel (demo_world\<lparr>OfferModel := [?t]\<rparr>)) = Some ?t"
    by simp
  have f2: "find (\<lambda>r. or_id r = ''off_1'') (OfferModel (offer_world (Some ''coup_1''))) = Some ?p"
    by (simp add: offer_world_def)
  from coupon_for_trial_or_stored [OF f1, of "''coup_0''"]
       coupon_for_trial_or_stored [OF f2, of "''coup_1''"]
  show ?thesis using f1 f2 by simp
qed

subsection \<open>A customer the provider no longer has\<close>

lemma warnings_log [simp]:
  "warnings (logging_error s w) = warnings w"
  "warnings (logging_info s w) = warnings w"
  "warnings (logging_warn s w) = warnings w @ [Warn s]"
  by (simp_all add: warnings_def log_defs)

lemma getCustomer_404:
  assumes "provider_get (customers (dodo w)) cid = HttpError 404 msg"
  shows "getCustomer cid w =
     (Inr deleted_customer,
      logging_error (''Dodo API request failed: '' @ ''Dodo API Error: '' @
         (if msg = [] then ''Unknown error'' else msg)) w)"
  using assms by (simp add: getCustomer_def makeRequest_def Let_def)

lemma scanCustomers_all_404:
  assumes "\<forall>i \<in> set rows. \<exists>msg. provider_get (customers (dodo w)) i = HttpError 404 msg"
  shows "\<exists>w0. scanCustomers rows w = (None, w0) \<and> unlogged w0 = unlogged w \<and> warnings w0 = warnings w"
  using assms
proof (induction rows arbitrary: w)
  case Nil
  show ?case by simp
next
  case (Cons i rows)
  from Cons.prems obtain msg where m: "provider_get (customers (dodo w)) i = HttpError 404 msg"
    by auto
  let ?w1 = "logging_error (''Dodo API request failed: '' @ ''Dodo API Error: '' @
         (if msg = [] then ''Unknown error'' else msg)) w"
  have d: "dodo ?w1 = dodo w" by (simp add: log_defs)
  have "\<forall>i \<in> set rows. \<exists>msg. provider_get (customers (dodo ?w1)) i = HttpError 404 msg"
    using Cons.prems unfolding d by simp
  from Cons.IH [OF this] obtain w0 where
    "scanCustomers rows ?w1 = (None, w0)" "unlogged w0 = unlogged ?w1" "warnings w0 = warnings ?w1"
    by blast
  then show ?case
    by (simp add: getCustomer_404 [OF m] deleted_customer_def)
qed

lemma getCustomerForMember_created:
  assumes none: "first_live (customers (dodo w)) (customer_rows mem w) = None"
    and rep: "replies (dodo w) = Ok new_id # rs"
  shows "\<exists>l. getCustomerForMember mem w =
     (Inr \<lparr>dc_id = Some new_id, dc_email = Some (m_email mem), dc_name = m_name mem, dc_deleted = False\<rparr>,
      w\<lparr>logging := l,
        dodo := (dodo w)\<lparr>replies := rs,
                 customers := (new_id, Ok \<lparr>pc_email = Some (m_email mem), pc_name = m_name mem,
                                           pc_deleted = False\<rparr>) # customers (dodo w)\<rparr>,
        DodoCustomerModel := DodoCustomerModel w @
                 [\<lparr>cr_member_id = m_id mem, cr_customer_id = new_id,
                   cr_email = Some (m_email mem), cr_name = m_name mem\<rparr>]\<rparr>)"
proof -
  obtain r w0 where sc: "scanCustomers (customer_rows mem w) w = (r, w0)"
    by (cases "scanCustomers (customer_rows mem w) w")
  have r: "r = None" using scanCustomers_result [of "customer_rows mem w" w] sc none by simp
  have u0: "unlogged w0 = unlogged w"
    using scanCustomers_unlogged [of "customer_rows mem w" w] sc by simp
  note f0 = unlogged_fields [OF u0]
  have w0: "w0 = w\<lparr>logging := logging w0\<rparr>"
  proof -
    from u0 have "(unlogged w0)\<lparr>logging := logging w0\<rparr> = (unlogged w)\<lparr>logging := logging w0\<rparr>"
      by simp
    then show ?thesis by (simp add: unlogged_def)
  qed
  let ?c = "\<lparr>dc_id = Some new_id, dc_email = Some (m_email mem), dc_name = m_name mem, dc_deleted = False\<rparr>"
  let ?w1 = "w0\<lparr>dodo := (dodo w0)\<lparr>replies := rs,
                     customers := (new_id, Ok \<lparr>pc_email = Some (m_email mem), pc_name = m_name mem,
                                            pc_deleted = False\<rparr>) # customers (dodo w0)\<rparr>,
                  DodoCustomerModel := DodoCustomerModel w0 @
                     [\<lparr>cr_member_id = m_id mem, cr_customer_id = new_id,
                       cr_email = Some (m_email mem), cr_name = m_name mem\<rparr>]\<rparr>"
  have rep0: "replies (dodo w0) = Ok new_id # rs" using rep f0 by simp
  have cr: "createCustomerForMember mem w0 = (Inr ?c, ?w1)"
    unfolding createCustomerForMember_Inr using rep0 by blast
  have run: "getCustomerForMember mem w = (Inr ?c, ?w1)"
    using sc r cr by (simp add: getCustomerForMember_def customer_rows_def)
  have "?w1 = w\<lparr>logging := logging w0,
        dodo := (dodo w)\<lparr>replies := rs,
                 customers := (new_id, Ok \<lparr>pc_email = Some (m_email mem), pc_name = m_name mem,
                                           pc_deleted = False\<rparr>) # customers (dodo w)\<rparr>,
        DodoCustomerModel := DodoCustomerModel w @
                 [\<lparr>cr_member_id = m_id mem, cr_customer_id = new_id,
                   cr_email = Some (m_email mem), cr_name = m_name mem\<rparr>]\<rparr>"
    by (subst w0) (simp add: f0)
  with run show ?thesis by (intro exI [of _ "logging w0"]) simp
qed

lemma first_live_all_404:
  "\<forall>i \<in> set rows. \<exists>m. provider_get tbl i = HttpError 404 m \<Longrightarrow> first_live tbl rows = None"
  by (induction rows) auto

text \<open>
  C10. For a customer id the provider answers 404, \<open>getCustomer\<close> returns the object
  with \<open>deleted\<close> set instead of throwing, and the scan of \<open>getCustomerForMember\<close> goes
  on to the next candidate without logging the warning it logs for a failed lookup; any
  other error status is thrown and logged as a warning. The scan returns the first cached
  customer the provider holds and does not report deleted. When there is none (each
  candidate is unknown to the provider, deleted, or its lookup failed) and the provider
  accepts the creation, \<open>getCustomerForMember\<close> returns a new customer made of the
  member's email and name, the provider holds it under the id it assigned, and a row for
  it is added to \<open>DodoCustomerModel\<close>; nothing else but the log changes.
\<close>

theorem vanished_customer_skipped:
  "(provider_get (customers (dodo w)) cid = HttpError 404 msg \<longrightarrow>
      fst (getCustomer cid w) = Inr deleted_customer
    \<and> scanCustomers (cid # rows) w = scanCustomers rows (snd (getCustomer cid w))
    \<and> warnings (snd (getCustomer cid w)) = warnings w
    \<and> unlogged (snd (getCustomer cid w)) = unlogged w
    \<and> first_live (customers (dodo w)) (cid # rows) = first_live (customers (dodo w)) rows)
 \<and> fst (scanCustomers rows w) = first_live (customers (dodo w)) rows
 \<and> ((\<forall>i \<in> set (customer_rows mem w). \<exists>m. provider_get (customers (dodo w)) i = HttpError 404 m) \<longrightarrow>
      first_live (customers (dodo w)) (customer_rows mem w) = None
    \<and> (\<exists>w0. getCustomerForMember mem w = createCustomerForMember mem w0
            \<and> unlogged w0 = unlogged w \<and> warnings w0 = warnings w))
 \<and> (first_live (customers (dodo w)) (customer_rows mem w) = None \<and> replies (dodo w) = Ok new_id # rs \<longrightarrow>
      fst (getCustomerForMember mem w) =
        Inr \<lparr>dc_id = Some new_id, dc_email = Some (m_email mem), dc_name = m_name mem, dc_deleted = False\<rparr>
    \<and> customers (dodo (snd (getCustomerForMember mem w))) =
        (new_id, Ok \<lparr>pc_email = Some (m_email mem), pc_name = m_name mem, pc_deleted = False\<rparr>)
          # customers (dodo w)
    \<and> replies (dodo (snd (getCustomerForMember mem w))) = rs
    \<and> DodoCustomerModel (snd (getCustomerForMember mem w)) =
        DodoCustomerModel w @
          [\<lparr>cr_member_id = m_id mem, cr_customer_id = new_id,
            cr_email = Some (m_email mem), cr_name = m_name mem\<rparr>]
    \<and> unlogged (snd (getCustomerForMember mem w)) =
        unlogged (w\<lparr>dodo := (dodo w)\<lparr>replies := rs,
                 customers := (new_id, Ok \<lparr>pc_email = Some (m_email mem), pc_name = m_name mem,
                                           pc_deleted = False\<rparr>) # customers (dodo w)\<rparr>,
            DodoCustomerModel := DodoCustomerModel w @
                 [\<lparr>cr_member_id = m_id mem, cr_customer_id = new_id,
                   cr_email = Some (m_email mem), cr_name = m_name mem\<rparr>]\<rparr>))
 \<and> (st \<noteq> 404 \<and> provider_get (customers (dodo w)) cid = HttpError st msg \<longrightarrow>
      isl (fst (getCustomer cid w))
    \<and> warnings (snd (scanCustomers [cid] w)) \<noteq> warnings w)"
proof (intro conjI impI)
  assume a: "provider_get (customers (dodo w)) cid = HttpError 404 msg"
  note g = getCustomer_404 [OF a]
  show "fst (getCustomer cid w) = Inr deleted_customer" by (simp add: g)
  show "scanCustomers (cid # rows) w = scanCustomers rows (snd (getCustomer cid w))"
    by (simp add: g deleted_customer_def)
  show "warnings (snd (getCustomer cid w)) = warnings w" by (simp add: g)
  show "unlogged (snd (getCustomer cid w)) = unlogged w" by (simp add: g)
  show "first_live (customers (dodo w)) (cid # rows) = first_live (customers (dodo w)) rows"
    using a by simp
next
  show "fst (scanCustomers rows w) = first_live (customers (dodo w)) rows"
    by (rule scanCustomers_result)
next
  assume a: "\<forall>i \<in> set (customer_rows mem w). \<exists>m. provider_get (customers (dodo w)) i = HttpError 404 m"
  show "first_live (customers (dodo w)) (customer_rows mem w) = None"
    by (rule first_live_all_404 [OF a])
  from scanCustomers_all_404 [OF a] obtain w0 where
    "scanCustomers (customer_rows mem w) w = (None, w0)" "unlogged w0 = unlogged w"
    "warnings w0 = warnings w" by blast
  then show "\<exists>w0. getCustomerForMember mem w = createCustomerForMember mem w0
            \<and> unlogged w0 = unlogged w \<and> warnings w0 = warnings w"
    by (auto simp: getCustomerForMember_def customer_rows_def)
next
  assume a: "first_live (customers (dodo w)) (customer_rows mem w) = None \<and> replies (dodo w) = Ok new_id # rs"
  then have none: "first_live (customers (dodo w)) (customer_rows mem w) = None"
    and rep: "replies (dodo w) = Ok new_id # rs" by simp_all
  from getCustomerForMember_created [OF none rep] obtain l where
    run: "getCustomerForMember mem w =
     (Inr \<lparr>dc_id = Some new_id, dc_email = Some (m_email mem), dc_name = m_name mem, dc_deleted = False\<rparr>,
      w\<lparr>logging := l,
        dodo := (dodo w)\<lparr>replies := rs,
                 customers := (new_id, Ok \<lparr>pc_email = Some (m_email mem), pc_name = m_name mem,
                                           pc_deleted = False\<rparr>) # customers (dodo w)\<rparr>,
        DodoCustomerModel := DodoCustomerModel w @
                 [\<lparr>cr_member_id = m_id mem, cr_customer_id = new_id,
                   cr_email = Some (m_email mem), cr_name = m_name mem\<rparr>]\<rparr>)"
    by blast
  show "fst (getCustomerForMember mem w) =
        Inr \<lparr>dc_id = Some new_id, dc_email = Some (m_email mem), dc_name = m_name mem, dc_deleted = False\<rparr>"
    by (simp add: run)
  show "customers (dodo (snd (getCustomerForMember mem w))) =
        (new_id, Ok \<lparr>pc_email = Some (m_email mem), pc_name = m_name mem, pc_deleted = False\<rparr>)
          # customers (dodo w)"
    by (simp add: run)
  show "replies (dodo (snd (getCustomerForMember mem w))) = rs" by (simp add: run)
  show "DodoCustomerModel (snd (getCustomerForMember mem w)) =
        DodoCustomerModel w @
          [\<lparr>cr_member_id = m_id mem, cr_customer_id = new_id,
            cr_email = Some (m_email mem), cr_name = m_name mem\<rparr>]"
    by (simp add: run)
  show "unlogged (snd (getCustomerForMember mem w)) =
        unlogged (w\<lparr>dodo := (dodo w)\<lparr>replies := rs,
                 customers := (new_id, Ok \<lparr>pc_email = Some (m_email mem), pc_name = m_name mem,
                                           pc_deleted = False\<rparr>) # customers (dodo w)\<rparr>,
            DodoCustomerModel := DodoCustomerModel w @
                 [\<lparr>cr_member_id = m_id mem, cr_customer_id = new_id,
                   cr_email = Some (m_email mem), cr_name = m_name mem\<rparr>]\<rparr>)"
    by (simp add: run unlogged_def)
next
  assume a: "st \<noteq> 404 \<and> provider_get (customers (dodo w)) cid = HttpError st msg"
  then show "isl (fst (getCustomer cid w))"
    by (simp add: getCustomer_result)
  from a show "warnings (snd (scanCustomers [cid] w)) \<noteq> warnings w"
    by (simp add: getCustomer_def makeRequest_def Let_def)
qed

text \<open>
  C10 at the small publication, whose provider has lost the cached customer; with a
  provider that answers 500 for it; and for the member whose three cached customers are
  unknown, deleted and failing.
\<close>

theorem vanished_customer_skipped_witness:
  "provider_get (customers (dodo demo_world)) ''cus_1'' = HttpError 404 ''Not found''
   \<and> fst (getCustomer ''cus_1'' demo_world) = Inr deleted_customer
   \<and> warnings (snd (getCustomer ''cus_1'' demo_world)) = warnings demo_world
   \<and> customer_rows demo_member demo_world = [''cus_1'']
   \<and> first_live (customers (dodo demo_world)) (customer_rows demo_member demo_world) = None
   \<and> replies (dodo demo_world) = Ok ''id_1'' # [Ok ''id_2'', Ok ''id_3'', Ok ''id_4'']
   \<and> (\<exists>w0. getCustomerForMember demo_member demo_world = createCustomerForMember demo_member w0
          \<and> unlogged w0 = unlogged demo_world \<and> warnings w0 = warnings demo_world)
   \<and> fst (getCustomerForMember demo_member demo_world) =
       Inr \<lparr>dc_id = Some ''id_1'', dc_email = Some ''ann@example.com'', dc_name = Some ''Ann'',
            dc_deleted = False\<rparr>
   \<and> customers (dodo (snd (getCustomerForMember demo_member demo_world))) =
       [(''id_1'', Ok \<lparr>pc_email = Some ''ann@example.com'', pc_name = Some ''Ann'', pc_deleted = False\<rparr>)]
   \<and> replies (dodo (snd (getCustomerForMember demo_member demo_world))) =
       [Ok ''id_2'', Ok ''id_3'', Ok ''id_4'']
   \<and> DodoCustomerModel (snd (getCustomerForMember demo_member demo_world)) =
       [\<lparr>cr_member_id = ''m1'', cr_customer_id = ''cus_1'', cr_email = None, cr_name = None\<rparr>,
        \<lparr>cr_member_id = ''m1'', cr_customer_id = ''id_1'', cr_email = Some ''ann@example.com'',
          cr_name = Some ''Ann''\<rparr>]
   \<and> provider_get (customers (dodo (demo_world\<lparr>dodo := demo_provider\<lparr>customers :=
          [(''cus_1'', HttpError 500 ''down'')]\<rparr>\<rparr>))) ''cus_1'' = HttpError 500 ''down''
   \<and> isl (fst (getCustomer ''cus_1'' (demo_world\<lparr>dodo := demo_provider\<lparr>customers :=
          [(''cus_1'', HttpError 500 ''down'')]\<rparr>\<rparr>)))
   \<and> customer_rows demo_member mixed_world = [''cus_1'', ''cus_2'', ''cus_3'']
   \<and> first_live (customers (dodo mixed_world)) (customer_rows demo_member mixed_world) = None
   \<and> replies (dodo mixed_world) = Ok ''id_1'' # [Ok ''id_2'', Ok ''id_3'', Ok ''id_4'']
   \<and> fst (getCustomerForMember demo_member mixed_world) =
       Inr \<lparr>dc_id = Some ''id_1'', dc_email = Some ''ann@example.com'', dc_name = Some ''Ann'',
            dc_deleted = False\<rparr>
   \<and> length (customers (dodo (snd (getCustomerForMember demo_member mixed_world)))) = 3
   \<and> map cr_customer_id (DodoCustomerModel (snd (getCustomerForMember demo_member mixed_world))) =
       [''cus_1'', ''cus_2'', ''cus_3'', ''id_1'']"
proof -
  let ?w5 = "demo_world\<lparr>dodo := demo_provider\<lparr>customers := [(''cus_1'', HttpError 500 ''down'')]\<rparr>\<rparr>"
  have a: "provider_get (customers (dodo demo_world)) ''cus_1'' = HttpError 404 ''Not found''"
    by (simp add: provider_get_def demo_defs)
  have rows: "customer_rows demo_member demo_world = [''cus_1'']"
    by (simp add: customer_rows_def demo_defs)
  have b: "\<forall>i \<in> set (customer_rows demo_member demo_world).
             \<exists>m. provider_get (customers (dodo demo_world)) i = HttpError 404 m"
    using a by (simp add: rows)
  have c: "(500::nat) \<noteq> 404 \<and> provider_get (customers (dodo ?w5)) ''cus_1'' = HttpError 500 ''down''"
    by simp
  have none: "first_live (customers (dodo demo_world)) (customer_rows demo_member demo_world) = None"
    by (simp add: rows) (simp add: provider_get_def demo_defs)
  have rep: "replies (dodo demo_world) = Ok ''id_1'' # [Ok ''id_2'', Ok ''id_3'', Ok ''id_4'']"
    by (simp add: demo_defs)
  have mrows: "customer_rows demo_member mixed_world = [''cus_1'', ''cus_2'', ''cus_3'']"
    by (simp add: customer_rows_def demo_defs demo2_defs)
  have mnone: "first_live (customers (dodo mixed_world)) (customer_rows demo_member mixed_world) = None"
    by (simp add: mrows) (simp add: provider_get_def demo_defs demo2_defs)
  have mrep: "replies (dodo mixed_world) = Ok ''id_1'' # [Ok ''id_2'', Ok ''id_3'', Ok ''id_4'']"
    by (simp add: demo_defs demo2_defs)
  have dm: "m_id demo_member = ''m1''" "m_email demo_member = ''ann@example.com''"
    "m_name demo_member = Some ''Ann''" by (simp_all add: demo_member_def)
  have tbl: "customers (dodo demo_world) = []" "DodoCustomerModel demo_world =
       [\<lparr>cr_member_id = ''m1'', cr_customer_id = ''cus_1'', cr_email = None, cr_name = None\<rparr>]"
    by (simp_all add: demo_defs)
  have mtbl: "length (customers (dodo mixed_world)) = 2"
    "map cr_customer_id (DodoCustomerModel mixed_world) = [''cus_1'', ''cus_2'', ''cus_3'']"
    by (simp_all add: demo_defs demo2_defs)
  from vanished_customer_skipped
         [of demo_world "''cus_1''" "''Not found''" "[]" demo_member "''id_1''"
             "[Ok ''id_2'', Ok ''id_3'', Ok ''id_4'']" 404]
       vanished_customer_skipped
         [of ?w5 "''cus_1''" "''down''" "[]" demo_member "''id_1''" "[]" 500]
       vanished_customer_skipped
         [of mixed_world "''cus_1''" "''Not found''" "[]" demo_member "''id_1''"
             "[Ok ''id_2'', Ok ''id_3'', Ok ''id_4'']" 404]
  show ?thesis using a b c rows none rep mrows mnone mrep by (simp add: dm tbl mtbl)
qed

subsection \<open>Resolving twice\<close>

text \<open>
  C6, as the code has it. With no change at the provider between the calls, a second
  resolution of the customer of a member, the product of a tier, the coupon of an offer or
  the price of a tier and cadence returns what the first returned and leaves the provider
  as the first left it. The first call creates at most one artifact, except the price
  resolution, which creates at most one product and one price. (The coupon ids the
  provider assigns are not empty; the price rows have different ids.)
\<close>

theorem resolve_twice_same_id:
  "(fst (getCustomerForMember mem w) = Inr customer \<longrightarrow>
       fst (getCustomerForMember mem (snd (getCustomerForMember mem w))) = Inr customer
     \<and> dodo (snd (getCustomerForMember mem (snd (getCustomerForMember mem w)))) =
         dodo (snd (getCustomerForMember mem w))
     \<and> artifacts (dodo (snd (getCustomerForMember mem w))) \<le> artifacts (dodo w) + 1)
 \<and> (fst (getProductForTier tr w) = Inr product \<longrightarrow>
       fst (getProductForTier tr (snd (getProductForTier tr w))) = Inr product
     \<and> dodo (snd (getProductForTier tr (snd (getProductForTier tr w)))) = dodo (snd (getProductForTier tr w))
     \<and> artifacts (dodo (snd (getProductForTier tr w))) \<le> artifacts (dodo w) + 1)
 \<and> (Ok [] \<notin> set (replies (dodo w)) \<and> fst (getCouponForOffer offerId w) = Inr coupon \<longrightarrow>
       getCouponForOffer offerId (snd (getCouponForOffer offerId w)) =
         (Inr coupon, snd (getCouponForOffer offerId w))
     \<and> artifacts (dodo (snd (getCouponForOffer offerId w))) \<le> artifacts (dodo w) + 1)
 \<and> (distinct (map row_id (DodoPriceModel w)) \<and> fst (getPriceForTierCadence tr cad w) = Inr price \<longrightarrow>
       fst (getPriceForTierCadence tr cad (snd (getPriceForTierCadence tr cad w))) = Inr price
     \<and> dodo (snd (getPriceForTierCadence tr cad (snd (getPriceForTierCadence tr cad w)))) =
         dodo (snd (getPriceForTierCadence tr cad w))
     \<and> length (prices (dodo (snd (getPriceForTierCadence tr cad w)))) \<le> length (prices (dodo w)) + 1
     \<and> length (products (dodo (snd (getPriceForTierCadence tr cad w)))) \<le> length (products (dodo w)) + 1
     \<and> artifacts (dodo (snd (getPriceForTierCadence tr cad w))) \<le> artifacts (dodo w) + 2)"
proof (intro conjI impI)
  assume "fst (getCustomerForMember mem w) = Inr customer"
  then obtain w1 where r: "getCustomerForMember mem w = (Inr customer, w1)"
    by (cases "getCustomerForMember mem w") simp
  from customer_idempotent [OF r] obtain w2 where
    s: "getCustomerForMember mem w1 = (Inr customer, w2)" "unlogged w2 = unlogged w1"
    and n: "artifacts (dodo w1) \<le> artifacts (dodo w) + 1" by blast
  show "fst (getCustomerForMember mem (snd (getCustomerForMember mem w))) = Inr customer"
    and "dodo (snd (getCustomerForMember mem (snd (getCustomerForMember mem w)))) =
         dodo (snd (getCustomerForMember mem w))"
    and "artifacts (dodo (snd (getCustomerForMember mem w))) \<le> artifacts (dodo w) + 1"
    using s n unlogged_fields(1) [OF s(2)] by (simp_all add: r)
next
  assume "fst (getProductForTier tr w) = Inr product"
  then obtain w1 where r: "getProductForTier tr w = (Inr product, w1)"
    by (cases "getProductForTier tr w") simp
  from product_idempotent [OF r] obtain w2 where
    s: "getProductForTier tr w1 = (Inr product, w2)" "unlogged w2 = unlogged w1"
    and n: "artifacts (dodo w1) \<le> artifacts (dodo w) + 1" by blast
  show "fst (getProductForTier tr (snd (getProductForTier tr w))) = Inr product"
    and "dodo (snd (getProductForTier tr (snd (getProductForTier tr w)))) = dodo (snd (getProductForTier tr w))"
    and "artifacts (dodo (snd (getProductForTier tr w))) \<le> artifacts (dodo w) + 1"
    using s n unlogged_fields(1) [OF s(2)] by (simp_all add: r)
next
  assume a: "Ok [] \<notin> set (replies (dodo w)) \<and> fst (getCouponForOffer offerId w) = Inr coupon"
  then obtain w1 where r: "getCouponForOffer offerId w = (Inr coupon, w1)"
    by (cases "getCouponForOffer offerId w") simp
  from a have ne: "Ok [] \<notin> set (replies (dodo w))" by simp
  from coupon_idempotent [OF ne r]
  show "getCouponForOffer offerId (snd (getCouponForOffer offerId w)) =
         (Inr coupon, snd (getCouponForOffer offerId w))"
    and "artifacts (dodo (snd (getCouponForOffer offerId w))) \<le> artifacts (dodo w) + 1"
    by (simp_all add: r)
next
  assume a: "distinct (map row_id (DodoPriceModel w)) \<and> fst (getPriceForTierCadence tr cad w) = Inr price"
  then obtain w1 where r: "getPriceForTierCadence tr cad w = (Inr price, w1)"
    by (cases "getPriceForTierCadence tr cad w") simp
  from a have d: "distinct (map row_id (DodoPriceModel w))" by simp
  note p = price_idempotent [OF d r]
  from p(1) obtain w2 where s: "getPriceForTierCadence tr cad w1 = (Inr price, w2)" "dodo w2 = dodo w1"
    by blast
  show "fst (getPriceForTierCadence tr cad (snd (getPriceForTierCadence tr cad w))) = Inr price"
    and "dodo (snd (getPriceForTierCadence tr cad (snd (getPriceForTierCadence tr cad w)))) =
         dodo (snd (getPriceForTierCadence tr cad w))"
    and "length (prices (dodo (snd (getPriceForTierCadence tr cad w)))) \<le> length (prices (dodo w)) + 1"
    and "length (products (dodo (snd (getPriceForTierCadence tr cad w)))) \<le> length (products (dodo w)) + 1"
    and "artifacts (dodo (snd (getPriceForTierCadence tr cad w))) \<le> artifacts (dodo w) + 2"
    using s p(2-) by (simp_all add: r artifacts_def)
qed

text \<open>
  C6 as stated fails for the price of a tier that has nothing cached: the first call
  creates a product and a price, two artifacts; the second call returns the same id and
  creates nothing.
\<close>

theorem first_price_resolution_creates_two:
  "artifacts (dodo fresh_world) = 0
   \<and> fst (getPriceForTierCadence demo_tier month fresh_world) = Inr ''id_2''
   \<and> artifacts (dodo (snd (getPriceForTierCadence demo_tier month fresh_world))) = 2
   \<and> fst (getPriceForTierCadence demo_tier month (snd (getPriceForTierCadence demo_tier month fresh_world))) =
       Inr ''id_2''
   \<and> artifacts (dodo (snd (getPriceForTierCadence demo_tier month
        (snd (getPriceForTierCadence demo_tier month fresh_world))))) = 2"
  by (simp add: payments_defs api_defs demo_defs demo2_defs log_defs Let_def)

text \<open>C6 at the small publication with a percent offer that has no coupon yet.\<close>

theorem resolve_twice_same_id_witness:
  "fst (getCustomerForMember demo_member (offer_world None)) =
     Inr \<lparr>dc_id = Some ''id_1'', dc_email = Some ''ann@example.com'', dc_name = Some ''Ann'',
          dc_deleted = False\<rparr>
   \<and> fst (getCustomerForMember demo_member (snd (getCustomerForMember demo_member (offer_world None)))) =
     Inr \<lparr>dc_id = Some ''id_1'', dc_email = Some ''ann@example.com'', dc_name = Some ''Ann'',
          dc_deleted = False\<rparr>
   \<and> fst (getProductForTier demo_tier (offer_world None)) = Inr ''id_1''
   \<and> fst (getProductForTier demo_tier (snd (getProductForTier demo_tier (offer_world None)))) = Inr ''id_1''
   \<and> Ok [] \<notin> set (replies (dodo (offer_world None)))
   \<and> fst (getCouponForOffer ''off_1'' (offer_world None)) = Inr (Some ''id_1'')
   \<and> getCouponForOffer ''off_1'' (snd (getCouponForOffer ''off_1'' (offer_world None))) =
       (Inr (Some ''id_1''), snd (getCouponForOffer ''off_1'' (offer_world None)))
   \<and> distinct (map row_id (DodoPriceModel (offer_world None)))
   \<and> fst (getPriceForTierCadence demo_tier month (offer_world None)) = Inr ''id_2''
   \<and> fst (getPriceForTierCadence demo_tier month
        (snd (getPriceForTierCadence demo_tier month (offer_world None)))) = Inr ''id_2''
   \<and> artifacts (dodo (snd (getPriceForTierCadence demo_tier month (offer_world None)))) \<le>
       artifacts (dodo (offer_world None)) + 2"
proof -
  let ?w = "offer_world None"
  let ?c = "\<lparr>dc_id = Some ''id_1'', dc_email = Some ''ann@example.com'', dc_name = Some ''Ann'',
          dc_deleted = False\<rparr>"
  have h1: "fst (getCustomerForMember demo_member ?w) = Inr ?c"
    by (simp add: payments_defs api_defs demo_defs demo2_defs log_defs Let_def)
  have h2: "fst (getProductForTier demo_tier ?w) = Inr ''id_1''"
    by (simp add: payments_defs api_defs demo_defs demo2_defs log_defs Let_def)
  have h3: "Ok [] \<notin> set (replies (dodo ?w))"
    by (simp add: demo_defs demo2_defs)
  have h4: "fst (getCouponForOffer ''off_1'' ?w) = Inr (Some ''id_1'')"
    by (simp add: payments_defs api_defs demo_defs demo2_defs log_defs Let_def)
  have h5: "distinct (map row_id (DodoPriceModel ?w))"
    by (simp add: demo_defs demo2_defs)
  have h6: "fst (getPriceForTierCadence demo_tier month ?w) = Inr ''id_2''"
    by (simp add: payments_defs api_defs demo_defs demo2_defs log_defs Let_def)
  from resolve_twice_same_id [of demo_member ?w ?c demo_tier "''id_1''" "''off_1''" "Some ''id_1''" month "''id_2''"]
  show ?thesis using h1 h2 h3 h4 h5 h6 by simp
qed

end
